theory Spec2Isabelle
  imports Complex_Main "HOL-Library.AList"
begin

section \<open>Python values shared by the modules\<close>

text \<open>
  Primary keys are UUID objects; only their identity matters here, so a UUID is a natural
  number.  A UUID object is always truthy in Python, so a test such as \<open>if lot_id\<close> on an
  optional UUID is a test for \<open>None\<close>.  Python floats are modelled as reals; the special
  values (\<open>inf\<close>, \<open>nan\<close>) are written out for \<open>calculate_iou\<close> in a subsection of its own.
\<close>

type_synonym UUID = nat

datatype pyexn =
    GEOSException
  | ValueError string
  | FileNotFoundError string
  | ZeroDivisionError
  | HTTPException nat string

section \<open>The geometry kernel (Shapely) as a parameter\<close>

text \<open>
  \<open>shapely.geometry.Polygon\<close> and \<open>box\<close> are not code of the repository.  The polygon type
  \<open>'p\<close>, the GeoJSON value type \<open>'j\<close> and the operations the repository calls are the fields
  of a record.  \<open>intersection_area g a b\<close> stands for \<open>a.intersection(b).area\<close>,
  \<open>union_area g a b\<close> for \<open>a.union(b).area\<close> and \<open>area g a\<close> for \<open>a.area\<close>; each of them
  may raise (GEOS raises on some invalid rings), which is the value \<open>None\<close>.  The two
  constructors are total: the stored rings and boxes are taken to be ones from which
  Shapely builds a polygon.
\<close>

record ('p, 'j) geometry =
  polygon_from_geojson :: "'j \<Rightarrow> 'p"
  box :: "real \<Rightarrow> real \<Rightarrow> real \<Rightarrow> real \<Rightarrow> 'p"
  intersection_area :: "'p \<Rightarrow> 'p \<Rightarrow> real option"
  union_area :: "'p \<Rightarrow> 'p \<Rightarrow> real option"
  area :: "'p \<Rightarrow> real option"

record bbox =
  x1 :: real
  y1 :: real
  x2 :: real
  y2 :: real

text \<open>\<open>bbox_to_polygon\<close> of \<open>videos.py\<close> and \<open>detections.py\<close>.\<close>

definition bbox_to_polygon :: "('p, 'j) geometry \<Rightarrow> bbox \<Rightarrow> 'p" where
  "bbox_to_polygon g bbox_norm = box g (x1 bbox_norm) (y1 bbox_norm) (x2 bbox_norm) (y2 bbox_norm)"

text \<open>
  \<open>calculate_iou\<close> (the same text in \<open>videos.py\<close>, \<open>detections.py\<close> and \<open>video_tasks.py\<close>).
  \<open>calculate_iou_try\<close> is the body of the \<open>try\<close> block, \<open>calculate_iou\<close> adds the handler
  \<open>except Exception: return 0.0\<close>.
\<close>

definition calculate_iou_try :: "('p, 'j) geometry \<Rightarrow> 'p \<Rightarrow> 'p \<Rightarrow> pyexn + real" where
  "calculate_iou_try g poly1 poly2 =
     (case intersection_area g poly1 poly2 of
        None \<Rightarrow> Inl GEOSException
      | Some intersection \<Rightarrow>
          (case union_area g poly1 poly2 of
             None \<Rightarrow> Inl GEOSException
           | Some union' \<Rightarrow> Inr (if union' > 0 then intersection / union' else 0)))"

definition calculate_iou :: "('p, 'j) geometry \<Rightarrow> 'p \<Rightarrow> 'p \<Rightarrow> real" where
  "calculate_iou g poly1 poly2 =
     (case calculate_iou_try g poly1 poly2 of Inl e \<Rightarrow> 0 | Inr r \<Rightarrow> r)"

text \<open>\<open>check_containment\<close> of \<open>videos.py\<close>, with its \<open>try\<close> block and its handler.\<close>

definition check_containment_try :: "('p, 'j) geometry \<Rightarrow> 'p \<Rightarrow> 'p \<Rightarrow> real \<Rightarrow> pyexn + bool" where
  "check_containment_try g slot_poly lot_poly threshold =
     (case intersection_area g slot_poly lot_poly of
        None \<Rightarrow> Inl GEOSException
      | Some intersection \<Rightarrow>
          (case area g slot_poly of
             None \<Rightarrow> Inl GEOSException
           | Some slot_area \<Rightarrow>
               if slot_area = 0 then Inr False
               else Inr (intersection / slot_area \<ge> threshold)))"

definition check_containment :: "('p, 'j) geometry \<Rightarrow> 'p \<Rightarrow> 'p \<Rightarrow> real \<Rightarrow> bool" where
  "check_containment g slot_poly lot_poly threshold =
     (case check_containment_try g slot_poly lot_poly threshold of Inl e \<Rightarrow> False | Inr b \<Rightarrow> b)"

subsection \<open>Axis-aligned boxes: a concrete kernel for evaluation\<close>

text \<open>
  For two axis-aligned rectangles the areas Shapely returns have a closed form.  A rectangle
  is the tuple of the arguments of \<open>box\<close>; reversed corners denote the same rectangle.  This
  kernel never raises.  It is used to run the model on concrete inputs.
\<close>

type_synonym rect = "real \<times> real \<times> real \<times> real"

definition rect_area :: "rect \<Rightarrow> real" where
  "rect_area r = (case r of (a, b, c, d) \<Rightarrow> \<bar>c - a\<bar> * \<bar>d - b\<bar>)"

definition rect_intersection_area :: "rect \<Rightarrow> rect \<Rightarrow> real" where
  "rect_intersection_area r s =
     (case r of (a, b, c, d) \<Rightarrow> case s of (a', b', c', d') \<Rightarrow>
        max 0 (min (max a c) (max a' c') - max (min a c) (min a' c')) *
        max 0 (min (max b d) (max b' d') - max (min b d) (min b' d')))"

definition rect_union_area :: "rect \<Rightarrow> rect \<Rightarrow> real" where
  "rect_union_area r s = rect_area r + rect_area s - rect_intersection_area r s"

definition rect_geometry :: "(rect, rect) geometry" where
  "rect_geometry =
     \<lparr> polygon_from_geojson = (\<lambda>r. r),
       box = (\<lambda>a b c d. (a, b, c, d)),
       intersection_area = (\<lambda>r s. Some (rect_intersection_area r s)),
       union_area = (\<lambda>r s. Some (rect_union_area r s)),
       area = (\<lambda>r. Some (rect_area r)) \<rparr>"

subsection \<open>Python floats: overflow and the special values\<close>

text \<open>
  The areas Shapely returns and the quotient are IEEE doubles.  \<open>calculate_iou\<close> above
  computes with exact reals; that is the value of the source as long as no area and no
  quotient leaves the range of a double (lemma \<open>calculate_iou_float_finite\<close> below).  Here
  the special values are written out: a value beyond \<open>max_double\<close> becomes an infinity,
  \<open>inf / inf\<close> is \<open>nan\<close>, and every comparison with \<open>nan\<close> is false.  The rounding of finite
  values is not modelled.  The kernel gives the exact area of an overlay and the program
  reads \<open>to_float\<close> of it.
\<close>

datatype pyfloat = Finite real | PosInf | NegInf | NaN

definition max_double :: real where
  "max_double = (2 - 1 / 2 ^ 52) * 2 ^ 1023"

definition to_float :: "real \<Rightarrow> pyfloat" where
  "to_float x =
     (if x > max_double then PosInf else if x < - max_double then NegInf else Finite x)"

text \<open>Python's \<open>a > b\<close>, \<open>a >= b\<close> and \<open>a == b\<close> on floats.\<close>

fun float_gt :: "pyfloat \<Rightarrow> pyfloat \<Rightarrow> bool" where
  "float_gt NaN b = False"
| "float_gt a NaN = False"
| "float_gt (Finite a) (Finite b) = (a > b)"
| "float_gt PosInf PosInf = False"
| "float_gt PosInf b = True"
| "float_gt a PosInf = False"
| "float_gt NegInf b = False"
| "float_gt (Finite a) NegInf = True"

fun float_eq :: "pyfloat \<Rightarrow> pyfloat \<Rightarrow> bool" where
  "float_eq NaN b = False"
| "float_eq a NaN = False"
| "float_eq a b = (a = b)"

definition float_ge :: "pyfloat \<Rightarrow> pyfloat \<Rightarrow> bool" where
  "float_ge a b = (float_gt a b \<or> float_eq a b)"

text \<open>Python's \<open>a / b\<close> on floats; a zero divisor raises.\<close>

fun float_div :: "pyfloat \<Rightarrow> pyfloat \<Rightarrow> pyexn + pyfloat" where
  "float_div NaN b = Inr NaN"
| "float_div a NaN = Inr NaN"
| "float_div (Finite a) (Finite b) =
     (if b = 0 then Inl ZeroDivisionError else Inr (to_float (a / b)))"
| "float_div (Finite a) PosInf = Inr (Finite 0)"
| "float_div (Finite a) NegInf = Inr (Finite 0)"
| "float_div PosInf (Finite b) =
     (if b = 0 then Inl ZeroDivisionError else if b > 0 then Inr PosInf else Inr NegInf)"
| "float_div NegInf (Finite b) =
     (if b = 0 then Inl ZeroDivisionError else if b > 0 then Inr NegInf else Inr PosInf)"
| "float_div a b = Inr NaN"

text \<open>\<open>calculate_iou\<close> on these floats: the \<open>try\<close> block, then the handler.\<close>

definition calculate_iou_float_try ::
    "('p, 'j) geometry \<Rightarrow> 'p \<Rightarrow> 'p \<Rightarrow> pyexn + pyfloat" where
  "calculate_iou_float_try g poly1 poly2 =
     (case intersection_area g poly1 poly2 of
        None \<Rightarrow> Inl GEOSException
      | Some i \<Rightarrow>
          (case union_area g poly1 poly2 of
             None \<Rightarrow> Inl GEOSException
           | Some u \<Rightarrow>
               let intersection = to_float i; union' = to_float u in
               if float_gt union' (Finite 0) then float_div intersection union'
               else Inr (Finite 0)))"

definition calculate_iou_float :: "('p, 'j) geometry \<Rightarrow> 'p \<Rightarrow> 'p \<Rightarrow> pyfloat" where
  "calculate_iou_float g poly1 poly2 =
     (case calculate_iou_float_try g poly1 poly2 of Inl e \<Rightarrow> Finite 0 | Inr r \<Rightarrow> r)"

section \<open>The occupancy tracker (\<open>video_tasks.py\<close>)\<close>

record OccupancyTracker =
  confirm_frames :: int
  state :: "UUID \<rightharpoonup> bool list"

text \<open>\<open>OccupancyTracker.__init__\<close>.\<close>

definition OccupancyTracker_init :: "int \<Rightarrow> OccupancyTracker" where
  "OccupancyTracker_init n = \<lparr> confirm_frames = n, state = Map.empty \<rparr>"

text \<open>
  \<open>OccupancyTracker.update\<close>: the tracker is returned updated together with the result.
  The list is never empty when \<open>pop(0)\<close> runs, so \<open>pop(0)\<close> is \<open>tl\<close>.
\<close>

definition update :: "OccupancyTracker \<Rightarrow> UUID \<Rightarrow> bool \<Rightarrow> OccupancyTracker \<times> string option" where
  "update self slot_id is_occupied =
     (let st0 = (case state self slot_id of None \<Rightarrow> [] | Some w \<Rightarrow> w);
          st1 = st0 @ [is_occupied];
          st2 = (if int (length st1) > confirm_frames self then tl st1 else st1);
          self' = self\<lparr> state := (state self)(slot_id \<mapsto> st2) \<rparr>
      in (self',
          if int (length st2) = confirm_frames self then
            (if list_all (\<lambda>b. b) st2 then Some ''occupied''
             else if \<not> list_ex (\<lambda>b. b) st2 then Some ''free''
             else None)
          else None))"

text \<open>Feeding an ordered sequence of samples of one slot, collecting the results.\<close>

fun feed :: "OccupancyTracker \<Rightarrow> UUID \<Rightarrow> bool list \<Rightarrow> string option list" where
  "feed self slot_id [] = []"
| "feed self slot_id (b # bs) =
     (case update self slot_id b of (self', r) \<Rightarrow> r # feed self' slot_id bs)"


section \<open>Stored entities\<close>

text \<open>
  The rows the endpoints read.  \<open>slot_polygon\<close> and \<open>lot_polygon\<close> are the stored GeoJSON
  values (\<open>slot.polygon\<close>, \<open>lot.polygon\<close>), turned into polygons by \<open>polygon_from_geojson\<close>.
\<close>

record 'j ParkingSlot =
  slot_id :: UUID
  slot_name :: string
  slot_polygon :: 'j

record 'j ParkingLot =
  lot_id :: UUID
  lot_name :: string
  lot_polygon :: 'j

record Detection =
  frame_number :: int
  frame_time :: real
  offset_seconds :: real
  class_id :: int
  class_name :: string
  confidence :: real
  bbox_normalized :: bbox

text \<open>
  A Python \<open>dict\<close> is an association list in insertion order; \<open>d[k] = v\<close> is \<open>AList.update\<close>
  (the value of an existing key is replaced in place, a new key goes to the end).  The
  comprehension \<open>{slot.id: (polygon_from_geojson(slot.polygon), slot.name) for slot in
  parking_slots}\<close>, written in every endpoint:
\<close>

definition slot_polygons_of ::
    "('p, 'j) geometry \<Rightarrow> 'j ParkingSlot list \<Rightarrow> (UUID \<times> 'p \<times> string) list" where
  "slot_polygons_of g parking_slots =
     fold (\<lambda>slot d. AList.update (slot_id slot)
                       (polygon_from_geojson g (slot_polygon slot), slot_name slot) d)
          parking_slots []"

definition lot_polygons_of ::
    "('p, 'j) geometry \<Rightarrow> 'j ParkingLot list \<Rightarrow> (UUID \<times> 'p \<times> string) list" where
  "lot_polygons_of g parking_lots =
     fold (\<lambda>lot d. AList.update (lot_id lot)
                      (polygon_from_geojson g (lot_polygon lot), lot_name lot) d)
          parking_lots []"

section \<open>The slot matcher (\<open>detections.py\<close>)\<close>

text \<open>
  The loop under \<open># Find best matching slot\<close> in \<open>get_detections_by_frames\<close> and
  \<open>get_frame_detections\<close>, over \<open>slot_polygons.items()\<close>; the accumulator is
  \<open>(best_slot_id, best_slot_name, best_iou)\<close>.
\<close>

fun best_slot_loop ::
    "('p, 'j) geometry \<Rightarrow> real \<Rightarrow> 'p \<Rightarrow> (UUID \<times> 'p \<times> string) list
       \<Rightarrow> UUID option \<times> string option \<times> real \<Rightarrow> UUID option \<times> string option \<times> real" where
  "best_slot_loop g iou_threshold detection_polygon [] best = best"
| "best_slot_loop g iou_threshold detection_polygon ((sid, slot_poly, sname) # rest)
       (best_slot_id, best_slot_name, best_iou) =
     (let iou = calculate_iou g detection_polygon slot_poly in
      if iou > best_iou \<and> iou \<ge> iou_threshold
      then best_slot_loop g iou_threshold detection_polygon rest (Some sid, Some sname, iou)
      else best_slot_loop g iou_threshold detection_polygon rest
             (best_slot_id, best_slot_name, best_iou))"

definition find_best_matching_slot ::
    "('p, 'j) geometry \<Rightarrow> real \<Rightarrow> 'p \<Rightarrow> (UUID \<times> 'p \<times> string) list
       \<Rightarrow> UUID option \<times> string option \<times> real" where
  "find_best_matching_slot g iou_threshold detection_polygon slot_polygons =
     best_slot_loop g iou_threshold detection_polygon slot_polygons (None, None, 0)"

text \<open>
  The slot fields of \<open>DetectionWithSlot\<close>, as both endpoints fill them (\<open>iou_value\<close> is the
  field \<open>iou\<close>).
\<close>

record slot_association =
  parking_slot_id :: "UUID option"
  parking_slot_name :: "string option"
  iou_value :: "real option"
  is_in_slot :: bool

definition associate_detection ::
    "('p, 'j) geometry \<Rightarrow> real \<Rightarrow> (UUID \<times> 'p \<times> string) list \<Rightarrow> Detection
       \<Rightarrow> slot_association" where
  "associate_detection g iou_threshold slot_polygons detection =
     (case find_best_matching_slot g iou_threshold
             (bbox_to_polygon g (bbox_normalized detection)) slot_polygons of
        (best_slot_id, best_slot_name, best_iou) \<Rightarrow>
          \<lparr> parking_slot_id = best_slot_id,
            parking_slot_name = best_slot_name,
            iou_value = (if best_slot_id \<noteq> None then Some best_iou else None),
            is_in_slot = (best_slot_id \<noteq> None) \<rparr>)"

section \<open>Per-frame occupancy in the aggregating endpoints\<close>

text \<open>
  The inner loop \<open>for slot_id, (slot_polygon, slot_name) in slot_polygons.items()\<close> that
  \<open>get_occupancy_stats\<close>, \<open>get_current_parking_status\<close>, \<open>get_lots_parking_status\<close> and
  \<open>get_video_analytics\<close> run for each detection: every slot whose IoU reaches the
  threshold is added to the set.
\<close>

fun mark_slots ::
    "('p, 'j) geometry \<Rightarrow> real \<Rightarrow> 'p \<Rightarrow> (UUID \<times> 'p \<times> string) list \<Rightarrow> UUID set \<Rightarrow> UUID set" where
  "mark_slots g iou_threshold detection_polygon [] occupied_slots = occupied_slots"
| "mark_slots g iou_threshold detection_polygon ((sid, slot_poly, sname) # rest) occupied_slots =
     (let iou = calculate_iou g detection_polygon slot_poly in
      if iou \<ge> iou_threshold
      then mark_slots g iou_threshold detection_polygon rest (insert sid occupied_slots)
      else mark_slots g iou_threshold detection_polygon rest occupied_slots)"

text \<open>
  The outer loop \<open>for detection in detections\<close> of \<open>get_current_parking_status\<close> and
  \<open>get_lots_parking_status\<close> (\<open># Check occupancy\<close>).
\<close>

fun occupied_slots_loop ::
    "('p, 'j) geometry \<Rightarrow> real \<Rightarrow> (UUID \<times> 'p \<times> string) list \<Rightarrow> Detection list
       \<Rightarrow> UUID set \<Rightarrow> UUID set" where
  "occupied_slots_loop g iou_threshold slot_polygons [] occupied_slots = occupied_slots"
| "occupied_slots_loop g iou_threshold slot_polygons (detection # rest) occupied_slots =
     (let detection_polygon = bbox_to_polygon g (bbox_normalized detection) in
      occupied_slots_loop g iou_threshold slot_polygons rest
        (mark_slots g iou_threshold detection_polygon slot_polygons occupied_slots))"

definition check_occupancy ::
    "('p, 'j) geometry \<Rightarrow> real \<Rightarrow> (UUID \<times> 'p \<times> string) list \<Rightarrow> Detection list \<Rightarrow> UUID set" where
  "check_occupancy g iou_threshold slot_polygons detections =
     occupied_slots_loop g iou_threshold slot_polygons detections {}"

text \<open>
  The grouping loop of \<open>get_occupancy_stats\<close> (\<open>frame_occupancy\<close>) and of
  \<open>get_video_analytics\<close> (\<open>frame_data\<close>): a dict keyed by frame number.  The two loops
  differ in the names of the keys only (\<open>detections\<close> is \<open>total_vehicles\<close> in
  \<open>get_video_analytics\<close>, which also stores \<open>offset_seconds\<close>); \<open>fe_count\<close> is that counter.
  \<open>add_to_frame\<close> is the body of the loop.
\<close>

record frame_entry =
  fe_frame_number :: int
  fe_frame_time :: real
  fe_offset_seconds :: real
  fe_occupied_slots :: "UUID set"
  fe_count :: nat

definition add_to_frame ::
    "('p, 'j) geometry \<Rightarrow> real \<Rightarrow> (UUID \<times> 'p \<times> string) list \<Rightarrow> Detection
       \<Rightarrow> (int \<times> frame_entry) list \<Rightarrow> (int \<times> frame_entry) list" where
  "add_to_frame g iou_threshold slot_polygons detection frame_occupancy =
     (let frame_num = frame_number detection;
          fo1 = (if map_of frame_occupancy frame_num = None
                 then AList.update frame_num
                        \<lparr> fe_frame_number = frame_num,
                          fe_frame_time = frame_time detection,
                          fe_offset_seconds = offset_seconds detection,
                          fe_occupied_slots = {},
                          fe_count = 0 \<rparr> frame_occupancy
                 else frame_occupancy);
          detection_polygon = bbox_to_polygon g (bbox_normalized detection);
          fo2 = AList.map_entry frame_num
                  (\<lambda>e. e\<lparr> fe_occupied_slots :=
                             mark_slots g iou_threshold detection_polygon slot_polygons
                               (fe_occupied_slots e) \<rparr>) fo1
      in AList.map_entry frame_num (\<lambda>e. e\<lparr> fe_count := fe_count e + 1 \<rparr>) fo2)"

fun group_by_frame ::
    "('p, 'j) geometry \<Rightarrow> real \<Rightarrow> (UUID \<times> 'p \<times> string) list \<Rightarrow> Detection list
       \<Rightarrow> (int \<times> frame_entry) list \<Rightarrow> (int \<times> frame_entry) list" where
  "group_by_frame g iou_threshold slot_polygons [] frame_occupancy = frame_occupancy"
| "group_by_frame g iou_threshold slot_polygons (detection # rest) frame_occupancy =
     group_by_frame g iou_threshold slot_polygons rest
       (add_to_frame g iou_threshold slot_polygons detection frame_occupancy)"

text \<open>\<open>get_occupancy_stats\<close> (\<open>detections.py\<close>): the timeline and the result.\<close>

record timeline_entry =
  tl_frame_number :: int
  tl_frame_time :: real
  tl_total_slots :: nat
  tl_occupied_slots :: nat
  tl_free_slots :: int
  tl_occupancy_rate :: real
  tl_total_detections :: nat

definition occupancy_timeline :: "nat \<Rightarrow> (int \<times> frame_entry) list \<Rightarrow> timeline_entry list" where
  "occupancy_timeline total_slots frame_occupancy =
     map (\<lambda>frame_data.
            let occupied_count = card (fe_occupied_slots frame_data) in
            \<lparr> tl_frame_number = fe_frame_number frame_data,
              tl_frame_time = fe_frame_time frame_data,
              tl_total_slots = total_slots,
              tl_occupied_slots = occupied_count,
              tl_free_slots = int total_slots - int occupied_count,
              tl_occupancy_rate =
                (if total_slots > 0 then real occupied_count / real total_slots else 0),
              tl_total_detections = fe_count frame_data \<rparr>)
         (sort_key fe_frame_number (map snd frame_occupancy))"

record occupancy_stats =
  os_total_slots :: nat
  os_frames_analyzed :: nat
  os_average_occupancy_rate :: real
  os_timeline :: "timeline_entry list"

definition get_occupancy_stats ::
    "('p, 'j) geometry \<Rightarrow> real \<Rightarrow> Detection list \<Rightarrow> 'j ParkingSlot list \<Rightarrow> occupancy_stats" where
  "get_occupancy_stats g iou_threshold detections parking_slots =
     (let slot_polygons = slot_polygons_of g parking_slots;
          frame_occupancy = group_by_frame g iou_threshold slot_polygons detections [];
          total_slots = length parking_slots;
          timeline = occupancy_timeline total_slots frame_occupancy;
          avg_occupancy =
            (if timeline \<noteq> []
             then sum_list (map tl_occupancy_rate timeline) / real (length timeline)
             else 0)
      in \<lparr> os_total_slots = total_slots,
           os_frames_analyzed = length timeline,
           os_average_occupancy_rate = avg_occupancy,
           os_timeline = timeline \<rparr>)"

text \<open>
  The \<open>occupancy\<close> entry of \<open>get_frame_detections\<close> (\<open>detections.py\<close>), the endpoint for one
  frame.  \<open>detections\<close> are the rows of that frame; when there is none the entry holds no
  rate (\<open>None\<close> here).  The loop runs the slot matcher on every detection and collects the
  slots it returns in \<open>occupied_slot_ids\<close>.
\<close>

record frame_occupancy =
  fo_occupied_count :: nat
  fo_free_count :: int
  fo_occupancy_rate :: real

fun occupied_slot_ids_loop ::
    "('p, 'j) geometry \<Rightarrow> real \<Rightarrow> (UUID \<times> 'p \<times> string) list \<Rightarrow> Detection list
       \<Rightarrow> UUID set \<Rightarrow> UUID set" where
  "occupied_slot_ids_loop g iou_threshold slot_polygons [] occupied_slot_ids = occupied_slot_ids"
| "occupied_slot_ids_loop g iou_threshold slot_polygons (detection # rest) occupied_slot_ids =
     (case find_best_matching_slot g iou_threshold
             (bbox_to_polygon g (bbox_normalized detection)) slot_polygons of
        (best_slot_id, best_slot_name, best_iou) \<Rightarrow>
          (case best_slot_id of
             None \<Rightarrow> occupied_slot_ids_loop g iou_threshold slot_polygons rest occupied_slot_ids
           | Some sid \<Rightarrow>
               occupied_slot_ids_loop g iou_threshold slot_polygons rest
                 (insert sid occupied_slot_ids)))"

definition get_frame_detections_occupancy ::
    "('p, 'j) geometry \<Rightarrow> real \<Rightarrow> 'j ParkingSlot list \<Rightarrow> Detection list
       \<Rightarrow> frame_occupancy option" where
  "get_frame_detections_occupancy g iou_threshold parking_slots detections =
     (if detections = [] then None
      else
        let slot_polygons = slot_polygons_of g parking_slots;
            occupied_slot_ids =
              occupied_slot_ids_loop g iou_threshold slot_polygons detections {}
        in Some \<lparr> fo_occupied_count = card occupied_slot_ids,
                    fo_free_count = int (length parking_slots) - int (card occupied_slot_ids),
                    fo_occupancy_rate =
                      (if parking_slots \<noteq> []
                       then real (card occupied_slot_ids) / real (length parking_slots)
                       else 0) \<rparr>)"

section \<open>Frame sampling and the processing task (\<open>video_tasks.py\<close>)\<close>

text \<open>
  The detector (\<open>model(frame)\<close>) and the decoder (\<open>cv2.VideoCapture\<close>) are external: a video
  file is its frame rate, its frame size and, for each frame that \<open>cap.read()\<close> yields, the
  boxes the detector returns on it.  \<open>None\<close> for the file means that \<open>video_path\<close> does not
  exist.  A readable video has a positive frame width and height.
\<close>

record yolo_box =
  xyxy :: bbox
  conf :: real
  cls :: int

record video_file =
  vf_fps :: real
  vf_frame_width :: real
  vf_frame_height :: real
  vf_frames :: "yolo_box list list"

record Video =
  video_id :: UUID
  video_start_time :: "real option"
  upload_time :: real
  processed :: bool
  processing_error :: "string option"

record settings =
  FRAME_STRIDE :: int
  IOU_THRESHOLD :: real
  CONFIDENCE_THRESHOLD :: real

definition vehicle_classes :: "(int \<times> string) list" where
  "vehicle_classes =
     [(0, ''pedestrian''), (1, ''people''), (2, ''bicycle''), (3, ''car''), (4, ''van''),
      (5, ''truck''), (6, ''tricycle''), (7, ''awning-tricycle''), (8, ''bus''), (9, ''motor'')]"

text \<open>The loop \<open>for box_data in boxes\<close>: the rows created for one analyzed frame.\<close>

fun boxes_to_detections ::
    "real \<Rightarrow> real \<Rightarrow> real \<Rightarrow> int \<Rightarrow> real \<Rightarrow> real \<Rightarrow> yolo_box list \<Rightarrow> Detection list" where
  "boxes_to_detections confidence_threshold frame_width frame_height frame_idx ftime offset [] = []"
| "boxes_to_detections confidence_threshold frame_width frame_height frame_idx ftime offset
       (box_data # rest) =
     (case map_of vehicle_classes (cls box_data) of
        None \<Rightarrow>
          boxes_to_detections confidence_threshold frame_width frame_height frame_idx ftime offset rest
      | Some cname \<Rightarrow>
          if conf box_data < confidence_threshold
          then boxes_to_detections confidence_threshold frame_width frame_height frame_idx
                 ftime offset rest
          else \<lparr> frame_number = frame_idx, frame_time = ftime, offset_seconds = offset,
                 class_id = cls box_data, class_name = cname, confidence = conf box_data,
                 bbox_normalized =
                   \<lparr> x1 = x1 (xyxy box_data) / frame_width, y1 = y1 (xyxy box_data) / frame_height,
                     x2 = x2 (xyxy box_data) / frame_width, y2 = y2 (xyxy box_data) / frame_height \<rparr> \<rparr>
               # boxes_to_detections confidence_threshold frame_width frame_height frame_idx
                   ftime offset rest)"

text \<open>
  The \<open>while cap.isOpened()\<close> loop of \<open>_process_video_frames\<close>: \<open>frame_idx\<close> counts the frames
  read, the accumulator holds the rows added to the session.  \<open>frame_idx % frame_stride\<close>
  raises for a stride of \<open>0\<close>.
\<close>

fun process_frames_loop ::
    "int \<Rightarrow> real \<Rightarrow> real \<Rightarrow> real \<Rightarrow> real \<Rightarrow> real \<Rightarrow> int \<Rightarrow> yolo_box list list
       \<Rightarrow> Detection list \<Rightarrow> pyexn + Detection list" where
  "process_frames_loop frame_stride confidence_threshold fps_v start frame_width frame_height
       frame_idx [] rows = Inr rows"
| "process_frames_loop frame_stride confidence_threshold fps_v start frame_width frame_height
       frame_idx (boxes # rest) rows =
     (if frame_stride = 0 then Inl ZeroDivisionError
      else if frame_idx mod frame_stride \<noteq> 0
      then process_frames_loop frame_stride confidence_threshold fps_v start frame_width
             frame_height (frame_idx + 1) rest rows
      else
        let offset = (if fps_v > 0 then real_of_int frame_idx / fps_v else 0);
            ftime = start + offset
        in process_frames_loop frame_stride confidence_threshold fps_v start frame_width
             frame_height (frame_idx + 1) rest
             (rows @ boxes_to_detections confidence_threshold frame_width frame_height
                       frame_idx ftime offset boxes))"

text \<open>
  \<open>_process_video_frames\<close>: the rows it adds; \<open>detections_created\<close> is their number.
\<close>

definition process_video_frames ::
    "video_file option \<Rightarrow> Video \<Rightarrow> int \<Rightarrow> real \<Rightarrow> pyexn + Detection list" where
  "process_video_frames file video frame_stride confidence_threshold =
     (case file of
        None \<Rightarrow> Inl (FileNotFoundError ''Video file not found'')
      | Some f \<Rightarrow>
          let start = (case video_start_time video of Some t \<Rightarrow> t | None \<Rightarrow> upload_time video)
          in process_frames_loop frame_stride confidence_threshold (vf_fps f) start
               (vf_frame_width f) (vf_frame_height f) 0 (vf_frames f) [])"


text \<open>
  \<open>process_video_task\<close>.  The database is the optional video row and the slot rows of its
  camera; the task returns the updated video row, the detection rows added, and its result
  or the exception it raises.  \<open>x or default\<close> takes the default for \<open>None\<close> and for \<open>0\<close>.
\<close>

fun str_of_exn :: "pyexn \<Rightarrow> string" where
  "str_of_exn (ValueError m) = m"
| "str_of_exn (FileNotFoundError m) = m"
| "str_of_exn ZeroDivisionError = ''integer modulo by zero''"
| "str_of_exn GEOSException = ''GEOSException''"
| "str_of_exn (HTTPException code m) = m"

record task_result =
  success :: bool
  events_created :: nat

definition process_video_task ::
    "settings \<Rightarrow> ('p, 'j) geometry \<Rightarrow> Video option \<Rightarrow> 'j ParkingSlot list \<Rightarrow> video_file option
       \<Rightarrow> int option \<Rightarrow> real option
       \<Rightarrow> Video option \<times> Detection list \<times> (pyexn + task_result)" where
  "process_video_task cfg g video parking_slots file frame_stride_arg confidence_threshold_arg =
     (let frame_stride =
            (case frame_stride_arg of None \<Rightarrow> FRAME_STRIDE cfg
             | Some n \<Rightarrow> if n = 0 then FRAME_STRIDE cfg else n);
          confidence_threshold =
            (case confidence_threshold_arg of None \<Rightarrow> CONFIDENCE_THRESHOLD cfg
             | Some c \<Rightarrow> if c = 0 then CONFIDENCE_THRESHOLD cfg else c)
      in case video of
           None \<Rightarrow> (None, [], Inl (ValueError ''Video not found''))
         | Some v \<Rightarrow>
             if parking_slots = []
             then (Some (v\<lparr> processed := False,
                            processing_error :=
                              Some ''No parking slots defined for this camera'' \<rparr>),
                   [], Inl (ValueError ''No parking slots defined for this camera''))
             else
               (case process_video_frames file v frame_stride confidence_threshold of
                  Inl e \<Rightarrow>
                    (Some (v\<lparr> processed := False, processing_error := Some (str_of_exn e) \<rparr>),
                     [], Inl e)
                | Inr rows \<Rightarrow>
                    (Some (v\<lparr> processed := True \<rparr>), rows,
                     Inr \<lparr> success = True, events_created = length rows \<rparr>)))"

section \<open>Current status of a camera (\<open>videos.py\<close>)\<close>

text \<open>
  \<open>round(x, 2)\<close> is Python's built-in rounding of a float to two decimals; it is the
  parameter \<open>rnd\<close> of the functions that call it.
\<close>

fun max_frame_number :: "Detection list \<Rightarrow> int option" where
  "max_frame_number [] = None"
| "max_frame_number (d # ds) =
     (case max_frame_number ds of
        None \<Rightarrow> Some (frame_number d)
      | Some m \<Rightarrow> Some (max (frame_number d) m))"

record slot_state =
  ss_id :: UUID
  ss_name :: string
  ss_status :: string

record status_summary =
  sm_total_slots :: nat
  sm_occupied :: nat
  sm_free :: int
  sm_occupancy_rate :: real

record current_status =
  cs_status :: string
  cs_video_id :: "UUID option"
  cs_frame_number :: "int option"
  cs_slots :: "slot_state list"
  cs_summary :: status_summary

text \<open>
  \<open>get_current_parking_status\<close>.  \<open>video\<close> is the latest processed video of the camera (the
  result of the first query) and \<open>video_detections\<close> are the detection rows of that video,
  from which the two detection queries select.
\<close>

definition get_current_parking_status ::
    "(real \<Rightarrow> real) \<Rightarrow> ('p, 'j) geometry \<Rightarrow> real \<Rightarrow> Video option \<Rightarrow> 'j ParkingSlot list
       \<Rightarrow> Detection list \<Rightarrow> current_status" where
  "get_current_parking_status rnd g iou_threshold video parking_slots video_detections =
     (case video of
        None \<Rightarrow>
          \<lparr> cs_status = ''no_data'', cs_video_id = None, cs_frame_number = None, cs_slots = [],
            cs_summary = \<lparr> sm_total_slots = 0, sm_occupied = 0, sm_free = 0,
                           sm_occupancy_rate = 0 \<rparr> \<rparr>
      | Some v \<Rightarrow>
          if parking_slots = [] then
            \<lparr> cs_status = ''no_slots'', cs_video_id = Some (video_id v), cs_frame_number = None,
              cs_slots = [],
              cs_summary = \<lparr> sm_total_slots = 0, sm_occupied = 0, sm_free = 0,
                             sm_occupancy_rate = 0 \<rparr> \<rparr>
          else
            (case max_frame_number video_detections of
               None \<Rightarrow>
                 \<lparr> cs_status = ''no_detections'', cs_video_id = Some (video_id v),
                   cs_frame_number = None,
                   cs_slots = map (\<lambda>slot. \<lparr> ss_id = slot_id slot, ss_name = slot_name slot,
                                             ss_status = ''unknown'' \<rparr>) parking_slots,
                   cs_summary = \<lparr> sm_total_slots = length parking_slots, sm_occupied = 0,
                                  sm_free = int (length parking_slots),
                                  sm_occupancy_rate = 0 \<rparr> \<rparr>
             | Some latest_frame \<Rightarrow>
                 let detections = filter (\<lambda>d. frame_number d = latest_frame) video_detections;
                     slot_polygons = slot_polygons_of g parking_slots;
                     occupied_slots = check_occupancy g iou_threshold slot_polygons detections;
                     slots_status =
                       map (\<lambda>slot. \<lparr> ss_id = slot_id slot, ss_name = slot_name slot,
                                      ss_status = (if slot_id slot \<in> occupied_slots
                                                   then ''occupied'' else ''free'') \<rparr>)
                           parking_slots;
                     occupied_count = card occupied_slots;
                     total_slots = length parking_slots
                 in \<lparr> cs_status = ''ok'', cs_video_id = Some (video_id v),
                      cs_frame_number = Some latest_frame,
                      cs_slots = slots_status,
                      cs_summary =
                        \<lparr> sm_total_slots = total_slots, sm_occupied = occupied_count,
                          sm_free = int total_slots - int occupied_count,
                          sm_occupancy_rate =
                            (if total_slots > 0
                             then rnd (real occupied_count / real total_slots) else 0) \<rparr> \<rparr>))"

section \<open>Current occupancy statistics (\<open>events.py\<close>)\<close>

text \<open>
  \<open>get_current_occupancy_stats\<close>.  \<open>slots\<close> are the slot rows the first query returns and
  \<open>latest_event sid\<close> is the status of the row the per-slot query returns (\<open>None\<close> when it
  returns no row).
\<close>

fun count_latest_events ::
    "(UUID \<Rightarrow> string option) \<Rightarrow> UUID list \<Rightarrow> nat \<times> nat \<times> nat \<Rightarrow> nat \<times> nat \<times> nat" where
  "count_latest_events latest_event [] counts = counts"
| "count_latest_events latest_event (sid # rest) (occupied, free, unknown) =
     (case latest_event sid of
        Some st \<Rightarrow>
          if st = ''occupied''
          then count_latest_events latest_event rest (occupied + 1, free, unknown)
          else if st = ''free''
          then count_latest_events latest_event rest (occupied, free + 1, unknown)
          else count_latest_events latest_event rest (occupied, free, unknown + 1)
      | None \<Rightarrow> count_latest_events latest_event rest (occupied, free, unknown + 1))"

record OccupancyStats =
  oc_total_slots :: nat
  oc_occupied_slots :: nat
  oc_free_slots :: nat
  oc_unknown_slots :: nat
  oc_occupancy_rate :: real

definition get_current_occupancy_stats ::
    "(UUID \<Rightarrow> string option) \<Rightarrow> 'j ParkingSlot list \<Rightarrow> OccupancyStats" where
  "get_current_occupancy_stats latest_event slots =
     (let slot_ids = map slot_id slots in
      if slot_ids = [] then
        \<lparr> oc_total_slots = 0, oc_occupied_slots = 0, oc_free_slots = 0, oc_unknown_slots = 0,
          oc_occupancy_rate = 0 \<rparr>
      else
        (case count_latest_events latest_event slot_ids (0, 0, 0) of
           (occupied, free, unknown) \<Rightarrow>
             let total = length slot_ids;
                 rate = (if total > 0 then real occupied / real total * 100 else 0)
             in \<lparr> oc_total_slots = total, oc_occupied_slots = occupied, oc_free_slots = free,
                  oc_unknown_slots = unknown, oc_occupancy_rate = rate \<rparr>))"

section \<open>Lot membership and lot-level status (\<open>videos.py\<close>)\<close>

text \<open>
  \<open># Map slots to lots using containment check\<close>, the same loops in
  \<open>get_lots_parking_status\<close> and \<open>get_video_analytics\<close>.  \<open>first_containing_lot\<close> is the inner
  loop over \<open>lot_polygons.items()\<close> with its \<open>break\<close>; \<open>map_slots_to_lots\<close> is the outer loop
  filling \<open>slot_to_lot_map\<close>.
\<close>

fun first_containing_lot ::
    "('p, 'j) geometry \<Rightarrow> 'p \<Rightarrow> (UUID \<times> 'p \<times> string) list \<Rightarrow> UUID option" where
  "first_containing_lot g slot_poly [] = None"
| "first_containing_lot g slot_poly ((lid, lot_poly, lname) # rest) =
     (if check_containment g slot_poly lot_poly (1 / 2) then Some lid
      else first_containing_lot g slot_poly rest)"

fun map_slots_to_lots ::
    "('p, 'j) geometry \<Rightarrow> (UUID \<times> 'p \<times> string) list \<Rightarrow> 'j ParkingSlot list
       \<Rightarrow> (UUID \<rightharpoonup> UUID) \<Rightarrow> (UUID \<rightharpoonup> UUID)" where
  "map_slots_to_lots g lot_polygons [] slot_to_lot_map = slot_to_lot_map"
| "map_slots_to_lots g lot_polygons (slot # rest) slot_to_lot_map =
     (let slot_poly = polygon_from_geojson g (slot_polygon slot) in
      case first_containing_lot g slot_poly lot_polygons of
        None \<Rightarrow> map_slots_to_lots g lot_polygons rest slot_to_lot_map
      | Some lid \<Rightarrow>
          map_slots_to_lots g lot_polygons rest (slot_to_lot_map(slot_id slot \<mapsto> lid)))"

text \<open>\<open># Aggregate by lots\<close> in \<open>get_lots_parking_status\<close>: the dict \<open>lot_data\<close> and its loop.\<close>

record lot_counts =
  lc_name :: string
  lc_capacity :: nat
  lc_occupied :: nat

definition lot_data_of :: "'j ParkingLot list \<Rightarrow> (UUID \<times> lot_counts) list" where
  "lot_data_of parking_lots =
     fold (\<lambda>lot d. AList.update (lot_id lot)
                      \<lparr> lc_name = lot_name lot, lc_capacity = 0, lc_occupied = 0 \<rparr> d)
          parking_lots []"

fun aggregate_by_lots ::
    "(UUID \<rightharpoonup> UUID) \<Rightarrow> UUID set \<Rightarrow> 'j ParkingSlot list \<Rightarrow> (UUID \<times> lot_counts) list
       \<Rightarrow> (UUID \<times> lot_counts) list" where
  "aggregate_by_lots slot_to_lot_map occupied_slots [] lot_data = lot_data"
| "aggregate_by_lots slot_to_lot_map occupied_slots (slot # rest) lot_data =
     (case slot_to_lot_map (slot_id slot) of
        None \<Rightarrow> aggregate_by_lots slot_to_lot_map occupied_slots rest lot_data
      | Some lid \<Rightarrow>
          if map_of lot_data lid \<noteq> None then
            let ld1 = AList.map_entry lid (\<lambda>c. c\<lparr> lc_capacity := lc_capacity c + 1 \<rparr>) lot_data;
                ld2 = (if slot_id slot \<in> occupied_slots
                       then AList.map_entry lid (\<lambda>c. c\<lparr> lc_occupied := lc_occupied c + 1 \<rparr>) ld1
                       else ld1)
            in aggregate_by_lots slot_to_lot_map occupied_slots rest ld2
          else aggregate_by_lots slot_to_lot_map occupied_slots rest lot_data)"

text \<open>The status expression of \<open>get_lots_parking_status\<close> (\<open># Build response\<close>).\<close>

definition lot_status_label :: "real \<Rightarrow> string" where
  "lot_status_label occupancy_rate_v =
     (if occupancy_rate_v \<ge> 95 / 100 then ''full''
      else if occupancy_rate_v \<ge> 7 / 10 then ''busy''
      else if occupancy_rate_v \<ge> 3 / 10 then ''moderate''
      else ''free'')"

text \<open>
  The status expression of \<open>get_video_analytics\<close>, written twice there: for
  \<open>slot_statistics\<close> and for \<open>lot_statistics\<close>.
\<close>

definition analytics_status_label :: "real \<Rightarrow> string" where
  "analytics_status_label occupancy_rate_v =
     (if occupancy_rate_v > 7 / 10 then ''busy''
      else if occupancy_rate_v > 3 / 10 then ''moderate''
      else ''free'')"

record lot_state =
  lt_id :: UUID
  lt_name :: string
  lt_capacity :: nat
  lt_occupied :: nat
  lt_free :: "int option"
  lt_occupancy_rate :: real
  lt_status :: "string option"

record lots_summary =
  ls_total_lots :: nat
  ls_total_capacity :: nat
  ls_total_occupied :: nat
  ls_avg_occupancy_rate :: real

record lots_status_response =
  lr_status :: string
  lr_video_id :: "UUID option"
  lr_frame_number :: "int option"
  lr_lots :: "lot_state list"
  lr_summary :: lots_summary

definition build_lots_status :: "(real \<Rightarrow> real) \<Rightarrow> (UUID \<times> lot_counts) list \<Rightarrow> lot_state list" where
  "build_lots_status rnd lot_data =
     map (\<lambda>(lid, data).
            let capacity = lc_capacity data;
                occupied = lc_occupied data;
                rate = (if capacity > 0 then real occupied / real capacity else 0)
            in \<lparr> lt_id = lid, lt_name = lc_name data, lt_capacity = capacity,
                 lt_occupied = occupied, lt_free = Some (int capacity - int occupied),
                 lt_occupancy_rate = rnd rate,
                 lt_status = Some (lot_status_label rate) \<rparr>)
         lot_data"

text \<open>
  \<open>get_lots_parking_status\<close>.  \<open>list.sort(key=..., reverse=True)\<close> is a stable sort in
  descending order of the key.
\<close>

definition get_lots_parking_status ::
    "(real \<Rightarrow> real) \<Rightarrow> ('p, 'j) geometry \<Rightarrow> real \<Rightarrow> Video option \<Rightarrow> 'j ParkingLot list
       \<Rightarrow> 'j ParkingSlot list \<Rightarrow> Detection list \<Rightarrow> lots_status_response" where
  "get_lots_parking_status rnd g iou_threshold video parking_lots parking_slots video_detections =
     (case video of
        None \<Rightarrow>
          \<lparr> lr_status = ''no_data'', lr_video_id = None, lr_frame_number = None, lr_lots = [],
            lr_summary = \<lparr> ls_total_lots = 0, ls_total_capacity = 0, ls_total_occupied = 0,
                           ls_avg_occupancy_rate = 0 \<rparr> \<rparr>
      | Some v \<Rightarrow>
          if parking_lots = [] then
            \<lparr> lr_status = ''no_lots'', lr_video_id = Some (video_id v), lr_frame_number = None,
              lr_lots = [],
              lr_summary = \<lparr> ls_total_lots = 0, ls_total_capacity = 0, ls_total_occupied = 0,
                             ls_avg_occupancy_rate = 0 \<rparr> \<rparr>
          else
            (case max_frame_number video_detections of
               None \<Rightarrow>
                 \<lparr> lr_status = ''no_detections'', lr_video_id = Some (video_id v),
                   lr_frame_number = None,
                   lr_lots = map (\<lambda>lot. \<lparr> lt_id = lot_id lot, lt_name = lot_name lot,
                                           lt_capacity = 0, lt_occupied = 0, lt_free = None,
                                           lt_occupancy_rate = 0, lt_status = None \<rparr>)
                                 parking_lots,
                   lr_summary = \<lparr> ls_total_lots = length parking_lots, ls_total_capacity = 0,
                                  ls_total_occupied = 0, ls_avg_occupancy_rate = 0 \<rparr> \<rparr>
             | Some latest_frame \<Rightarrow>
                 let detections = filter (\<lambda>d. frame_number d = latest_frame) video_detections;
                     lot_polygons = lot_polygons_of g parking_lots;
                     slot_polygons = slot_polygons_of g parking_slots;
                     slot_to_lot_map = map_slots_to_lots g lot_polygons parking_slots Map.empty;
                     occupied_slots = check_occupancy g iou_threshold slot_polygons detections;
                     lot_data = aggregate_by_lots slot_to_lot_map occupied_slots parking_slots
                                  (lot_data_of parking_lots);
                     lots_status = build_lots_status rnd lot_data;
                     total_capacity = sum_list (map (\<lambda>(lid, data). lc_capacity data) lot_data);
                     total_occupied = sum_list (map (\<lambda>(lid, data). lc_occupied data) lot_data);
                     avg_occupancy = (if total_capacity > 0
                                      then real total_occupied / real total_capacity else 0)
                 in \<lparr> lr_status = ''ok'', lr_video_id = Some (video_id v),
                      lr_frame_number = Some latest_frame,
                      lr_lots = sort_key (\<lambda>x. - lt_occupancy_rate x) lots_status,
                      lr_summary = \<lparr> ls_total_lots = length parking_lots,
                                     ls_total_capacity = total_capacity,
                                     ls_total_occupied = total_occupied,
                                     ls_avg_occupancy_rate = rnd avg_occupancy \<rparr> \<rparr>))"

section \<open>Video analytics (\<open>videos.py\<close>)\<close>

text \<open>
  \<open>get_video_analytics\<close>: the occupancy timeline, the slot statistics and the lot
  statistics.  The class breakdown is not modelled; the rates of the summary block are in
  \<open>video_analytics_summary\<close> below.  Every lot id in
  \<open>slot_to_lot_map\<close> is a key of \<open>lot_occupancy\<close> (both come from \<open>parking_lots\<close>), so the
  subscripts \<open>lot_occupancy[lot_id]\<close> never raise \<open>KeyError\<close>.
\<close>

record analytics_frame =
  af_frame_number :: int
  af_occupied_slots :: nat
  af_free_slots :: int
  af_occupancy_rate :: real
  af_total_vehicles :: nat

definition analytics_timeline ::
    "(real \<Rightarrow> real) \<Rightarrow> nat \<Rightarrow> (int \<times> frame_entry) list \<Rightarrow> analytics_frame list" where
  "analytics_timeline rnd total_slots frame_data =
     map (\<lambda>data.
            let occupied = card (fe_occupied_slots data);
                rate = (if total_slots > 0 then real occupied / real total_slots else 0)
            in \<lparr> af_frame_number = fe_frame_number data, af_occupied_slots = occupied,
                 af_free_slots = int total_slots - int occupied,
                 af_occupancy_rate = rnd rate,
                 af_total_vehicles = fe_count data \<rparr>)
         (sort_key fe_frame_number (map snd frame_data))"

text \<open>
  \<open>slot_occupancy[slot_id]\<close> after the loop over \<open>frame_data.values()\<close>: the number of frames
  whose \<open>occupied_slots\<close> set holds the slot.
\<close>

definition slot_occupancy :: "(int \<times> frame_entry) list \<Rightarrow> UUID \<Rightarrow> nat" where
  "slot_occupancy frame_data sid =
     length (filter (\<lambda>(f, data). sid \<in> fe_occupied_slots data) frame_data)"

record slot_stat =
  st_slot_id :: UUID
  st_occupied_frames :: nat
  st_total_frames :: nat
  st_occupancy_rate :: real
  st_status :: string

record lot_frames =
  lf_occupied_frames :: nat
  lf_total_slots :: nat

definition lot_occupancy_of :: "'j ParkingLot list \<Rightarrow> (UUID \<times> lot_frames) list" where
  "lot_occupancy_of parking_lots =
     fold (\<lambda>lot d. AList.update (lot_id lot) \<lparr> lf_occupied_frames = 0, lf_total_slots = 0 \<rparr> d)
          parking_lots []"

fun aggregate_frames_by_lots ::
    "(UUID \<rightharpoonup> UUID) \<Rightarrow> (UUID \<Rightarrow> nat) \<Rightarrow> 'j ParkingSlot list \<Rightarrow> (UUID \<times> lot_frames) list
       \<Rightarrow> (UUID \<times> lot_frames) list" where
  "aggregate_frames_by_lots slot_to_lot_map occ [] lot_occupancy = lot_occupancy"
| "aggregate_frames_by_lots slot_to_lot_map occ (slot # rest) lot_occupancy =
     (case slot_to_lot_map (slot_id slot) of
        None \<Rightarrow> aggregate_frames_by_lots slot_to_lot_map occ rest lot_occupancy
      | Some lid \<Rightarrow>
          aggregate_frames_by_lots slot_to_lot_map occ rest
            (AList.map_entry lid
               (\<lambda>c. c\<lparr> lf_total_slots := lf_total_slots c + 1,
                        lf_occupied_frames := lf_occupied_frames c + occ (slot_id slot) \<rparr>)
               lot_occupancy))"

record lot_stat =
  lo_lot_id :: UUID
  lo_lot_name :: string
  lo_total_slots :: nat
  lo_occupancy_rate :: real
  lo_status :: string

text \<open>The loop \<open>for lot in parking_lots\<close> that fills \<open>lot_statistics\<close>.\<close>

fun build_lot_statistics ::
    "(real \<Rightarrow> real) \<Rightarrow> nat \<Rightarrow> (UUID \<times> lot_frames) list \<Rightarrow> 'j ParkingLot list \<Rightarrow> lot_stat list" where
  "build_lot_statistics rnd total_frames lot_occupancy [] = []"
| "build_lot_statistics rnd total_frames lot_occupancy (lot # rest) =
     (case map_of lot_occupancy (lot_id lot) of
        None \<Rightarrow> build_lot_statistics rnd total_frames lot_occupancy rest
      | Some lot_data \<Rightarrow>
          let total_slots_in_lot = lf_total_slots lot_data in
          if total_slots_in_lot > 0 then
            let avg_occupied_frames = real (lf_occupied_frames lot_data) / real total_slots_in_lot;
                rate = (if total_frames > 0 then avg_occupied_frames / real total_frames else 0)
            in \<lparr> lo_lot_id = lot_id lot, lo_lot_name = lot_name lot,
                 lo_total_slots = total_slots_in_lot, lo_occupancy_rate = rnd rate,
                 lo_status = analytics_status_label rate \<rparr>
               # build_lot_statistics rnd total_frames lot_occupancy rest
          else build_lot_statistics rnd total_frames lot_occupancy rest)"

record video_analytics =
  va_total_detections :: nat
  va_frames_analyzed :: nat
  va_occupancy_timeline :: "analytics_frame list"
  va_slot_statistics :: "slot_stat list"
  va_lot_statistics :: "lot_stat list"

definition get_video_analytics ::
    "(real \<Rightarrow> real) \<Rightarrow> ('p, 'j) geometry \<Rightarrow> real \<Rightarrow> Video option \<Rightarrow> 'j ParkingLot list
       \<Rightarrow> 'j ParkingSlot list \<Rightarrow> Detection list \<Rightarrow> pyexn + video_analytics" where
  "get_video_analytics rnd g iou_threshold video parking_lots parking_slots detections =
     (case video of
        None \<Rightarrow> Inl (HTTPException 404 ''Video not found'')
      | Some v \<Rightarrow>
          let total_detections = length detections in
          if total_detections = 0 then
            Inr \<lparr> va_total_detections = 0, va_frames_analyzed = 0, va_occupancy_timeline = [],
                  va_slot_statistics = [], va_lot_statistics = [] \<rparr>
          else
            let slot_polygons = slot_polygons_of g parking_slots;
                frame_data = group_by_frame g iou_threshold slot_polygons detections [];
                total_slots = length parking_slots;
                timeline = analytics_timeline rnd total_slots frame_data;
                total_frames = card (set (map frame_number detections));
                slot_statistics =
                  map (\<lambda>slot.
                         let occupied_frames = slot_occupancy frame_data (slot_id slot);
                             rate = (if total_frames > 0
                                     then real occupied_frames / real total_frames else 0)
                         in \<lparr> st_slot_id = slot_id slot, st_occupied_frames = occupied_frames,
                              st_total_frames = total_frames, st_occupancy_rate = rnd rate,
                              st_status = analytics_status_label rate \<rparr>)
                      parking_slots;
                lot_polygons = lot_polygons_of g parking_lots;
                slot_to_lot_map = map_slots_to_lots g lot_polygons parking_slots Map.empty;
                lot_statistics =
                  (if parking_lots \<noteq> [] then
                     sort_key (\<lambda>x. - lo_occupancy_rate x)
                       (build_lot_statistics rnd total_frames
                          (aggregate_frames_by_lots slot_to_lot_map (slot_occupancy frame_data)
                             parking_slots (lot_occupancy_of parking_lots))
                          parking_lots)
                   else [])
            in Inr \<lparr> va_total_detections = total_detections,
                     va_frames_analyzed = total_frames,
                     va_occupancy_timeline =
                       (if length timeline > 50 then drop (length timeline - 50) timeline
                        else timeline),
                     va_slot_statistics = sort_key (\<lambda>x. - st_occupancy_rate x) slot_statistics,
                     va_lot_statistics = lot_statistics \<rparr>)"

text \<open>
  The two rates of the \<open>summary\<close> entry of \<open>get_video_analytics\<close> (\<open># Calculate summary\<close>).
  \<open>occupancy_rates\<close> collects the unrounded rate of every frame of the timeline, in the
  order of the timeline; \<open>max\<close> of a non-empty list is a fold of the binary maximum.  In the
  response for a video without detections the second key is named \<open>peak_occupancy\<close>.
\<close>

record analytics_summary =
  su_average_occupancy_rate :: real
  su_peak_occupancy_rate :: real

definition video_analytics_summary ::
    "(real \<Rightarrow> real) \<Rightarrow> ('p, 'j) geometry \<Rightarrow> real \<Rightarrow> Video option \<Rightarrow> 'j ParkingSlot list
       \<Rightarrow> Detection list \<Rightarrow> pyexn + analytics_summary" where
  "video_analytics_summary rnd g iou_threshold video parking_slots detections =
     (case video of
        None \<Rightarrow> Inl (HTTPException 404 ''Video not found'')
      | Some v \<Rightarrow>
          let total_detections = length detections in
          if total_detections = 0 then
            Inr \<lparr> su_average_occupancy_rate = 0, su_peak_occupancy_rate = 0 \<rparr>
          else
            let slot_polygons = slot_polygons_of g parking_slots;
                frame_data = group_by_frame g iou_threshold slot_polygons detections [];
                total_slots = length parking_slots;
                occupancy_rates =
                  map (\<lambda>data.
                         let occupied = card (fe_occupied_slots data) in
                         if total_slots > 0 then real occupied / real total_slots else 0)
                      (sort_key fe_frame_number (map snd frame_data));
                avg_occupancy =
                  (if occupancy_rates \<noteq> []
                   then sum_list occupancy_rates / real (length occupancy_rates) else 0);
                peak_occupancy =
                  (case occupancy_rates of [] \<Rightarrow> 0 | r # rs \<Rightarrow> fold max rs r)
            in Inr \<lparr> su_average_occupancy_rate = rnd avg_occupancy,
                     su_peak_occupancy_rate = rnd peak_occupancy \<rparr>)"

section \<open>Concrete data for evaluation\<close>

text \<open>A car detection in frame \<open>f\<close> with the normalized box \<open>r\<close>, and a slot row.\<close>

definition car_detection :: "int \<Rightarrow> rect \<Rightarrow> Detection" where
  "car_detection f r =
     (case r of (a, b, c, d) \<Rightarrow>
        \<lparr> frame_number = f, frame_time = real_of_int f, offset_seconds = real_of_int f,
          class_id = 3, class_name = ''car'', confidence = 9 / 10,
          bbox_normalized = \<lparr> x1 = a, y1 = b, x2 = c, y2 = d \<rparr> \<rparr>)"

definition slot_row :: "UUID \<Rightarrow> string \<Rightarrow> rect \<Rightarrow> rect ParkingSlot" where
  "slot_row i n r = \<lparr> slot_id = i, slot_name = n, slot_polygon = r \<rparr>"

definition lot_row :: "UUID \<Rightarrow> string \<Rightarrow> rect \<Rightarrow> rect ParkingLot" where
  "lot_row i n r = \<lparr> lot_id = i, lot_name = n, lot_polygon = r \<rparr>"

text \<open>
  A rounding to two decimals for the concrete runs; on the rates that occur there
  (\<open>0\<close>, \<open>1/2\<close>, \<open>1\<close>) it returns what \<open>round(x, 2)\<close> returns.
\<close>

definition round2 :: "real \<Rightarrow> real" where
  "round2 x = real_of_int (round (x * 100)) / 100"

definition processed_video :: "UUID \<Rightarrow> Video" where
  "processed_video i =
     \<lparr> video_id = i, video_start_time = None, upload_time = 0, processed = True,
       processing_error = None \<rparr>"

text \<open>
  A video of two frames at 25 frames per second, \<open>100 \<times> 100\<close> pixels: the detector finds one
  car in the first frame and nothing in the second.
\<close>

definition two_frame_video :: video_file where
  "two_frame_video =
     \<lparr> vf_fps = 25, vf_frame_width = 100, vf_frame_height = 100,
       vf_frames = [[\<lparr> xyxy = \<lparr> x1 = 0, y1 = 0, x2 = 50, y2 = 50 \<rparr>, conf = 9 / 10, cls = 3 \<rparr>],
                    []] \<rparr>"

text \<open>The defaults of \<open>config.py\<close>.\<close>

definition default_settings :: settings where
  "default_settings =
     \<lparr> FRAME_STRIDE = 30, IOU_THRESHOLD = 3 / 10, CONFIDENCE_THRESHOLD = 1 / 2 \<rparr>"

text \<open>The box \<open>box(0, 0, 1e200, 1e200)\<close>, whose area \<open>1e400\<close> is beyond the range of a double.\<close>

definition huge_box :: rect where
  "huge_box = (0, 0, 10 ^ 200, 10 ^ 200)"

section \<open>Properties of the geometry functions\<close>

lemma extent_abs:
  fixes a c :: real
  shows "max a c - min a c = \<bar>c - a\<bar>"
  by (cases "a \<le> c") (simp_all add: max_def min_def)

lemma overlap_le_extent:
  fixes a c a' c' :: real
  shows "max 0 (min (max a c) (max a' c') - max (min a c) (min a' c')) \<le> \<bar>c - a\<bar>"
proof -
  define hi where "hi = min (max a c) (max a' c')"
  define lo where "lo = max (min a c) (min a' c')"
  define M where "M = max a c"
  define m where "m = min a c"
  have 1: "hi \<le> M" unfolding hi_def M_def by (rule min.cobounded1)
  have 2: "m \<le> lo" unfolding lo_def m_def by (rule max.cobounded1)
  have 3: "M - m = \<bar>c - a\<bar>" unfolding M_def m_def by (rule extent_abs)
  have 4: "hi - lo \<le> \<bar>c - a\<bar>" using 1 2 3 by arith
  have 5: "0 \<le> \<bar>c - a\<bar>" by (rule abs_ge_zero)
  show ?thesis
    unfolding hi_def [symmetric] lo_def [symmetric]
    by (rule max.boundedI [OF 5 4])
qed

lemma rect_geometry_simps:
  "intersection_area rect_geometry r s = Some (rect_intersection_area r s)"
  "union_area rect_geometry r s = Some (rect_union_area r s)"
  "area rect_geometry r = Some (rect_area r)"
  "box rect_geometry a b c d = (a, b, c, d)"
  "polygon_from_geojson rect_geometry r = r"
  by (simp_all add: rect_geometry_def)

lemma rect_intersection_area_commute:
  "rect_intersection_area r s = rect_intersection_area s r"
  by (cases r, cases s) (simp add: rect_intersection_area_def min.commute max.commute)

lemma rect_union_area_commute: "rect_union_area r s = rect_union_area s r"
  by (simp add: rect_union_area_def rect_intersection_area_commute [of r s])

lemma rect_intersection_area_self: "rect_intersection_area r r = rect_area r"
  by (cases r) (simp add: rect_intersection_area_def rect_area_def extent_abs)

lemma rect_union_area_self: "rect_union_area r r = rect_area r"
  by (simp add: rect_union_area_def rect_intersection_area_self)

lemma rect_area_nonneg: "0 \<le> rect_area r"
  by (cases r) (simp add: rect_area_def)

lemma rect_intersection_area_nonneg: "0 \<le> rect_intersection_area r s"
  by (cases r, cases s) (simp add: rect_intersection_area_def)

lemma rect_intersection_area_le_left: "rect_intersection_area r s \<le> rect_area r"
proof -
  obtain a b c d where r: "r = (a, b, c, d)" by (cases r) auto
  obtain a' b' c' d' where s: "s = (a', b', c', d')" by (cases s) auto
  show ?thesis
    unfolding r s rect_intersection_area_def rect_area_def prod.case
    by (rule mult_mono [OF overlap_le_extent overlap_le_extent]) simp_all
qed

lemma rect_intersection_area_le_union: "rect_intersection_area r s \<le> rect_union_area r s"
proof -
  have "rect_intersection_area r s \<le> rect_area r"
    by (rule rect_intersection_area_le_left)
  moreover have "rect_intersection_area r s \<le> rect_area s"
    using rect_intersection_area_le_left [of s r]
    by (simp add: rect_intersection_area_commute [of r s])
  ultimately show ?thesis
    unfolding rect_union_area_def by arith
qed

lemma calculate_iou_unit_interval:
  assumes "\<And>i u. intersection_area g a b = Some i \<Longrightarrow> union_area g a b = Some u
             \<Longrightarrow> 0 \<le> i \<and> i \<le> u"
  shows "0 \<le> calculate_iou g a b \<and> calculate_iou g a b \<le> 1"
  using assms
  by (auto simp: calculate_iou_def calculate_iou_try_def split: option.splits)

lemma calculate_iou_rect_unit_interval:
  "0 \<le> calculate_iou rect_geometry r s \<and> calculate_iou rect_geometry r s \<le> 1"
  by (rule calculate_iou_unit_interval)
     (auto simp: rect_geometry_simps rect_intersection_area_nonneg
        rect_intersection_area_le_union)

lemma calculate_iou_self:
  "intersection_area g a a = Some A \<Longrightarrow> union_area g a a = Some A \<Longrightarrow> 0 < A
     \<Longrightarrow> calculate_iou g a a = 1"
  by (simp add: calculate_iou_def calculate_iou_try_def)

lemma calculate_iou_commute:
  "intersection_area g a b = intersection_area g b a \<Longrightarrow> union_area g a b = union_area g b a
     \<Longrightarrow> calculate_iou g a b = calculate_iou g b a"
  by (simp add: calculate_iou_def calculate_iou_try_def split: option.splits)

lemma calculate_iou_raise:
  "calculate_iou_try g a b = Inl e \<Longrightarrow> calculate_iou g a b = 0"
  by (simp add: calculate_iou_def)

lemma calculate_iou_union_zero:
  "union_area g a b = Some 0 \<Longrightarrow> calculate_iou g a b = 0"
  by (simp add: calculate_iou_def calculate_iou_try_def split: option.splits)

lemma check_containment_raise:
  "check_containment_try g a b t = Inl e \<Longrightarrow> \<not> check_containment g a b t"
  by (simp add: check_containment_def)

lemma check_containment_zero_area:
  "area g a = Some 0 \<Longrightarrow> \<not> check_containment g a b t"
  by (simp add: check_containment_def check_containment_try_def split: option.splits)

lemma one_le_max_double: "1 \<le> max_double"
proof -
  have "(1::real) \<le> 2 ^ 1023" by (rule one_le_power) simp
  moreover have "(1::real) \<le> 2 - 1 / 2 ^ 52"
  proof -
    have "(1::real) / 2 ^ 52 \<le> 1" by simp
    then show ?thesis by simp
  qed
  ultimately have "(1::real) * 1 \<le> (2 - 1 / 2 ^ 52) * 2 ^ 1023"
    by (intro mult_mono) simp_all
  then show ?thesis by (simp add: max_double_def)
qed

lemma max_double_less: "max_double < 10 ^ 400"
proof -
  have "max_double \<le> 2 * 2 ^ 1023"
    unfolding max_double_def by (intro mult_right_mono) simp_all
  also have "\<dots> \<le> (2::real) ^ 1027" by simp
  also have "\<dots> = ((2::real) ^ 13) ^ 79" by (simp only: power_mult [symmetric]) simp
  also have "\<dots> < ((10::real) ^ 4) ^ 79" by (intro power_strict_mono) simp_all
  also have "\<dots> = (10::real) ^ 316" by (simp only: power_mult [symmetric]) simp
  also have "\<dots> \<le> (10::real) ^ 400" by (intro power_increasing) simp_all
  finally show ?thesis .
qed

lemma huge_box_area: "rect_area huge_box = 10 ^ 400"
  by (simp add: rect_area_def huge_box_def)

lemma huge_box_area_overflows: "to_float (rect_area huge_box) = PosInf"
  unfolding huge_box_area using max_double_less by (simp only: to_float_def if_True)

lemma huge_box_area_pos: "0 < rect_area huge_box"
  unfolding huge_box_area by (rule zero_less_power) simp

lemma to_float_finite: "\<bar>x\<bar> \<le> max_double \<Longrightarrow> to_float x = Finite x"
  by (auto simp: to_float_def)

lemma calculate_iou_float_finite:
  assumes "intersection_area g a b = Some i" and "union_area g a b = Some u"
    and "0 \<le> i" and "i \<le> u" and "u \<le> max_double"
  shows "calculate_iou_float g a b = Finite (calculate_iou g a b)"
proof -
  have fi: "to_float i = Finite i" and fu: "to_float u = Finite u"
    using assms(3-5) by (simp_all add: to_float_finite)
  show ?thesis
  proof (cases "0 < u")
    case True
    then have "0 \<le> i / u" and "i / u \<le> 1" using assms(3,4) by simp_all
    then have "\<bar>i / u\<bar> \<le> max_double" using one_le_max_double by simp
    then have "to_float (i / u) = Finite (i / u)" by (rule to_float_finite)
    then show ?thesis
      using True assms(1,2) fi fu
      by (simp add: calculate_iou_float_def calculate_iou_float_try_def calculate_iou_def
          calculate_iou_try_def)
  next
    case False
    then show ?thesis
      using assms(1,2) fi fu
      by (simp add: calculate_iou_float_def calculate_iou_float_try_def calculate_iou_def
          calculate_iou_try_def)
  qed
qed

lemma calculate_iou_float_raise:
  "intersection_area g a b = None \<or> union_area g a b = None \<Longrightarrow>
     calculate_iou_float g a b = Finite 0 \<and> calculate_iou g a b = 0"
  by (auto simp: calculate_iou_float_def calculate_iou_float_try_def calculate_iou_def
      calculate_iou_try_def split: option.splits)

lemma huge_box_iou_try:
  "calculate_iou_float_try rect_geometry huge_box huge_box = Inr NaN"
  by (simp add: calculate_iou_float_try_def rect_geometry_simps rect_intersection_area_self
      rect_union_area_self huge_box_area_overflows)

lemma huge_box_iou:
  "calculate_iou_float rect_geometry huge_box huge_box = NaN"
  by (simp add: calculate_iou_float_def huge_box_iou_try)

text \<open>
  Claim C8.  The handler and the guard \<open>union > 0\<close> do not cover overflow.  For
  \<open>box(0, 0, 1e200, 1e200)\<close> against itself both areas are \<open>inf\<close>; \<open>inf > 0\<close> holds, nothing
  raises, and the quotient \<open>inf / inf\<close> is returned: \<open>nan\<close>, for which neither \<open>0.0 <= r\<close> nor
  \<open>r <= 1.0\<close> holds.
\<close>

theorem calculate_iou_nan_on_overflow:
  "calculate_iou_float_try rect_geometry huge_box huge_box = Inr NaN
   \<and> calculate_iou_float rect_geometry huge_box huge_box = NaN
   \<and> \<not> float_ge (calculate_iou_float rect_geometry huge_box huge_box) (Finite 0)
   \<and> \<not> float_ge (Finite 1) (calculate_iou_float rect_geometry huge_box huge_box)"
  by (simp add: huge_box_iou huge_box_iou_try float_ge_def)

text \<open>
  Claim C9.  The same box has a positive area, and \<open>calculate_iou\<close> of it with itself is
  \<open>nan\<close>: it is not equal to \<open>1.0\<close>, and it is not equal to itself, so the two argument
  orders do not compare equal either.
\<close>

theorem calculate_iou_self_nan_on_overflow:
  "0 < rect_area huge_box
   \<and> calculate_iou_float rect_geometry huge_box huge_box = NaN
   \<and> \<not> float_eq (calculate_iou_float rect_geometry huge_box huge_box) (Finite 1)
   \<and> \<not> float_eq (calculate_iou_float rect_geometry huge_box huge_box)
             (calculate_iou_float rect_geometry huge_box huge_box)"
  by (simp add: huge_box_iou huge_box_area_pos)

section \<open>Properties of the slot matcher\<close>

lemma calculate_iou_rect:
  "calculate_iou rect_geometry r s =
     (if rect_union_area r s > 0 then rect_intersection_area r s / rect_union_area r s else 0)"
  by (simp add: calculate_iou_def calculate_iou_try_def rect_geometry_simps)

lemma best_slot_loop_cases:
  "best_slot_loop g thr det sp (bid0, bn0, b0) = (bid, bn, b) \<Longrightarrow>
     ((bid, bn, b) = (bid0, bn0, b0)
        \<and> (\<forall>(s, p, n) \<in> set sp. \<not> (calculate_iou g det p > b0 \<and> calculate_iou g det p \<ge> thr)))
     \<or> (\<exists>pre s p n post. sp = pre @ (s, p, n) # post \<and> bid = Some s \<and> bn = Some n
           \<and> b = calculate_iou g det p \<and> b > b0 \<and> b \<ge> thr
           \<and> (\<forall>(s', p', n') \<in> set pre. calculate_iou g det p' < b)
           \<and> (\<forall>(s', p', n') \<in> set post. calculate_iou g det p' \<le> b))"
proof (induction sp arbitrary: bid0 bn0 b0)
  case Nil
  then show ?case by simp
next
  case (Cons e rest)
  obtain s0 p0 n0 where e: "e = (s0, p0, n0)" by (cases e) auto
  let ?i0 = "calculate_iou g det p0"
  show ?case
  proof (cases "?i0 > b0 \<and> ?i0 \<ge> thr")
    case True
    with Cons.prems e have run: "best_slot_loop g thr det rest (Some s0, Some n0, ?i0) = (bid, bn, b)"
      by simp
    from Cons.IH [OF run] show ?thesis
    proof (elim disjE conjE exE)
      assume eq: "(bid, bn, b) = (Some s0, Some n0, ?i0)"
        and none: "\<forall>(s, p, n) \<in> set rest. \<not> (?i0 < calculate_iou g det p \<and> thr \<le> calculate_iou g det p)"
      have "\<forall>(s', p', n') \<in> set rest. calculate_iou g det p' \<le> b"
        using none eq True by fastforce
      then have "e # rest = [] @ (s0, p0, n0) # rest \<and> bid = Some s0 \<and> bn = Some n0
           \<and> b = calculate_iou g det p0 \<and> b > b0 \<and> b \<ge> thr
           \<and> (\<forall>(s', p', n') \<in> set []. calculate_iou g det p' < b)
           \<and> (\<forall>(s', p', n') \<in> set rest. calculate_iou g det p' \<le> b)"
        using eq True e by simp
      then show ?thesis by blast
    next
      fix pre s p n post
      assume d: "rest = pre @ (s, p, n) # post" "bid = Some s" "bn = Some n"
        "b = calculate_iou g det p" "?i0 < b" "thr \<le> b"
        "\<forall>(s', p', n') \<in> set pre. calculate_iou g det p' < b"
        "\<forall>(s', p', n') \<in> set post. calculate_iou g det p' \<le> b"
      have "e # rest = (e # pre) @ (s, p, n) # post \<and> bid = Some s \<and> bn = Some n
           \<and> b = calculate_iou g det p \<and> b > b0 \<and> b \<ge> thr
           \<and> (\<forall>(s', p', n') \<in> set (e # pre). calculate_iou g det p' < b)
           \<and> (\<forall>(s', p', n') \<in> set post. calculate_iou g det p' \<le> b)"
        using d True e by simp
      then show ?thesis by blast
    qed
  next
    case False
    with Cons.prems e have run: "best_slot_loop g thr det rest (bid0, bn0, b0) = (bid, bn, b)"
      by auto
    from Cons.IH [OF run] show ?thesis
    proof (elim disjE conjE exE)
      assume eq: "(bid, bn, b) = (bid0, bn0, b0)"
        and none: "\<forall>(s, p, n) \<in> set rest. \<not> (b0 < calculate_iou g det p \<and> thr \<le> calculate_iou g det p)"
      show ?thesis using eq none False e by simp
    next
      fix pre s p n post
      assume d: "rest = pre @ (s, p, n) # post" "bid = Some s" "bn = Some n"
        "b = calculate_iou g det p" "b0 < b" "thr \<le> b"
        "\<forall>(s', p', n') \<in> set pre. calculate_iou g det p' < b"
        "\<forall>(s', p', n') \<in> set post. calculate_iou g det p' \<le> b"
      have "?i0 < b" using False d(5,6) by linarith
      then have "e # rest = (e # pre) @ (s, p, n) # post \<and> bid = Some s \<and> bn = Some n
           \<and> b = calculate_iou g det p \<and> b > b0 \<and> b \<ge> thr
           \<and> (\<forall>(s', p', n') \<in> set (e # pre). calculate_iou g det p' < b)
           \<and> (\<forall>(s', p', n') \<in> set post. calculate_iou g det p' \<le> b)"
        using d e by simp
      then show ?thesis by blast
    qed
  qed
qed


text \<open>
  Claim C3.  When \<open>find_best_matching_slot\<close> returns a slot, that slot is an entry of
  \<open>slot_polygons\<close> whose IoU with the detection is the returned \<open>best_iou\<close>, every entry
  before it has a strictly smaller IoU, every entry has an IoU \<open>\<le> best_iou\<close>, and
  \<open>best_iou \<ge> iou_threshold\<close>.  No slot is returned when every IoU is below the threshold;
  precisely, none is returned exactly when no entry has an IoU that is both positive and
  \<open>\<ge> iou_threshold\<close>.
\<close>

theorem find_best_matching_slot_greatest:
  assumes "find_best_matching_slot g thr det sp = (bid, bn, b)"
  shows "(\<forall>s. bid = Some s \<longrightarrow>
            thr \<le> b
            \<and> (\<exists>pre p n post. sp = pre @ (s, p, n) # post \<and> bn = Some n
                  \<and> calculate_iou g det p = b
                  \<and> (\<forall>(s', p', n') \<in> set pre. calculate_iou g det p' < b))
            \<and> (\<forall>(s', p', n') \<in> set sp. calculate_iou g det p' \<le> b))
       \<and> ((\<forall>(s', p', n') \<in> set sp. calculate_iou g det p' < thr) \<longrightarrow> bid = None)
       \<and> (bid = None \<longleftrightarrow>
            (\<forall>(s', p', n') \<in> set sp.
                \<not> (0 < calculate_iou g det p' \<and> thr \<le> calculate_iou g det p')))"
proof -
  from assms have run: "best_slot_loop g thr det sp (None, None, 0) = (bid, bn, b)"
    by (simp add: find_best_matching_slot_def)
  from best_slot_loop_cases [OF run]
  consider
    (none) "bid = None" "bn = None" "b = 0"
      "\<forall>(s, p, n) \<in> set sp. \<not> (0 < calculate_iou g det p \<and> thr \<le> calculate_iou g det p)"
  | (some) pre s p n post where "sp = pre @ (s, p, n) # post" "bid = Some s" "bn = Some n"
      "b = calculate_iou g det p" "0 < b" "thr \<le> b"
      "\<forall>(s', p', n') \<in> set pre. calculate_iou g det p' < b"
      "\<forall>(s', p', n') \<in> set post. calculate_iou g det p' \<le> b"
    by auto
  then show ?thesis
  proof cases
    case none
    have "bid = None \<longleftrightarrow>
            (\<forall>(s', p', n') \<in> set sp.
                \<not> (0 < calculate_iou g det p' \<and> thr \<le> calculate_iou g det p'))"
      using none(1,4) by simp
    then show ?thesis using none(1) by simp
  next
    case some
    have all: "\<forall>(s', p', n') \<in> set sp. calculate_iou g det p' \<le> b"
      using some(1,4,7,8) by fastforce
    have ex: "\<exists>pre p n post. sp = pre @ (s, p, n) # post \<and> bn = Some n
                  \<and> calculate_iou g det p = b
                  \<and> (\<forall>(s', p', n') \<in> set pre. calculate_iou g det p' < b)"
      using some(1,3,4,7) by blast
    have mem: "(s, p, n) \<in> set sp" using some(1) by simp
    have notlow: "\<not> (\<forall>(s', p', n') \<in> set sp. calculate_iou g det p' < thr)"
      using mem some(4,6) by fastforce
    have notnone: "\<not> (\<forall>(s', p', n') \<in> set sp.
                \<not> (0 < calculate_iou g det p' \<and> thr \<le> calculate_iou g det p'))"
      using mem some(4,5,6) by fastforce
    show ?thesis using some(2,6) all ex notlow notnone by simp
  qed
qed

text \<open>
  A detection box against three slots with IoU \<open>1/3\<close>, \<open>1\<close> and \<open>1\<close>: the second slot is
  returned (the first of the two maxima); a far-away slot gives no match.
\<close>

theorem find_best_matching_slot_greatest_witness:
  "find_best_matching_slot rect_geometry (3 / 10) (0, 0, 2, 1)
       [(1, (1, 0, 3, 1), ''A''), (2, (0, 0, 2, 1), ''B''), (3, (2, 1, 0, 0), ''C'')]
     = (Some 2, Some ''B'', 1)
   \<and> (3 / 10 :: real) \<le> 1
   \<and> calculate_iou rect_geometry (0, 0, 2, 1) (1, 0, 3, 1) \<le> 1
   \<and> calculate_iou rect_geometry (0, 0, 2, 1) (2, 1, 0, 0) \<le> 1
   \<and> calculate_iou rect_geometry (0, 0, 2, 1) (5, 5, 6, 6) < 3 / 10
   \<and> fst (find_best_matching_slot rect_geometry (3 / 10) (0, 0, 2, 1) [(1, (5, 5, 6, 6), ''A'')])
     = None"
proof -
  have r1: "find_best_matching_slot rect_geometry (3 / 10) (0, 0, 2, 1)
       [(1, (1, 0, 3, 1), ''A''), (2, (0, 0, 2, 1), ''B''), (3, (2, 1, 0, 0), ''C'')]
     = (Some 2, Some ''B'', 1)"
    by (simp add: find_best_matching_slot_def calculate_iou_rect rect_union_area_def
        rect_intersection_area_def rect_area_def)
  obtain bid bn b where r2:
    "find_best_matching_slot rect_geometry (3 / 10) (0, 0, 2, 1) [(1, (5, 5, 6, 6), ''A'')]
       = (bid, bn, b)"
    by (cases "find_best_matching_slot rect_geometry (3 / 10) (0, 0, 2, 1)
                 [(1, (5, 5, 6, 6), ''A'')]") auto
  have low1: "calculate_iou rect_geometry (0, 0, 2, 1) (5, 5, 6, 6) < 3 / 10"
    by (simp add: calculate_iou_rect rect_union_area_def rect_intersection_area_def rect_area_def)
  then have low: "\<forall>(s', p', n') \<in> set [(1 :: UUID, (5 :: real, 5 :: real, 6 :: real, 6 :: real), ''A'')].
          calculate_iou rect_geometry (0, 0, 2, 1) p' < 3 / 10"
    by simp
  note t1 = find_best_matching_slot_greatest [OF r1]
  have c0: "(3 / 10 :: real) \<le> 1"
    using t1 [THEN conjunct1] by blast
  have all: "\<forall>(s', p', n') \<in> set [(1 :: UUID, (1, 0, 3, 1), ''A''), (2, (0, 0, 2, 1), ''B''),
                                (3, (2, 1, 0, 0), ''C'')].
          calculate_iou rect_geometry (0, 0, 2, 1) p' \<le> 1"
    using t1 [THEN conjunct1] by blast
  have c1: "calculate_iou rect_geometry (0, 0, 2, 1) (1, 0, 3, 1) \<le> 1"
    using all by simp
  have c1': "calculate_iou rect_geometry (0, 0, 2, 1) (2, 1, 0, 0) \<le> 1"
    using all by simp
  have "bid = None"
    using find_best_matching_slot_greatest [OF r2, THEN conjunct2, THEN conjunct1] low
    by (rule mp)
  then have c2: "fst (find_best_matching_slot rect_geometry (3 / 10) (0, 0, 2, 1)
                   [(1, (5, 5, 6, 6), ''A'')]) = None"
    using r2 by simp
  show ?thesis
    by (intro conjI r1 c0 c1 c1' low1 c2)
qed

section \<open>Properties of the occupancy tracker\<close>

text \<open>
  Claim C1.  The docstring of \<open>update\<close> promises a status only when a confirmed change
  occurs.  The code returns the status on every update whose window is full and uniform:
  with \<open>confirm_frames = 3\<close> the samples \<open>[T, T, T, F, T, T, T]\<close> give \<open>occupied\<close> twice, and
  \<open>[T, T, T, T]\<close> gives it on the third and on the fourth update.
\<close>

theorem update_repeats_confirmed_status:
  "feed (OccupancyTracker_init 3) 7 [True, True, True, False, True, True, True]
     = [None, None, Some ''occupied'', None, None, None, Some ''occupied'']
   \<and> feed (OccupancyTracker_init 3) 7 [True, True, True, True]
     = [None, None, Some ''occupied'', Some ''occupied'']"
  by (simp add: OccupancyTracker_init_def update_def)

section \<open>Properties of the per-frame occupancy\<close>

lemma mark_slots_eq:
  "mark_slots g thr dp sp occ =
     occ \<union> fst ` set (filter (\<lambda>(s, p, n). thr \<le> calculate_iou g dp p) sp)"
proof (induction sp arbitrary: occ)
  case Nil
  show ?case by simp
next
  case (Cons e sp)
  obtain s p n where e: "e = (s, p, n)" by (cases e) auto
  show ?case
  proof (cases "thr \<le> calculate_iou g dp p")
    case True
    then show ?thesis unfolding e by (simp add: Cons.IH)
  next
    case False
    then show ?thesis unfolding e by (simp add: Cons.IH)
  qed
qed

lemma mark_slots_iff:
  "sid \<in> mark_slots g thr dp sp occ \<longleftrightarrow>
     sid \<in> occ \<or> (\<exists>(s, p, n) \<in> set sp. s = sid \<and> thr \<le> calculate_iou g dp p)"
  unfolding mark_slots_eq by force

lemma occupied_slots_loop_iff:
  "sid \<in> occupied_slots_loop g thr sp ds occ \<longleftrightarrow>
     sid \<in> occ \<or> (\<exists>d \<in> set ds. \<exists>(s, p, n) \<in> set sp.
        s = sid \<and> thr \<le> calculate_iou g (bbox_to_polygon g (bbox_normalized d)) p)"
proof (induction ds arbitrary: occ)
  case Nil
  show ?case by simp
next
  case (Cons d ds)
  show ?case
    unfolding occupied_slots_loop.simps Let_def Cons.IH mark_slots_iff by auto
qed

lemma map_of_add_to_frame:
  "map_of (add_to_frame g thr sp d fo) f =
     (if f = frame_number d
      then Some (let e = (case map_of fo f of
                            None \<Rightarrow> \<lparr> fe_frame_number = f, fe_frame_time = frame_time d,
                                      fe_offset_seconds = offset_seconds d,
                                      fe_occupied_slots = {}, fe_count = 0 \<rparr>
                          | Some e \<Rightarrow> e)
                 in e\<lparr> fe_occupied_slots :=
                          mark_slots g thr (bbox_to_polygon g (bbox_normalized d)) sp
                            (fe_occupied_slots e),
                        fe_count := fe_count e + 1 \<rparr>)
      else map_of fo f)"
  by (auto simp: add_to_frame_def Let_def map_of_map_entry update_conv' split: option.splits)

lemma group_by_frame_occupied:
  "map_of (group_by_frame g thr sp ds fo) f = Some e \<Longrightarrow>
     (sid \<in> fe_occupied_slots e \<longleftrightarrow>
        (\<exists>e0. map_of fo f = Some e0 \<and> sid \<in> fe_occupied_slots e0)
        \<or> (\<exists>d \<in> set ds. frame_number d = f \<and> (\<exists>(s, p, n) \<in> set sp.
              s = sid \<and> thr \<le> calculate_iou g (bbox_to_polygon g (bbox_normalized d)) p)))"
proof (induction ds arbitrary: fo)
  case Nil
  then show ?case by simp
next
  case (Cons d ds)
  from Cons.prems have
    run: "map_of (group_by_frame g thr sp ds (add_to_frame g thr sp d fo)) f = Some e"
    by simp
  show ?case
    unfolding Cons.IH [OF run]
    by (auto simp: map_of_add_to_frame Let_def mark_slots_iff split: option.splits)
qed


lemmas rect_eval = calculate_iou_rect rect_union_area_def rect_intersection_area_def rect_area_def
  rect_geometry_simps bbox_to_polygon_def

text \<open>
  Claim C2 as stated fails: the aggregating endpoints do not run the slot matcher.  One
  detection that overlaps two slots marks both: \<open>check_occupancy\<close> returns both slots and
  the timeline of \<open>get_occupancy_stats\<close> counts two occupied slots for a frame with one
  detection, where the slot matcher returns the first slot only.
\<close>

theorem one_detection_marks_two_slots:
  "check_occupancy rect_geometry (3 / 10) [(1, (0, 0, 2, 1), ''A''), (2, (0, 0, 2, 2), ''B'')]
       [car_detection 0 (0, 0, 2, 1)] = {1, 2}
   \<and> os_timeline (get_occupancy_stats rect_geometry (3 / 10) [car_detection 0 (0, 0, 2, 1)]
         [slot_row 1 ''A'' (0, 0, 2, 1), slot_row 2 ''B'' (0, 0, 2, 2)])
       = [\<lparr> tl_frame_number = 0, tl_frame_time = 0, tl_total_slots = 2, tl_occupied_slots = 2,
            tl_free_slots = 0, tl_occupancy_rate = 1, tl_total_detections = 1 \<rparr>]
   \<and> find_best_matching_slot rect_geometry (3 / 10) (0, 0, 2, 1)
         [(1, (0, 0, 2, 1), ''A''), (2, (0, 0, 2, 2), ''B'')] = (Some 1, Some ''A'', 1)"
  by (simp add: check_occupancy_def get_occupancy_stats_def occupancy_timeline_def
      slot_polygons_of_def add_to_frame_def car_detection_def slot_row_def
      find_best_matching_slot_def rect_eval insert_commute)

text \<open>
  Claim C2 as amended.  In \<open>get_current_parking_status\<close> (\<open>check_occupancy\<close>) and in
  \<open>get_occupancy_stats\<close> (\<open>group_by_frame\<close>) every detection is compared with every slot:
  a slot is occupied in a frame exactly when some detection of that frame has an IoU with
  it that reaches the threshold.
\<close>

theorem occupied_iff_detection_reaches_threshold:
  "(sid \<in> check_occupancy g thr sp ds \<longleftrightarrow>
      (\<exists>d \<in> set ds. \<exists>(s, p, n) \<in> set sp.
          s = sid \<and> thr \<le> calculate_iou g (bbox_to_polygon g (bbox_normalized d)) p))
   \<and> (map_of (group_by_frame g thr sp ds []) f = Some e \<longrightarrow>
        (sid \<in> fe_occupied_slots e \<longleftrightarrow>
           (\<exists>d \<in> set ds. frame_number d = f \<and> (\<exists>(s, p, n) \<in> set sp.
               s = sid \<and> thr \<le> calculate_iou g (bbox_to_polygon g (bbox_normalized d)) p))))"
proof (intro conjI impI)
  show "sid \<in> check_occupancy g thr sp ds \<longleftrightarrow>
      (\<exists>d \<in> set ds. \<exists>(s, p, n) \<in> set sp.
          s = sid \<and> thr \<le> calculate_iou g (bbox_to_polygon g (bbox_normalized d)) p)"
    unfolding check_occupancy_def occupied_slots_loop_iff by simp
next
  assume "map_of (group_by_frame g thr sp ds []) f = Some e"
  from group_by_frame_occupied [OF this, of sid]
  show "sid \<in> fe_occupied_slots e \<longleftrightarrow>
           (\<exists>d \<in> set ds. frame_number d = f \<and> (\<exists>(s, p, n) \<in> set sp.
               s = sid \<and> thr \<le> calculate_iou g (bbox_to_polygon g (bbox_normalized d)) p))"
    by simp
qed

text \<open>One detection in frame \<open>0\<close> against three slots, of which it overlaps two.\<close>

theorem occupied_iff_detection_reaches_threshold_witness:
  "map_of (group_by_frame rect_geometry (3 / 10)
             [(1, (0, 0, 2, 1), ''A''), (2, (0, 0, 2, 2), ''B''), (3, (5, 5, 6, 6), ''C'')]
             [car_detection 0 (0, 0, 2, 1)] []) 0
     = Some \<lparr> fe_frame_number = 0, fe_frame_time = 0, fe_offset_seconds = 0,
              fe_occupied_slots = {1, 2}, fe_count = 1 \<rparr>
   \<and> 2 \<in> check_occupancy rect_geometry (3 / 10)
             [(1, (0, 0, 2, 1), ''A''), (2, (0, 0, 2, 2), ''B''), (3, (5, 5, 6, 6), ''C'')]
             [car_detection 0 (0, 0, 2, 1)]
   \<and> (\<exists>d \<in> set [car_detection 0 (0, 0, 2, 1)]. frame_number d = 0
        \<and> (\<exists>(s, p, n) \<in> set [(1 :: UUID, (0, 0, 2, 1), ''A''), (2, (0, 0, 2, 2), ''B''),
                                 (3, (5, 5, 6, 6), ''C'')].
              s = 2 \<and> 3 / 10
                 \<le> calculate_iou rect_geometry (bbox_to_polygon rect_geometry (bbox_normalized d)) p))"
proof -
  have run: "map_of (group_by_frame rect_geometry (3 / 10)
             [(1, (0, 0, 2, 1), ''A''), (2, (0, 0, 2, 2), ''B''), (3, (5, 5, 6, 6), ''C'')]
             [car_detection 0 (0, 0, 2, 1)] []) 0
     = Some \<lparr> fe_frame_number = 0, fe_frame_time = 0, fe_offset_seconds = 0,
              fe_occupied_slots = {1, 2}, fe_count = 1 \<rparr>"
    by (simp add: add_to_frame_def car_detection_def rect_eval insert_commute)
  note t = occupied_iff_detection_reaches_threshold
    [of 2 rect_geometry "3 / 10"
        "[(1, (0, 0, 2, 1), ''A''), (2, (0, 0, 2, 2), ''B''), (3, (5, 5, 6, 6), ''C'')]"
        "[car_detection 0 (0, 0, 2, 1)]" 0
        "\<lparr> fe_frame_number = 0, fe_frame_time = 0, fe_offset_seconds = 0,
              fe_occupied_slots = {1, 2}, fe_count = 1 \<rparr>"]
  have ex: "\<exists>d \<in> set [car_detection 0 (0, 0, 2, 1)]. frame_number d = 0
        \<and> (\<exists>(s, p, n) \<in> set [(1 :: UUID, (0, 0, 2, 1), ''A''), (2, (0, 0, 2, 2), ''B''),
                                 (3, (5, 5, 6, 6), ''C'')].
              s = 2 \<and> 3 / 10
                 \<le> calculate_iou rect_geometry (bbox_to_polygon rect_geometry (bbox_normalized d)) p)"
    using t run by simp
  then have mem: "2 \<in> check_occupancy rect_geometry (3 / 10)
             [(1, (0, 0, 2, 1), ''A''), (2, (0, 0, 2, 2), ''B''), (3, (5, 5, 6, 6), ''C'')]
             [car_detection 0 (0, 0, 2, 1)]"
    using t by simp
  show ?thesis using run ex mem by simp
qed

section \<open>Properties of the lot-level status labels\<close>

lemma round2_simps: "round2 0 = 0" "round2 1 = 1" "round2 (1 / 2) = 1 / 2"
  by (simp_all add: round2_def)

lemma build_lots_status_entry:
  assumes "e \<in> set (build_lots_status rnd ld)"
  shows "\<exists>c. (lt_id e, c) \<in> set ld \<and> lt_capacity e = lc_capacity c \<and> lt_occupied e = lc_occupied c
           \<and> lt_status e = Some (lot_status_label
                (if lc_capacity c > 0 then real (lc_occupied c) / real (lc_capacity c) else 0))"
  using assms by (auto simp: build_lots_status_def Let_def)

lemma lots_status_ok:
  assumes "lr_status (get_lots_parking_status rnd g thr video lots slots ds) = ''ok''"
  shows "\<exists>v latest. video = Some v \<and> lots \<noteq> [] \<and> max_frame_number ds = Some latest
     \<and> set (lr_lots (get_lots_parking_status rnd g thr video lots slots ds))
         = set (build_lots_status rnd
             (aggregate_by_lots
                (map_slots_to_lots g (lot_polygons_of g lots) slots Map.empty)
                (check_occupancy g thr (slot_polygons_of g slots)
                   (filter (\<lambda>d. frame_number d = latest) ds))
                slots (lot_data_of lots)))"
  using assms
  by (auto simp: get_lots_parking_status_def Let_def split: option.splits if_splits)

lemma build_lot_statistics_entry:
  assumes "e \<in> set (build_lot_statistics rnd total_frames lo lots)"
  shows "\<exists>rate. lo_occupancy_rate e = rnd rate \<and> lo_status e = analytics_status_label rate"
  using assms
  by (induction lots) (auto simp: Let_def split: option.splits if_splits)

lemma analytics_lots:
  assumes "get_video_analytics rnd g thr video lots slots ds = Inr a"
    and "e \<in> set (va_lot_statistics a)"
  shows "\<exists>rate. lo_occupancy_rate e = rnd rate \<and> lo_status e = analytics_status_label rate"
  using assms
  by (auto simp: get_video_analytics_def Let_def build_lot_statistics_entry
      split: option.splits if_splits)

lemma analytics_status_label_cases:
  "analytics_status_label r \<in> {''busy'', ''moderate'', ''free''}"
  by (simp add: analytics_status_label_def)

lemma lots_status_example:
  "get_lots_parking_status round2 rect_geometry (3 / 10) (Some (processed_video 9))
       [lot_row 5 ''L'' (0, 0, 10, 10)] [slot_row 2 ''A'' (0, 0, 2, 1)]
       [car_detection 0 (0, 0, 2, 1)]
     = \<lparr> lr_status = ''ok'', lr_video_id = Some 9, lr_frame_number = Some 0,
         lr_lots = [\<lparr> lt_id = 5, lt_name = ''L'', lt_capacity = 1, lt_occupied = 1,
                      lt_free = Some 0, lt_occupancy_rate = 1, lt_status = Some ''full'' \<rparr>],
         lr_summary = \<lparr> ls_total_lots = 1, ls_total_capacity = 1, ls_total_occupied = 1,
                        ls_avg_occupancy_rate = 1 \<rparr> \<rparr>"
  by (simp add: get_lots_parking_status_def build_lots_status_def lot_data_of_def
      lot_polygons_of_def slot_polygons_of_def check_occupancy_def lot_status_label_def
      check_containment_def check_containment_try_def
      car_detection_def slot_row_def lot_row_def processed_video_def round2_simps
      calculate_iou_rect rect_union_area_def rect_intersection_area_def rect_area_def
      rect_geometry_simps bbox_to_polygon_def)

lemma analytics_example:
  "get_video_analytics round2 rect_geometry (3 / 10) (Some (processed_video 9))
       [lot_row 5 ''L'' (0, 0, 10, 10)] [slot_row 2 ''A'' (0, 0, 2, 1)]
       [car_detection 0 (0, 0, 2, 1)]
     = Inr \<lparr> va_total_detections = 1, va_frames_analyzed = 1,
             va_occupancy_timeline =
               [\<lparr> af_frame_number = 0, af_occupied_slots = 1, af_free_slots = 0,
                  af_occupancy_rate = 1, af_total_vehicles = 1 \<rparr>],
             va_slot_statistics =
               [\<lparr> st_slot_id = 2, st_occupied_frames = 1, st_total_frames = 1,
                  st_occupancy_rate = 1, st_status = ''busy'' \<rparr>],
             va_lot_statistics =
               [\<lparr> lo_lot_id = 5, lo_lot_name = ''L'', lo_total_slots = 1,
                  lo_occupancy_rate = 1, lo_status = ''busy'' \<rparr>] \<rparr>"
  by (simp add: get_video_analytics_def analytics_timeline_def slot_occupancy_def
      lot_occupancy_of_def lot_polygons_of_def slot_polygons_of_def add_to_frame_def
      analytics_status_label_def check_containment_def check_containment_try_def
      car_detection_def slot_row_def lot_row_def processed_video_def round2_simps
      calculate_iou_rect rect_union_area_def rect_intersection_area_def rect_area_def
      rect_geometry_simps bbox_to_polygon_def)

text \<open>
  Claim C7 as stated fails for \<open>get_video_analytics\<close>: a lot whose only slot is occupied in
  the only frame has the rate \<open>1.0\<close> and is labelled \<open>busy\<close> in \<open>lot_statistics\<close>, not \<open>full\<close>.
\<close>

theorem analytics_labels_full_lot_busy:
  "get_video_analytics round2 rect_geometry (3 / 10) (Some (processed_video 9))
       [lot_row 5 ''L'' (0, 0, 10, 10)] [slot_row 2 ''A'' (0, 0, 2, 1)]
       [car_detection 0 (0, 0, 2, 1)]
     = Inr \<lparr> va_total_detections = 1, va_frames_analyzed = 1,
             va_occupancy_timeline =
               [\<lparr> af_frame_number = 0, af_occupied_slots = 1, af_free_slots = 0,
                  af_occupancy_rate = 1, af_total_vehicles = 1 \<rparr>],
             va_slot_statistics =
               [\<lparr> st_slot_id = 2, st_occupied_frames = 1, st_total_frames = 1,
                  st_occupancy_rate = 1, st_status = ''busy'' \<rparr>],
             va_lot_statistics =
               [\<lparr> lo_lot_id = 5, lo_lot_name = ''L'', lo_total_slots = 1,
                  lo_occupancy_rate = 1, lo_status = ''busy'' \<rparr>] \<rparr>"
  by (rule analytics_example)

text \<open>
  Claim C7 as amended.  \<open>get_lots_parking_status\<close> labels every lot by its rate
  \<open>occupied / capacity\<close> (\<open>0\<close> for capacity \<open>0\<close>): \<open>full\<close> from \<open>0.95\<close>, \<open>busy\<close> from \<open>0.7\<close>,
  \<open>moderate\<close> from \<open>0.3\<close>, else \<open>free\<close>.  \<open>get_video_analytics\<close> labels every lot of
  \<open>lot_statistics\<close> by its rate: \<open>busy\<close> above \<open>0.7\<close>, \<open>moderate\<close> above \<open>0.3\<close>, else \<open>free\<close>.
\<close>

theorem lot_status_labels:
  "(lr_status (get_lots_parking_status rnd g thr video lots slots ds) = ''ok'' \<longrightarrow>
      (\<forall>e \<in> set (lr_lots (get_lots_parking_status rnd g thr video lots slots ds)).
          lt_status e = Some (lot_status_label
            (if lt_capacity e > 0 then real (lt_occupied e) / real (lt_capacity e) else 0))))
   \<and> (95 / 100 \<le> r \<longrightarrow> lot_status_label r = ''full'')
   \<and> (7 / 10 \<le> r \<and> r < 95 / 100 \<longrightarrow> lot_status_label r = ''busy'')
   \<and> (3 / 10 \<le> r \<and> r < 7 / 10 \<longrightarrow> lot_status_label r = ''moderate'')
   \<and> (r < 3 / 10 \<longrightarrow> lot_status_label r = ''free'')
   \<and> (get_video_analytics rnd g thr video lots slots ds = Inr a \<longrightarrow>
        (\<forall>e \<in> set (va_lot_statistics a).
            \<exists>rate. lo_occupancy_rate e = rnd rate \<and> lo_status e = analytics_status_label rate))
   \<and> (7 / 10 < r \<longrightarrow> analytics_status_label r = ''busy'')
   \<and> (3 / 10 < r \<and> r \<le> 7 / 10 \<longrightarrow> analytics_status_label r = ''moderate'')
   \<and> (r \<le> 3 / 10 \<longrightarrow> analytics_status_label r = ''free'')"
proof (intro conjI impI ballI)
  fix e
  assume ok: "lr_status (get_lots_parking_status rnd g thr video lots slots ds) = ''ok''"
    and e: "e \<in> set (lr_lots (get_lots_parking_status rnd g thr video lots slots ds))"
  from lots_status_ok [OF ok] e obtain ld where "e \<in> set (build_lots_status rnd ld)"
    by blast
  from build_lots_status_entry [OF this]
  show "lt_status e = Some (lot_status_label
            (if lt_capacity e > 0 then real (lt_occupied e) / real (lt_capacity e) else 0))"
    by auto
next
  fix e
  assume "get_video_analytics rnd g thr video lots slots ds = Inr a"
    and "e \<in> set (va_lot_statistics a)"
  then show "\<exists>rate. lo_occupancy_rate e = rnd rate \<and> lo_status e = analytics_status_label rate"
    by (rule analytics_lots)
qed (simp_all add: lot_status_label_def analytics_status_label_def)

text \<open>One lot with one occupied slot, and one rate in each band.\<close>

theorem lot_status_labels_witness:
  "lr_status (get_lots_parking_status round2 rect_geometry (3 / 10)
           (Some (processed_video 9)) [lot_row 5 ''L'' (0, 0, 10, 10)]
           [slot_row 2 ''A'' (0, 0, 2, 1)] [car_detection 0 (0, 0, 2, 1)]) = ''ok''
   \<and> lt_status (hd (lr_lots (get_lots_parking_status round2 rect_geometry (3 / 10)
           (Some (processed_video 9)) [lot_row 5 ''L'' (0, 0, 10, 10)]
           [slot_row 2 ''A'' (0, 0, 2, 1)] [car_detection 0 (0, 0, 2, 1)]))) = Some ''full''
   \<and> (\<exists>rate. lo_occupancy_rate (hd (va_lot_statistics
           \<lparr> va_total_detections = 1, va_frames_analyzed = 1,
             va_occupancy_timeline =
               [\<lparr> af_frame_number = 0, af_occupied_slots = 1, af_free_slots = 0,
                  af_occupancy_rate = 1, af_total_vehicles = 1 \<rparr>],
             va_slot_statistics =
               [\<lparr> st_slot_id = 2, st_occupied_frames = 1, st_total_frames = 1,
                  st_occupancy_rate = 1, st_status = ''busy'' \<rparr>],
             va_lot_statistics =
               [\<lparr> lo_lot_id = 5, lo_lot_name = ''L'', lo_total_slots = 1,
                  lo_occupancy_rate = 1, lo_status = ''busy'' \<rparr>] \<rparr>)) = round2 rate
         \<and> lo_status (hd (va_lot_statistics
           \<lparr> va_total_detections = 1, va_frames_analyzed = 1,
             va_occupancy_timeline =
               [\<lparr> af_frame_number = 0, af_occupied_slots = 1, af_free_slots = 0,
                  af_occupancy_rate = 1, af_total_vehicles = 1 \<rparr>],
             va_slot_statistics =
               [\<lparr> st_slot_id = 2, st_occupied_frames = 1, st_total_frames = 1,
                  st_occupancy_rate = 1, st_status = ''busy'' \<rparr>],
             va_lot_statistics =
               [\<lparr> lo_lot_id = 5, lo_lot_name = ''L'', lo_total_slots = 1,
                  lo_occupancy_rate = 1, lo_status = ''busy'' \<rparr>] \<rparr>)) = analytics_status_label rate)
   \<and> lot_status_label 1 = ''full'' \<and> lot_status_label (8 / 10) = ''busy''
   \<and> lot_status_label (1 / 2) = ''moderate'' \<and> lot_status_label (1 / 10) = ''free''
   \<and> analytics_status_label 1 = ''busy'' \<and> analytics_status_label (1 / 2) = ''moderate''
   \<and> analytics_status_label (1 / 10) = ''free''"
proof -
  note t1 = lot_status_labels [of round2 rect_geometry "3 / 10" "Some (processed_video 9)"
      "[lot_row 5 ''L'' (0, 0, 10, 10)]" "[slot_row 2 ''A'' (0, 0, 2, 1)]"
      "[car_detection 0 (0, 0, 2, 1)]" 1
      "\<lparr> va_total_detections = 1, va_frames_analyzed = 1,
             va_occupancy_timeline =
               [\<lparr> af_frame_number = 0, af_occupied_slots = 1, af_free_slots = 0,
                  af_occupancy_rate = 1, af_total_vehicles = 1 \<rparr>],
             va_slot_statistics =
               [\<lparr> st_slot_id = 2, st_occupied_frames = 1, st_total_frames = 1,
                  st_occupancy_rate = 1, st_status = ''busy'' \<rparr>],
             va_lot_statistics =
               [\<lparr> lo_lot_id = 5, lo_lot_name = ''L'', lo_total_slots = 1,
                  lo_occupancy_rate = 1, lo_status = ''busy'' \<rparr>] \<rparr>"]
  note t2 = lot_status_labels [of round2 rect_geometry "3 / 10" "Some (processed_video 9)"
      "[lot_row 5 ''L'' (0, 0, 10, 10)]" "[slot_row 2 ''A'' (0, 0, 2, 1)]"
      "[car_detection 0 (0, 0, 2, 1)]" "8 / 10"]
  note t3 = lot_status_labels [of round2 rect_geometry "3 / 10" "Some (processed_video 9)"
      "[lot_row 5 ''L'' (0, 0, 10, 10)]" "[slot_row 2 ''A'' (0, 0, 2, 1)]"
      "[car_detection 0 (0, 0, 2, 1)]" "1 / 2"]
  note t4 = lot_status_labels [of round2 rect_geometry "3 / 10" "Some (processed_video 9)"
      "[lot_row 5 ''L'' (0, 0, 10, 10)]" "[slot_row 2 ''A'' (0, 0, 2, 1)]"
      "[car_detection 0 (0, 0, 2, 1)]" "1 / 10"]
  have ok: "lr_status (get_lots_parking_status round2 rect_geometry (3 / 10)
           (Some (processed_video 9)) [lot_row 5 ''L'' (0, 0, 10, 10)]
           [slot_row 2 ''A'' (0, 0, 2, 1)] [car_detection 0 (0, 0, 2, 1)]) = ''ok''"
    by (subst lots_status_example) simp
  have "\<forall>e \<in> set (lr_lots (get_lots_parking_status round2 rect_geometry (3 / 10)
           (Some (processed_video 9)) [lot_row 5 ''L'' (0, 0, 10, 10)]
           [slot_row 2 ''A'' (0, 0, 2, 1)] [car_detection 0 (0, 0, 2, 1)])).
          lt_status e = Some (lot_status_label
            (if lt_capacity e > 0 then real (lt_occupied e) / real (lt_capacity e) else 0))"
    using t1 [THEN conjunct1] ok by (rule mp)
  then have full: "\<forall>e \<in> set (lr_lots (get_lots_parking_status round2 rect_geometry (3 / 10)
           (Some (processed_video 9)) [lot_row 5 ''L'' (0, 0, 10, 10)]
           [slot_row 2 ''A'' (0, 0, 2, 1)] [car_detection 0 (0, 0, 2, 1)])).
         lt_status e = Some ''full''"
    unfolding lots_status_example by (simp add: lot_status_label_def)
  have an: "\<forall>e \<in> set (va_lot_statistics
           \<lparr> va_total_detections = 1, va_frames_analyzed = 1,
             va_occupancy_timeline =
               [\<lparr> af_frame_number = 0, af_occupied_slots = 1, af_free_slots = 0,
                  af_occupancy_rate = 1, af_total_vehicles = 1 \<rparr>],
             va_slot_statistics =
               [\<lparr> st_slot_id = 2, st_occupied_frames = 1, st_total_frames = 1,
                  st_occupancy_rate = 1, st_status = ''busy'' \<rparr>],
             va_lot_statistics =
               [\<lparr> lo_lot_id = 5, lo_lot_name = ''L'', lo_total_slots = 1,
                  lo_occupancy_rate = 1, lo_status = ''busy'' \<rparr>] \<rparr>).
         \<exists>rate. lo_occupancy_rate e = round2 rate \<and> lo_status e = analytics_status_label rate"
    using t1 [THEN conjunct2, THEN conjunct2, THEN conjunct2, THEN conjunct2, THEN conjunct2,
              THEN conjunct1] analytics_example
    by (rule mp)
  have l1: "lot_status_label 1 = ''full''"
    using t1 [THEN conjunct2, THEN conjunct1] by simp
  have l2: "lot_status_label (8 / 10) = ''busy''"
    using t2 [THEN conjunct2, THEN conjunct2, THEN conjunct1] by simp
  have l3: "lot_status_label (1 / 2) = ''moderate''"
    using t3 [THEN conjunct2, THEN conjunct2, THEN conjunct2, THEN conjunct1] by simp
  have l4: "lot_status_label (1 / 10) = ''free''"
    using t4 [THEN conjunct2, THEN conjunct2, THEN conjunct2, THEN conjunct2, THEN conjunct1]
    by simp
  have m1: "analytics_status_label 1 = ''busy''"
    using t1 [THEN conjunct2, THEN conjunct2, THEN conjunct2, THEN conjunct2, THEN conjunct2,
              THEN conjunct2, THEN conjunct1] by simp
  have m2: "analytics_status_label (1 / 2) = ''moderate''"
    using t3 [THEN conjunct2, THEN conjunct2, THEN conjunct2, THEN conjunct2, THEN conjunct2,
              THEN conjunct2, THEN conjunct2, THEN conjunct1] by simp
  have m3: "analytics_status_label (1 / 10) = ''free''"
    using t4 [THEN conjunct2, THEN conjunct2, THEN conjunct2, THEN conjunct2, THEN conjunct2,
              THEN conjunct2, THEN conjunct2, THEN conjunct2] by simp
  have full': "lt_status (hd (lr_lots (get_lots_parking_status round2 rect_geometry (3 / 10)
           (Some (processed_video 9)) [lot_row 5 ''L'' (0, 0, 10, 10)]
           [slot_row 2 ''A'' (0, 0, 2, 1)] [car_detection 0 (0, 0, 2, 1)]))) = Some ''full''"
    using full unfolding lots_status_example by simp
  have an': "\<exists>rate. lo_occupancy_rate (hd (va_lot_statistics
           \<lparr> va_total_detections = 1, va_frames_analyzed = 1,
             va_occupancy_timeline =
               [\<lparr> af_frame_number = 0, af_occupied_slots = 1, af_free_slots = 0,
                  af_occupancy_rate = 1, af_total_vehicles = 1 \<rparr>],
             va_slot_statistics =
               [\<lparr> st_slot_id = 2, st_occupied_frames = 1, st_total_frames = 1,
                  st_occupancy_rate = 1, st_status = ''busy'' \<rparr>],
             va_lot_statistics =
               [\<lparr> lo_lot_id = 5, lo_lot_name = ''L'', lo_total_slots = 1,
                  lo_occupancy_rate = 1, lo_status = ''busy'' \<rparr>] \<rparr>)) = round2 rate
         \<and> lo_status (hd (va_lot_statistics
           \<lparr> va_total_detections = 1, va_frames_analyzed = 1,
             va_occupancy_timeline =
               [\<lparr> af_frame_number = 0, af_occupied_slots = 1, af_free_slots = 0,
                  af_occupancy_rate = 1, af_total_vehicles = 1 \<rparr>],
             va_slot_statistics =
               [\<lparr> st_slot_id = 2, st_occupied_frames = 1, st_total_frames = 1,
                  st_occupancy_rate = 1, st_status = ''busy'' \<rparr>],
             va_lot_statistics =
               [\<lparr> lo_lot_id = 5, lo_lot_name = ''L'', lo_total_slots = 1,
                  lo_occupancy_rate = 1, lo_status = ''busy'' \<rparr>] \<rparr>)) = analytics_status_label rate"
    using an by simp
  show ?thesis
    by (intro conjI ok full' an' l1 l2 l3 l4 m1 m2 m3)
qed

section \<open>Properties of the lot membership\<close>




lemma first_containing_lot_in_keys:
  "first_containing_lot g sp lp = Some l \<Longrightarrow> l \<in> fst ` set lp"
proof (induction lp)
  case Nil
  then show ?case by simp
next
  case (Cons e lp)
  obtain l0 p0 n0 where e: "e = (l0, p0, n0)" by (cases e) auto
  show ?case
  proof (cases "check_containment g sp p0 (1 / 2)")
    case True
    with Cons.prems e show ?thesis by simp
  next
    case False
    with Cons.prems e have "first_containing_lot g sp lp = Some l" by simp
    from Cons.IH [OF this] show ?thesis by simp
  qed
qed




lemma distinct_lot_data_of: "distinct (map fst (lot_data_of lots))"
proof -
  have "\<And>d. distinct (map fst d) \<Longrightarrow>
          distinct (map fst (fold (\<lambda>lot d. AList.update (lot_id lot)
             \<lparr> lc_name = lot_name lot, lc_capacity = 0, lc_occupied = 0 \<rparr> d) lots d))"
    by (induction lots) (simp_all add: distinct_update)
  from this [of "[]"] show ?thesis by (simp add: lot_data_of_def)
qed

lemma distinct_aggregate_by_lots:
  "distinct (map fst ld) \<Longrightarrow> distinct (map fst (aggregate_by_lots M occ slots ld))"
proof (induction slots arbitrary: ld)
  case Nil
  then show ?case by simp
next
  case (Cons s slots)
  show ?case
  proof (cases "M (slot_id s)")
    case None
    then show ?thesis using Cons by simp
  next
    case (Some lid)
    show ?thesis
      using Some Cons.prems
      by (auto simp: Let_def intro!: Cons.IH distinct_map_entry)
  qed
qed

lemma aggregate_by_lots_counts:
  "map_of ld lid = Some c0 \<Longrightarrow>
     \<exists>c. map_of (aggregate_by_lots M occ slots ld) lid = Some c
        \<and> lc_name c = lc_name c0
        \<and> lc_capacity c = lc_capacity c0 + length (filter (\<lambda>s. M (slot_id s) = Some lid) slots)
        \<and> lc_occupied c = lc_occupied c0
             + length (filter (\<lambda>s. M (slot_id s) = Some lid \<and> slot_id s \<in> occ) slots)"
proof (induction slots arbitrary: ld c0)
  case Nil
  then show ?case by simp
next
  case (Cons s slots)
  show ?case
  proof (cases "M (slot_id s)")
    case None
    from Cons.IH [OF Cons.prems] None show ?thesis by simp
  next
    case (Some l')
    show ?thesis
    proof (cases "l' = lid")
      case False
      let ?ld1 = "AList.map_entry l' (\<lambda>c. c\<lparr> lc_capacity := lc_capacity c + 1 \<rparr>) ld"
      let ?ld2 = "if slot_id s \<in> occ
                  then AList.map_entry l' (\<lambda>c. c\<lparr> lc_occupied := lc_occupied c + 1 \<rparr>) ?ld1
                  else ?ld1"
      have m2: "map_of ?ld2 lid = Some c0"
        using False Cons.prems by (simp add: map_of_map_entry)
      show ?thesis
      proof (cases "map_of ld l' = None")
        case True
        from Cons.IH [OF Cons.prems] Some False True show ?thesis by simp
      next
        case nn: False
        have run: "aggregate_by_lots M occ (s # slots) ld = aggregate_by_lots M occ slots ?ld2"
          using Some nn by (simp add: Let_def)
        from Cons.IH [OF m2] Some False show ?thesis unfolding run by simp
      qed
    next
      case True
      let ?c1 = "c0\<lparr> lc_capacity := lc_capacity c0 + 1 \<rparr>"
      let ?c2 = "if slot_id s \<in> occ then ?c1\<lparr> lc_occupied := lc_occupied c0 + 1 \<rparr> else ?c1"
      let ?ld1 = "AList.map_entry lid (\<lambda>c. c\<lparr> lc_capacity := lc_capacity c + 1 \<rparr>) ld"
      let ?ld2 = "if slot_id s \<in> occ
                  then AList.map_entry lid (\<lambda>c. c\<lparr> lc_occupied := lc_occupied c + 1 \<rparr>) ?ld1
                  else ?ld1"
      have m2: "map_of ?ld2 lid = Some ?c2"
        using Cons.prems by (simp add: map_of_map_entry)
      have run: "aggregate_by_lots M occ (s # slots) ld = aggregate_by_lots M occ slots ?ld2"
        using Some True Cons.prems by (simp add: Let_def)
      from Cons.IH [OF m2] obtain c where
        c: "map_of (aggregate_by_lots M occ slots ?ld2) lid = Some c"
           "lc_name c = lc_name ?c2"
           "lc_capacity c = lc_capacity ?c2 + length (filter (\<lambda>s. M (slot_id s) = Some lid) slots)"
           "lc_occupied c = lc_occupied ?c2
             + length (filter (\<lambda>s. M (slot_id s) = Some lid \<and> slot_id s \<in> occ) slots)"
        by blast
      show ?thesis
        unfolding run using c Some True by (cases "slot_id s \<in> occ") simp_all
    qed
  qed
qed

lemma map_of_lot_data_of:
  "(lid, c0) \<in> set (lot_data_of lots) \<Longrightarrow> lc_capacity c0 = 0 \<and> lc_occupied c0 = 0"
proof -
  have "\<And>d. (\<forall>(l, c) \<in> set d. lc_capacity c = 0 \<and> lc_occupied c = 0) \<Longrightarrow>
          (\<forall>(l, c) \<in> set (fold (\<lambda>lot d. AList.update (lot_id lot)
             \<lparr> lc_name = lot_name lot, lc_capacity = 0, lc_occupied = 0 \<rparr> d) lots d).
              lc_capacity c = 0 \<and> lc_occupied c = 0)"
  proof (induction lots)
    case Nil
    then show ?case by simp
  next
    case (Cons lot lots)
    have "\<forall>(l, c) \<in> set (AList.update (lot_id lot)
             \<lparr> lc_name = lot_name lot, lc_capacity = 0, lc_occupied = 0 \<rparr> d).
              lc_capacity c = 0 \<and> lc_occupied c = 0"
      using Cons.prems by (induction d) auto
    from Cons.IH [OF this] show ?case by simp
  qed
  from this [of "[]"] show "(lid, c0) \<in> set (lot_data_of lots) \<Longrightarrow> lc_capacity c0 = 0 \<and> lc_occupied c0 = 0"
    by (auto simp: lot_data_of_def)
qed


lemma dom_aggregate_by_lots:
  "fst ` set (aggregate_by_lots M occ slots ld) = fst ` set ld"
proof (induction slots arbitrary: ld)
  case Nil
  show ?case by simp
next
  case (Cons s slots)
  show ?case
  proof (cases "M (slot_id s)")
    case None
    then show ?thesis by (simp add: Cons.IH)
  next
    case (Some lid)
    then show ?thesis by (simp add: Let_def Cons.IH dom_map_entry)
  qed
qed

lemma aggregate_by_lots_entry:
  assumes "(lid, c) \<in> set (aggregate_by_lots M occ slots (lot_data_of lots))"
  shows "lc_capacity c = length (filter (\<lambda>s. M (slot_id s) = Some lid) slots)
       \<and> lc_occupied c = length (filter (\<lambda>s. M (slot_id s) = Some lid \<and> slot_id s \<in> occ) slots)"
proof -
  have d0: "distinct (map fst (lot_data_of lots))" by (rule distinct_lot_data_of)
  then have d: "distinct (map fst (aggregate_by_lots M occ slots (lot_data_of lots)))"
    by (rule distinct_aggregate_by_lots)
  from assms d have m: "map_of (aggregate_by_lots M occ slots (lot_data_of lots)) lid = Some c"
    by simp
  from assms have "lid \<in> fst ` set (aggregate_by_lots M occ slots (lot_data_of lots))"
    by force
  then have "lid \<in> fst ` set (lot_data_of lots)" by (simp add: dom_aggregate_by_lots)
  then obtain c0 where c0: "(lid, c0) \<in> set (lot_data_of lots)" by auto
  with d0 have m0: "map_of (lot_data_of lots) lid = Some c0" by simp
  from map_of_lot_data_of [OF c0] have z: "lc_capacity c0 = 0" "lc_occupied c0 = 0" by simp_all
  from aggregate_by_lots_counts [OF m0, of M occ slots] m z show ?thesis by auto
qed





section \<open>Properties of the occupancy timeline\<close>

lemma dom_add_to_frame:
  "fst ` set (add_to_frame g thr sp d fo) = insert (frame_number d) (fst ` set fo)"
proof -
  have "dom (map_of (add_to_frame g thr sp d fo)) = insert (frame_number d) (dom (map_of fo))"
    by (auto simp: map_of_add_to_frame dom_def)
  then show ?thesis by (simp add: dom_map_of_conv_image_fst)
qed

lemma dom_group_by_frame:
  "fst ` set (group_by_frame g thr sp ds fo) = fst ` set fo \<union> frame_number ` set ds"
  by (induction ds arbitrary: fo) (simp_all add: dom_add_to_frame)

lemma distinct_add_to_frame:
  "distinct (map fst fo) \<Longrightarrow> distinct (map fst (add_to_frame g thr sp d fo))"
  by (simp add: add_to_frame_def Let_def distinct_map_entry distinct_update)

lemma distinct_group_by_frame:
  "distinct (map fst fo) \<Longrightarrow> distinct (map fst (group_by_frame g thr sp ds fo))"
  by (induction ds arbitrary: fo) (simp_all add: distinct_add_to_frame)

lemma group_by_frame_number:
  "(\<And>k e0. map_of fo k = Some e0 \<Longrightarrow> fe_frame_number e0 = k) \<Longrightarrow>
     map_of (group_by_frame g thr sp ds fo) f = Some e \<Longrightarrow> fe_frame_number e = f"
proof (induction ds arbitrary: fo)
  case Nil
  then show ?case by simp
next
  case (Cons d ds)
  have inv: "\<And>k e0. map_of (add_to_frame g thr sp d fo) k = Some e0 \<Longrightarrow> fe_frame_number e0 = k"
    using Cons.prems(1)
    by (auto simp: map_of_add_to_frame Let_def split: if_splits option.splits)
  from Cons.prems(2) have "map_of (group_by_frame g thr sp ds (add_to_frame g thr sp d fo)) f = Some e"
    by simp
  from Cons.IH [OF inv this] show ?case .
qed

lemma group_by_frame_count:
  "map_of (group_by_frame g thr sp ds fo) f = Some e \<Longrightarrow>
     fe_count e = (case map_of fo f of None \<Rightarrow> 0 | Some e0 \<Rightarrow> fe_count e0)
                   + length (filter (\<lambda>d. frame_number d = f) ds)"
proof (induction ds arbitrary: fo)
  case Nil
  then show ?case by simp
next
  case (Cons d ds)
  from Cons.prems have "map_of (group_by_frame g thr sp ds (add_to_frame g thr sp d fo)) f = Some e"
    by simp
  from Cons.IH [OF this] show ?case
    by (auto simp: map_of_add_to_frame Let_def split: option.splits)
qed

lemma group_by_frame_entry:
  assumes "(k, e) \<in> set (group_by_frame g thr sp ds [])"
  shows "fe_frame_number e = k \<and> k \<in> frame_number ` set ds
       \<and> fe_count e = length (filter (\<lambda>d. frame_number d = k) ds)"
proof -
  have "distinct (map fst (group_by_frame g thr sp ds []))"
    by (rule distinct_group_by_frame) simp
  with assms have m: "map_of (group_by_frame g thr sp ds []) k = Some e" by simp
  have 1: "fe_frame_number e = k"
    by (rule group_by_frame_number [OF _ m]) simp
  have 2: "k \<in> frame_number ` set ds"
    using assms dom_group_by_frame [of g thr sp ds "[]"] by force
  have 3: "fe_count e = length (filter (\<lambda>d. frame_number d = k) ds)"
    using group_by_frame_count [OF m] by simp
  show ?thesis using 1 2 3 by simp
qed

lemma distinct_map_sort_key:
  "distinct (map f (sort_key f xs)) = distinct (map f xs)"
  by (induction xs) (simp_all add: distinct_insort_key)

lemma timeline_frame_numbers:
  "map tl_frame_number (occupancy_timeline n fo)
     = map fe_frame_number (sort_key fe_frame_number (map snd fo))"
  by (simp add: occupancy_timeline_def Let_def comp_def)

lemma group_by_frame_keys:
  "map fe_frame_number (map snd (group_by_frame g thr sp ds [])) = map fst (group_by_frame g thr sp ds [])"
proof -
  have "\<forall>x \<in> set (group_by_frame g thr sp ds []). fe_frame_number (snd x) = fst x"
  proof
    fix x assume x: "x \<in> set (group_by_frame g thr sp ds [])"
    obtain k e where "x = (k, e)" by (cases x) auto
    with x group_by_frame_entry [of k e g thr sp ds] show "fe_frame_number (snd x) = fst x"
      by simp
  qed
  then show ?thesis by simp
qed

lemma timeline_frames:
  "sorted (map tl_frame_number (occupancy_timeline n (group_by_frame g thr sp ds [])))
   \<and> distinct (map tl_frame_number (occupancy_timeline n (group_by_frame g thr sp ds [])))
   \<and> set (map tl_frame_number (occupancy_timeline n (group_by_frame g thr sp ds [])))
       = frame_number ` set ds"
proof (intro conjI)
  let ?fo = "group_by_frame g thr sp ds []"
  show "sorted (map tl_frame_number (occupancy_timeline n ?fo))"
    unfolding timeline_frame_numbers by simp
  have d: "distinct (map fst ?fo)" by (rule distinct_group_by_frame) simp
  show "distinct (map tl_frame_number (occupancy_timeline n ?fo))"
    unfolding timeline_frame_numbers distinct_map_sort_key group_by_frame_keys by (rule d)
  have "set (map tl_frame_number (occupancy_timeline n ?fo))
          = set (map fe_frame_number (map snd ?fo))"
    unfolding timeline_frame_numbers by (simp only: set_map set_sort)
  also have "\<dots> = fst ` set ?fo" unfolding group_by_frame_keys by simp
  also have "\<dots> = frame_number ` set ds" by (simp add: dom_group_by_frame)
  finally show "set (map tl_frame_number (occupancy_timeline n ?fo)) = frame_number ` set ds" .
qed


lemma analytics_timeline_frames:
  assumes "get_video_analytics rnd g thr video lots slots ds = Inr a"
  shows "set (map af_frame_number (va_occupancy_timeline a)) \<subseteq> frame_number ` set ds"
proof -
  let ?fo = "group_by_frame g thr (slot_polygons_of g slots) ds []"
  have full: "set (map af_frame_number (analytics_timeline rnd (length slots) ?fo))
                = frame_number ` set ds"
  proof -
    have "map af_frame_number (analytics_timeline rnd (length slots) ?fo)
            = map fe_frame_number (sort_key fe_frame_number (map snd ?fo))"
      by (simp add: analytics_timeline_def Let_def comp_def)
    then have "set (map af_frame_number (analytics_timeline rnd (length slots) ?fo))
            = set (map fe_frame_number (map snd ?fo))" by (simp only: set_map set_sort)
    also have "\<dots> = fst ` set ?fo" unfolding group_by_frame_keys by simp
    finally show ?thesis by (simp add: dom_group_by_frame)
  qed
  let ?T = "analytics_timeline rnd (length slots) ?fo"
  have "va_occupancy_timeline a = [] \<or> va_occupancy_timeline a = drop (length ?T - 50) ?T
          \<or> va_occupancy_timeline a = ?T"
    using assms
    by (auto simp: get_video_analytics_def Let_def split: option.splits if_splits)
  then have "set (va_occupancy_timeline a) \<subseteq> set ?T"
    using set_drop_subset [of "length ?T - 50" ?T] by auto
  then have "set (map af_frame_number (va_occupancy_timeline a))
          \<subseteq> set (map af_frame_number (analytics_timeline rnd (length slots) ?fo))"
    by auto
  then show ?thesis unfolding full .
qed


lemma os_timeline_eq:
  "os_timeline (get_occupancy_stats g thr ds slots)
     = occupancy_timeline (length slots) (group_by_frame g thr (slot_polygons_of g slots) ds [])"
  by (simp add: get_occupancy_stats_def Let_def)










section \<open>Properties of the occupancy rates\<close>

lemma count_latest_events_sum:
  "count_latest_events le ids (a, b, c) = (a', b', c') \<Longrightarrow>
     a' + b' + c' = a + b + c + length ids \<and> a \<le> a'"
proof (induction ids arbitrary: a b c)
  case Nil
  then show ?case by simp
next
  case (Cons sid ids)
  show ?case
  proof (cases "le sid")
    case None
    with Cons.prems have "count_latest_events le ids (a, b, c + 1) = (a', b', c')" by simp
    from Cons.IH [OF this] show ?thesis by simp
  next
    case (Some st)
    consider (o) "st = ''occupied''" | (f) "st \<noteq> ''occupied''" "st = ''free''"
      | (u) "st \<noteq> ''occupied''" "st \<noteq> ''free''" by blast
    then show ?thesis
    proof cases
      case o
      with Some Cons.prems have "count_latest_events le ids (a + 1, b, c) = (a', b', c')" by simp
      from Cons.IH [OF this] show ?thesis by simp
    next
      case f
      with Some Cons.prems have "count_latest_events le ids (a, b + 1, c) = (a', b', c')" by simp
      from Cons.IH [OF this] show ?thesis by simp
    next
      case u
      with Some Cons.prems have "count_latest_events le ids (a, b, c + 1) = (a', b', c')" by simp
      from Cons.IH [OF this] show ?thesis by simp
    qed
  qed
qed

lemma current_occupancy_stats_nonempty:
  assumes "slots \<noteq> []"
  shows "oc_total_slots (get_current_occupancy_stats le slots) = length slots
       \<and> oc_occupied_slots (get_current_occupancy_stats le slots)
           + oc_free_slots (get_current_occupancy_stats le slots)
           + oc_unknown_slots (get_current_occupancy_stats le slots) = length slots
       \<and> oc_occupancy_rate (get_current_occupancy_stats le slots)
           = real (oc_occupied_slots (get_current_occupancy_stats le slots))
               / real (oc_total_slots (get_current_occupancy_stats le slots)) * 100"
proof -
  obtain a b c where r: "count_latest_events le (map slot_id slots) (0, 0, 0) = (a, b, c)"
    by (cases "count_latest_events le (map slot_id slots) (0, 0, 0)") auto
  from count_latest_events_sum [OF r] have s: "a + b + c = length slots" by simp
  show ?thesis
    using assms r s by (simp add: get_current_occupancy_stats_def Let_def)
qed

lemma dom_slot_polygons_of: "fst ` set (slot_polygons_of g slots) = slot_id ` set slots"
proof -
  have "\<And>d. fst ` set (fold (\<lambda>slot d. AList.update (slot_id slot)
                 (polygon_from_geojson g (slot_polygon slot), slot_name slot) d) slots d)
          = fst ` set d \<union> slot_id ` set slots"
    by (induction slots) (auto simp: dom_update)
  from this [of "[]"] show ?thesis by (simp add: slot_polygons_of_def)
qed

lemma card_occupied_le:
  assumes "occ \<subseteq> fst ` set (slot_polygons_of g slots)"
  shows "card occ \<le> length slots"
proof -
  have "card occ \<le> card (slot_id ` set slots)"
    using assms unfolding dom_slot_polygons_of by (intro card_mono) simp_all
  also have "\<dots> \<le> card (set slots)" by (rule card_image_le) simp
  also have "\<dots> \<le> length slots" by (rule card_length)
  finally show ?thesis .
qed

lemma check_occupancy_subset: "check_occupancy g thr sp ds \<subseteq> fst ` set sp"
proof
  fix sid assume "sid \<in> check_occupancy g thr sp ds"
  then obtain s p n where "(s, p, n) \<in> set sp" "s = sid"
    unfolding check_occupancy_def occupied_slots_loop_iff by auto
  then show "sid \<in> fst ` set sp" by force
qed

lemma fraction_unit:
  fixes k n :: nat
  assumes "k \<le> n"
  shows "0 \<le> real k / real n \<and> real k / real n \<le> 1"
proof (cases "n = 0")
  case True
  then show ?thesis by simp
next
  case False
  then have "real k / real n \<le> 1" using assms by simp
  then show ?thesis by simp
qed

lemma current_status_rate:
  "cs_status (get_current_parking_status rnd g thr video slots ds) = ''ok'' \<Longrightarrow>
     sm_occupancy_rate (cs_summary (get_current_parking_status rnd g thr video slots ds))
       = rnd (real (sm_occupied (cs_summary (get_current_parking_status rnd g thr video slots ds)))
              / real (sm_total_slots (cs_summary (get_current_parking_status rnd g thr video slots ds))))
     \<and> sm_occupied (cs_summary (get_current_parking_status rnd g thr video slots ds))
          \<le> sm_total_slots (cs_summary (get_current_parking_status rnd g thr video slots ds))
     \<and> 0 < sm_total_slots (cs_summary (get_current_parking_status rnd g thr video slots ds))"
  by (auto simp: get_current_parking_status_def Let_def
      card_occupied_le [OF check_occupancy_subset]
      split: option.splits if_splits)

lemma current_status_not_ok:
  "cs_status (get_current_parking_status rnd g thr video slots ds) \<noteq> ''ok'' \<Longrightarrow>
     sm_occupancy_rate (cs_summary (get_current_parking_status rnd g thr video slots ds)) = 0"
  by (auto simp: get_current_parking_status_def Let_def split: option.splits if_splits)

lemma timeline_rate_unit:
  assumes "t \<in> set (os_timeline (get_occupancy_stats g thr ds slots))"
  shows "tl_occupancy_rate t
           = (if tl_total_slots t > 0 then real (tl_occupied_slots t) / real (tl_total_slots t) else 0)
       \<and> 0 \<le> tl_occupancy_rate t \<and> tl_occupancy_rate t \<le> 1"
proof -
  let ?sp = "slot_polygons_of g slots"
  let ?fo = "group_by_frame g thr ?sp ds []"
  from assms obtain x where x: "x \<in> set ?fo"
    and t: "tl_total_slots t = length slots" "tl_occupied_slots t = card (fe_occupied_slots (snd x))"
      "tl_occupancy_rate t = (if length slots > 0
          then real (card (fe_occupied_slots (snd x))) / real (length slots) else 0)"
    unfolding os_timeline_eq by (auto simp: occupancy_timeline_def Let_def)
  obtain k e where xe: "x = (k, e)" by (cases x) auto
  have "distinct (map fst ?fo)" by (rule distinct_group_by_frame) simp
  with x xe have m: "map_of ?fo k = Some e" by simp
  have "fe_occupied_slots e \<subseteq> fst ` set ?sp"
  proof
    fix sid assume "sid \<in> fe_occupied_slots e"
    then obtain s p n where "(s, p, n) \<in> set ?sp" "s = sid"
      unfolding group_by_frame_occupied [OF m, of sid] by auto
    then show "sid \<in> fst ` set ?sp" by force
  qed
  then have le: "card (fe_occupied_slots e) \<le> length slots" by (rule card_occupied_le)
  from fraction_unit [OF le] t xe show ?thesis by simp
qed


lemma frame_entry_occupied:
  assumes "(k, e) \<in> set (group_by_frame g thr sp ds [])"
  shows "fe_occupied_slots e = check_occupancy g thr sp (filter (\<lambda>d. frame_number d = k) ds)"
proof -
  have "distinct (map fst (group_by_frame g thr sp ds []))"
    by (rule distinct_group_by_frame) simp
  with assms have m: "map_of (group_by_frame g thr sp ds []) k = Some e" by simp
  show ?thesis
  proof (rule set_eqI)
    fix sid
    show "sid \<in> fe_occupied_slots e
            \<longleftrightarrow> sid \<in> check_occupancy g thr sp (filter (\<lambda>d. frame_number d = k) ds)"
      unfolding group_by_frame_occupied [OF m, of sid] check_occupancy_def
        occupied_slots_loop_iff
      by auto
  qed
qed

lemma sorted_frame_entry:
  assumes "(k, x) \<in> set (group_by_frame g thr sp ds [])"
  shows "fe_occupied_slots x
           = check_occupancy g thr sp (filter (\<lambda>d. frame_number d = fe_frame_number x) ds)"
proof -
  from group_by_frame_entry [of k x g thr sp ds] assms have "fe_frame_number x = k" by simp
  with frame_entry_occupied [OF assms] show ?thesis by simp
qed

lemma timeline_entry_rate:
  assumes "t \<in> set (os_timeline (get_occupancy_stats g thr ds slots))"
  shows "tl_occupancy_rate t
           = (if tl_total_slots t > 0 then real (tl_occupied_slots t) / real (tl_total_slots t)
              else 0)"
    and "tl_total_slots t = length slots"
    and "tl_occupied_slots t
           = card (check_occupancy g thr (slot_polygons_of g slots)
                     (filter (\<lambda>d. frame_number d = tl_frame_number t) ds))"
    and "tl_occupied_slots t \<le> tl_total_slots t"
    and "0 \<le> tl_occupancy_rate t" and "tl_occupancy_rate t \<le> 1"
proof -
  let ?sp = "slot_polygons_of g slots"
  let ?fo = "group_by_frame g thr ?sp ds []"
  from assms have "t \<in> (\<lambda>frame_data.
            \<lparr> tl_frame_number = fe_frame_number frame_data,
              tl_frame_time = fe_frame_time frame_data,
              tl_total_slots = length slots,
              tl_occupied_slots = card (fe_occupied_slots frame_data),
              tl_free_slots = int (length slots) - int (card (fe_occupied_slots frame_data)),
              tl_occupancy_rate =
                (if length slots > 0
                 then real (card (fe_occupied_slots frame_data)) / real (length slots) else 0),
              tl_total_detections = fe_count frame_data \<rparr>) ` snd ` set ?fo"
    unfolding os_timeline_eq occupancy_timeline_def Let_def by simp
  then obtain k x where x: "(k, x) \<in> set ?fo"
    and teq: "t = \<lparr> tl_frame_number = fe_frame_number x,
              tl_frame_time = fe_frame_time x,
              tl_total_slots = length slots,
              tl_occupied_slots = card (fe_occupied_slots x),
              tl_free_slots = int (length slots) - int (card (fe_occupied_slots x)),
              tl_occupancy_rate =
                (if length slots > 0
                 then real (card (fe_occupied_slots x)) / real (length slots) else 0),
              tl_total_detections = fe_count x \<rparr>"
    by auto
  have t: "tl_total_slots t = length slots" "tl_occupied_slots t = card (fe_occupied_slots x)"
      "tl_frame_number t = fe_frame_number x"
      "tl_occupancy_rate t = (if length slots > 0
          then real (card (fe_occupied_slots x)) / real (length slots) else 0)"
    unfolding teq by simp_all
  note o = sorted_frame_entry [OF x]
  have le: "card (fe_occupied_slots x) \<le> length slots"
    unfolding o by (rule card_occupied_le [OF check_occupancy_subset])
  show "tl_occupancy_rate t
           = (if tl_total_slots t > 0 then real (tl_occupied_slots t) / real (tl_total_slots t)
              else 0)"
    using t by simp
  show "tl_total_slots t = length slots" by (rule t(1))
  show "tl_occupied_slots t
           = card (check_occupancy g thr (slot_polygons_of g slots)
                     (filter (\<lambda>d. frame_number d = tl_frame_number t) ds))"
    using t o by simp
  show "tl_occupied_slots t \<le> tl_total_slots t" using t le by simp
  from fraction_unit [OF le] t
  show "0 \<le> tl_occupancy_rate t" and "tl_occupancy_rate t \<le> 1" by simp_all
qed

lemma sum_list_unit:
  fixes xs :: "real list"
  assumes "\<forall>x \<in> set xs. 0 \<le> x \<and> x \<le> 1"
  shows "0 \<le> sum_list xs \<and> sum_list xs \<le> real (length xs)"
  using assms by (induction xs) auto

lemma average_unit:
  fixes xs :: "real list"
  assumes "\<forall>x \<in> set xs. 0 \<le> x \<and> x \<le> 1"
  shows "0 \<le> (if xs \<noteq> [] then sum_list xs / real (length xs) else 0)
       \<and> (if xs \<noteq> [] then sum_list xs / real (length xs) else 0) \<le> 1"
proof (cases "xs = []")
  case True
  then show ?thesis by simp
next
  case False
  then have l: "0 < real (length xs)" by simp
  from sum_list_unit [OF assms] have s: "0 \<le> sum_list xs" "sum_list xs \<le> real (length xs)"
    by simp_all
  have "sum_list xs / real (length xs) \<le> 1" using s(2) l by (simp add: divide_le_eq)
  moreover have "0 \<le> sum_list xs / real (length xs)" using s(1) l by simp
  ultimately show ?thesis using False by simp
qed

lemma average_occupancy_rate:
  shows "os_average_occupancy_rate (get_occupancy_stats g thr ds slots)
     = (if os_timeline (get_occupancy_stats g thr ds slots) \<noteq> []
        then sum_list (map tl_occupancy_rate (os_timeline (get_occupancy_stats g thr ds slots)))
               / real (length (os_timeline (get_occupancy_stats g thr ds slots)))
        else 0)"
  and "0 \<le> os_average_occupancy_rate (get_occupancy_stats g thr ds slots)"
  and "os_average_occupancy_rate (get_occupancy_stats g thr ds slots) \<le> 1"
proof -
  let ?T = "os_timeline (get_occupancy_stats g thr ds slots)"
  show eq: "os_average_occupancy_rate (get_occupancy_stats g thr ds slots)
     = (if ?T \<noteq> [] then sum_list (map tl_occupancy_rate ?T) / real (length ?T) else 0)"
    by (simp add: get_occupancy_stats_def Let_def)
  have "\<forall>x \<in> set (map tl_occupancy_rate ?T). 0 \<le> x \<and> x \<le> 1"
    using timeline_entry_rate(5,6) [of _ g thr ds slots] by auto
  note u = average_unit [OF this, unfolded length_map map_is_Nil_conv]
  show "0 \<le> os_average_occupancy_rate (get_occupancy_stats g thr ds slots)"
    unfolding eq by (rule u [THEN conjunct1])
  show "os_average_occupancy_rate (get_occupancy_stats g thr ds slots) \<le> 1"
    unfolding eq by (rule u [THEN conjunct2])
qed

lemma find_best_matching_slot_in_keys:
  assumes "find_best_matching_slot g thr det sp = (Some sid, bn, b)"
  shows "sid \<in> fst ` set sp"
proof -
  from assms have "best_slot_loop g thr det sp (None, None, 0) = (Some sid, bn, b)"
    by (simp add: find_best_matching_slot_def)
  from best_slot_loop_cases [OF this]
  obtain pre s p n post where "sp = pre @ (s, p, n) # post" "Some sid = Some s" by auto
  then show ?thesis by force
qed

lemma occupied_slot_ids_loop_subset:
  "occupied_slot_ids_loop g thr sp ds occ \<subseteq> occ \<union> fst ` set sp"
proof (induction ds arbitrary: occ)
  case Nil
  show ?case by simp
next
  case (Cons d ds)
  obtain bid bn b where r: "find_best_matching_slot g thr
      (bbox_to_polygon g (bbox_normalized d)) sp = (bid, bn, b)"
    by (cases "find_best_matching_slot g thr (bbox_to_polygon g (bbox_normalized d)) sp") auto
  show ?case
  proof (cases bid)
    case None
    with r Cons.IH [of occ] show ?thesis by simp
  next
    case (Some sid)
    from find_best_matching_slot_in_keys [OF r [unfolded Some]] have "sid \<in> fst ` set sp" .
    with r Some Cons.IH [of "insert sid occ"] show ?thesis by auto
  qed
qed

lemma frame_detections_rate:
  assumes "get_frame_detections_occupancy g thr slots ds = Some oc"
  shows "fo_occupancy_rate oc
           = (if slots \<noteq> [] then real (fo_occupied_count oc) / real (length slots) else 0)"
    and "fo_occupied_count oc \<le> length slots"
    and "0 \<le> fo_occupancy_rate oc" and "fo_occupancy_rate oc \<le> 1"
proof -
  let ?occ = "occupied_slot_ids_loop g thr (slot_polygons_of g slots) ds {}"
  from assms have oc: "fo_occupied_count oc = card ?occ"
    "fo_occupancy_rate oc = (if slots \<noteq> [] then real (card ?occ) / real (length slots) else 0)"
    by (auto simp: get_frame_detections_occupancy_def Let_def split: if_splits)
  have "?occ \<subseteq> fst ` set (slot_polygons_of g slots)"
    using occupied_slot_ids_loop_subset [of g thr "slot_polygons_of g slots" ds "{}"] by simp
  then have le: "card ?occ \<le> length slots" by (rule card_occupied_le)
  show "fo_occupancy_rate oc
           = (if slots \<noteq> [] then real (fo_occupied_count oc) / real (length slots) else 0)"
    using oc by simp
  show "fo_occupied_count oc \<le> length slots" using oc le by simp
  from fraction_unit [OF le] oc
  show "0 \<le> fo_occupancy_rate oc" and "fo_occupancy_rate oc \<le> 1" by simp_all
qed


lemma slot_occupancy_card:
  "slot_occupancy (group_by_frame g thr sp ds []) sid
     = card {f \<in> frame_number ` set ds.
               sid \<in> check_occupancy g thr sp (filter (\<lambda>d. frame_number d = f) ds)}"
proof -
  let ?fd = "group_by_frame g thr sp ds []"
  let ?P = "\<lambda>(f, data). sid \<in> fe_occupied_slots data"
  have d: "distinct (map fst ?fd)" by (rule distinct_group_by_frame) simp
  then have d': "distinct ?fd" by (simp add: distinct_map)
  have inj: "inj_on fst (set ?fd)" using d by (simp add: distinct_map)
  have "slot_occupancy ?fd sid = length (filter ?P ?fd)" by (simp add: slot_occupancy_def)
  also have "\<dots> = card (set (filter ?P ?fd))"
    by (rule distinct_card [symmetric]) (rule distinct_filter [OF d'])
  also have "\<dots> = card (fst ` set (filter ?P ?fd))"
    by (rule card_image [symmetric]) (rule inj_on_subset [OF inj], simp)
  also have "fst ` set (filter ?P ?fd)
               = {f \<in> frame_number ` set ds.
                    sid \<in> check_occupancy g thr sp (filter (\<lambda>d. frame_number d = f) ds)}"
  proof (intro set_eqI iffI)
    fix f assume "f \<in> fst ` set (filter ?P ?fd)"
    then obtain e where e: "(f, e) \<in> set ?fd" "sid \<in> fe_occupied_slots e" by auto
    from group_by_frame_entry [OF e(1)] have "f \<in> frame_number ` set ds" by simp
    with e(2) frame_entry_occupied [OF e(1)]
    show "f \<in> {f \<in> frame_number ` set ds.
                  sid \<in> check_occupancy g thr sp (filter (\<lambda>d. frame_number d = f) ds)}"
      by simp
  next
    fix f assume f: "f \<in> {f \<in> frame_number ` set ds.
                  sid \<in> check_occupancy g thr sp (filter (\<lambda>d. frame_number d = f) ds)}"
    then have "f \<in> fst ` set ?fd" by (simp add: dom_group_by_frame)
    then obtain e where e: "(f, e) \<in> set ?fd" by auto
    with f frame_entry_occupied [OF e] have "(f, e) \<in> set (filter ?P ?fd)" by simp
    then show "f \<in> fst ` set (filter ?P ?fd)" by force
  qed
  finally show ?thesis .
qed

lemma slot_occupancy_le:
  "slot_occupancy (group_by_frame g thr sp ds []) sid \<le> card (frame_number ` set ds)"
  unfolding slot_occupancy_card by (rule card_mono) auto

lemma analytics_timeline_entry:
  assumes "get_video_analytics rnd g thr video lots slots ds = Inr a"
    and "f \<in> set (va_occupancy_timeline a)"
  shows "af_occupancy_rate f
           = rnd (if length slots > 0 then real (af_occupied_slots f) / real (length slots)
                  else 0)"
    and "af_occupied_slots f
           = card (check_occupancy g thr (slot_polygons_of g slots)
                     (filter (\<lambda>d. frame_number d = af_frame_number f) ds))"
    and "af_occupied_slots f \<le> length slots"
proof -
  let ?sp = "slot_polygons_of g slots"
  let ?fo = "group_by_frame g thr ?sp ds []"
  let ?T = "analytics_timeline rnd (length slots) ?fo"
  have "va_occupancy_timeline a = [] \<or> va_occupancy_timeline a = drop (length ?T - 50) ?T
          \<or> va_occupancy_timeline a = ?T"
    using assms(1)
    by (auto simp: get_video_analytics_def Let_def split: option.splits if_splits)
  then have "set (va_occupancy_timeline a) \<subseteq> set ?T"
    using set_drop_subset [of "length ?T - 50" ?T] by auto
  with assms(2) have "f \<in> set ?T" by auto
  then have "f \<in> (\<lambda>data.
            \<lparr> af_frame_number = fe_frame_number data,
              af_occupied_slots = card (fe_occupied_slots data),
              af_free_slots = int (length slots) - int (card (fe_occupied_slots data)),
              af_occupancy_rate =
                rnd (if length slots > 0
                     then real (card (fe_occupied_slots data)) / real (length slots) else 0),
              af_total_vehicles = fe_count data \<rparr>) ` snd ` set ?fo"
    unfolding analytics_timeline_def Let_def by simp
  then obtain k x where x: "(k, x) \<in> set ?fo"
    and feq: "f = \<lparr> af_frame_number = fe_frame_number x,
              af_occupied_slots = card (fe_occupied_slots x),
              af_free_slots = int (length slots) - int (card (fe_occupied_slots x)),
              af_occupancy_rate =
                rnd (if length slots > 0
                     then real (card (fe_occupied_slots x)) / real (length slots) else 0),
              af_total_vehicles = fe_count x \<rparr>"
    by auto
  have t: "af_occupied_slots f = card (fe_occupied_slots x)"
      "af_frame_number f = fe_frame_number x"
      "af_occupancy_rate f = rnd (if length slots > 0
          then real (card (fe_occupied_slots x)) / real (length slots) else 0)"
    unfolding feq by simp_all
  note o = sorted_frame_entry [OF x]
  have le: "card (fe_occupied_slots x) \<le> length slots"
    unfolding o by (rule card_occupied_le [OF check_occupancy_subset])
  show "af_occupancy_rate f
           = rnd (if length slots > 0 then real (af_occupied_slots f) / real (length slots)
                  else 0)"
    using t by simp
  show "af_occupied_slots f
           = card (check_occupancy g thr (slot_polygons_of g slots)
                     (filter (\<lambda>d. frame_number d = af_frame_number f) ds))"
    using t o by simp
  show "af_occupied_slots f \<le> length slots" using t le by simp
qed

lemma analytics_slot_entry:
  assumes "get_video_analytics rnd g thr video lots slots ds = Inr a"
    and "s \<in> set (va_slot_statistics a)"
  shows "st_occupancy_rate s
           = rnd (if st_total_frames s > 0
                  then real (st_occupied_frames s) / real (st_total_frames s) else 0)"
    and "st_total_frames s = card (frame_number ` set ds)"
    and "st_occupied_frames s
           = card {f \<in> frame_number ` set ds.
                     st_slot_id s \<in> check_occupancy g thr (slot_polygons_of g slots)
                                       (filter (\<lambda>d. frame_number d = f) ds)}"
    and "st_occupied_frames s \<le> st_total_frames s"
proof -
  let ?sp = "slot_polygons_of g slots"
  let ?fo = "group_by_frame g thr ?sp ds []"
  let ?n = "card (frame_number ` set ds)"
  let ?mk = "\<lambda>slot. \<lparr> st_slot_id = slot_id slot,
                 st_occupied_frames = slot_occupancy ?fo (slot_id slot),
                 st_total_frames = ?n,
                 st_occupancy_rate =
                   rnd (if ?n > 0 then real (slot_occupancy ?fo (slot_id slot)) / real ?n else 0),
                 st_status = analytics_status_label
                   (if ?n > 0 then real (slot_occupancy ?fo (slot_id slot)) / real ?n else 0) \<rparr>"
  have "va_slot_statistics a = []
          \<or> va_slot_statistics a = sort_key (\<lambda>x. - st_occupancy_rate x) (map ?mk slots)"
    using assms(1)
    by (auto simp: get_video_analytics_def Let_def split: option.splits if_splits)
  with assms(2) have "s \<in> ?mk ` set slots" by auto
  then obtain slot where seq: "s = ?mk slot" and "slot \<in> set slots" by (rule imageE)
  have t: "st_slot_id s = slot_id slot"
    "st_occupied_frames s = slot_occupancy ?fo (slot_id slot)"
    "st_total_frames s = ?n"
    "st_occupancy_rate s
       = rnd (if ?n > 0 then real (slot_occupancy ?fo (slot_id slot)) / real ?n else 0)"
    by (subst seq, simp)+
  show "st_occupancy_rate s
           = rnd (if st_total_frames s > 0
                  then real (st_occupied_frames s) / real (st_total_frames s) else 0)"
    unfolding t ..
  show "st_total_frames s = card (frame_number ` set ds)" by (rule t(3))
  show "st_occupied_frames s
           = card {f \<in> frame_number ` set ds.
                     st_slot_id s \<in> check_occupancy g thr (slot_polygons_of g slots)
                                       (filter (\<lambda>d. frame_number d = f) ds)}"
    unfolding t slot_occupancy_card ..
  show "st_occupied_frames s \<le> st_total_frames s"
    unfolding t by (rule slot_occupancy_le)
qed


lemma aggregate_frames_by_lots_counts:
  "map_of (aggregate_frames_by_lots M occ slots ld) lid = Some c \<Longrightarrow>
     \<exists>c0. map_of ld lid = Some c0
        \<and> lf_total_slots c
             = lf_total_slots c0 + length (filter (\<lambda>s. M (slot_id s) = Some lid) slots)
        \<and> lf_occupied_frames c
             = lf_occupied_frames c0
                 + sum_list (map (\<lambda>s. occ (slot_id s))
                               (filter (\<lambda>s. M (slot_id s) = Some lid) slots))"
proof (induction slots arbitrary: ld)
  case Nil
  then show ?case by simp
next
  case (Cons s slots)
  show ?case
  proof (cases "M (slot_id s)")
    case None
    with Cons.prems have "map_of (aggregate_frames_by_lots M occ slots ld) lid = Some c" by simp
    from Cons.IH [OF this] None show ?thesis by simp
  next
    case (Some l')
    let ?ld = "AList.map_entry l'
               (\<lambda>c. c\<lparr> lf_total_slots := lf_total_slots c + 1,
                        lf_occupied_frames := lf_occupied_frames c + occ (slot_id s) \<rparr>) ld"
    from Cons.prems Some
    have "map_of (aggregate_frames_by_lots M occ slots ?ld) lid = Some c" by simp
    from Cons.IH [OF this] obtain c1 where c1: "map_of ?ld lid = Some c1"
      "lf_total_slots c
         = lf_total_slots c1 + length (filter (\<lambda>s. M (slot_id s) = Some lid) slots)"
      "lf_occupied_frames c
         = lf_occupied_frames c1
             + sum_list (map (\<lambda>s. occ (slot_id s))
                           (filter (\<lambda>s. M (slot_id s) = Some lid) slots))"
      by blast
    show ?thesis
    proof (cases "l' = lid")
      case True
      from c1(1) True obtain c0 where c0: "map_of ld lid = Some c0"
        "c1 = c0\<lparr> lf_total_slots := lf_total_slots c0 + 1,
                  lf_occupied_frames := lf_occupied_frames c0 + occ (slot_id s) \<rparr>"
        by (auto simp: map_of_map_entry split: option.splits)
      show ?thesis using c0 c1(2,3) Some True by simp
    next
      case False
      with c1(1) have "map_of ld lid = Some c1" by (simp add: map_of_map_entry)
      with c1(2,3) Some False show ?thesis by simp
    qed
  qed
qed

lemma lot_occupancy_of_zero:
  assumes "map_of (lot_occupancy_of lots) lid = Some c0"
  shows "lf_total_slots c0 = 0 \<and> lf_occupied_frames c0 = 0"
proof -
  have "\<And>d. (\<forall>(l, c) \<in> set d. lf_total_slots c = 0 \<and> lf_occupied_frames c = 0) \<Longrightarrow>
          (\<forall>(l, c) \<in> set (fold (\<lambda>lot d. AList.update (lot_id lot)
             \<lparr> lf_occupied_frames = 0, lf_total_slots = 0 \<rparr> d) lots d).
              lf_total_slots c = 0 \<and> lf_occupied_frames c = 0)"
  proof (induction lots)
    case Nil
    then show ?case by simp
  next
    case (Cons lot lots)
    have "\<forall>(l, c) \<in> set (AList.update (lot_id lot)
             \<lparr> lf_occupied_frames = 0, lf_total_slots = 0 \<rparr> d).
              lf_total_slots c = 0 \<and> lf_occupied_frames c = 0"
      using Cons.prems by (induction d) auto
    from Cons.IH [OF this] show ?case by simp
  qed
  from this [of "[]"]
  have "\<forall>(l, c) \<in> set (lot_occupancy_of lots). lf_total_slots c = 0 \<and> lf_occupied_frames c = 0"
    by (simp add: lot_occupancy_of_def)
  with map_of_SomeD [OF assms] show ?thesis by auto
qed

lemma build_lot_statistics_rate:
  assumes "e \<in> set (build_lot_statistics rnd n lo lots)"
  shows "\<exists>c. map_of lo (lo_lot_id e) = Some c \<and> 0 < lf_total_slots c
           \<and> lo_total_slots e = lf_total_slots c
           \<and> lo_occupancy_rate e
               = rnd (if n > 0
                      then real (lf_occupied_frames c) / real (lf_total_slots c) / real n
                      else 0)"
  using assms
  by (induction lots) (auto simp: Let_def split: option.splits if_splits)

lemma sum_list_le_times:
  fixes h :: "'a \<Rightarrow> nat"
  assumes "\<forall>x \<in> set xs. h x \<le> n"
  shows "sum_list (map h xs) \<le> length xs * n"
  using assms by (induction xs) auto

lemma lot_fraction_unit:
  fixes k m n :: nat
  assumes "k \<le> m * n"
  shows "0 \<le> (if n > 0 then real k / real m / real n else 0)
       \<and> (if n > 0 then real k / real m / real n else 0) \<le> 1"
proof (cases "n > 0 \<and> m > 0")
  case True
  have "real k \<le> real (m * n)" using assms by (rule of_nat_mono)
  then have "real k \<le> real m * real n" by simp
  then have "real k / (real m * real n) \<le> 1" using True by (simp add: divide_le_eq)
  then show ?thesis using True by simp
next
  case False
  then show ?thesis by auto
qed

lemma analytics_lot_entry:
  assumes "get_video_analytics rnd g thr video lots slots ds = Inr a"
    and "l \<in> set (va_lot_statistics a)"
  shows "lo_total_slots l
           = length (filter (\<lambda>s. map_slots_to_lots g (lot_polygons_of g lots) slots Map.empty
                                    (slot_id s) = Some (lo_lot_id l)) slots)"
    and "0 < lo_total_slots l"
    and "lo_occupancy_rate l
           = rnd (if card (frame_number ` set ds) > 0
                  then real (sum_list (map
                         (\<lambda>s. slot_occupancy
                                 (group_by_frame g thr (slot_polygons_of g slots) ds [])
                                 (slot_id s))
                         (filter (\<lambda>s. map_slots_to_lots g (lot_polygons_of g lots) slots Map.empty
                                    (slot_id s) = Some (lo_lot_id l)) slots)))
                         / real (lo_total_slots l) / real (card (frame_number ` set ds))
                  else 0)"
    and "0 \<le> (if card (frame_number ` set ds) > 0
                  then real (sum_list (map
                         (\<lambda>s. slot_occupancy
                                 (group_by_frame g thr (slot_polygons_of g slots) ds [])
                                 (slot_id s))
                         (filter (\<lambda>s. map_slots_to_lots g (lot_polygons_of g lots) slots Map.empty
                                    (slot_id s) = Some (lo_lot_id l)) slots)))
                         / real (lo_total_slots l) / real (card (frame_number ` set ds))
                  else 0)"
    and "(if card (frame_number ` set ds) > 0
                  then real (sum_list (map
                         (\<lambda>s. slot_occupancy
                                 (group_by_frame g thr (slot_polygons_of g slots) ds [])
                                 (slot_id s))
                         (filter (\<lambda>s. map_slots_to_lots g (lot_polygons_of g lots) slots Map.empty
                                    (slot_id s) = Some (lo_lot_id l)) slots)))
                         / real (lo_total_slots l) / real (card (frame_number ` set ds))
                  else 0) \<le> 1"
proof -
  let ?fd = "group_by_frame g thr (slot_polygons_of g slots) ds []"
  let ?M = "map_slots_to_lots g (lot_polygons_of g lots) slots Map.empty"
  let ?n = "card (frame_number ` set ds)"
  let ?lo = "aggregate_frames_by_lots ?M (slot_occupancy ?fd) slots (lot_occupancy_of lots)"
  let ?S = "filter (\<lambda>s. ?M (slot_id s) = Some (lo_lot_id l)) slots"
  have "va_lot_statistics a = []
          \<or> va_lot_statistics a
              = sort_key (\<lambda>x. - lo_occupancy_rate x) (build_lot_statistics rnd ?n ?lo lots)"
    using assms(1)
    by (auto simp: get_video_analytics_def Let_def split: option.splits if_splits)
  with assms(2) have "l \<in> set (build_lot_statistics rnd ?n ?lo lots)" by auto
  from build_lot_statistics_rate [OF this] obtain c where
    c: "map_of ?lo (lo_lot_id l) = Some c" "0 < lf_total_slots c"
       "lo_total_slots l = lf_total_slots c"
       "lo_occupancy_rate l
          = rnd (if ?n > 0 then real (lf_occupied_frames c) / real (lf_total_slots c) / real ?n
                 else 0)"
    by blast
  from aggregate_frames_by_lots_counts [OF c(1)] obtain c0 where
    c0: "map_of (lot_occupancy_of lots) (lo_lot_id l) = Some c0"
        "lf_total_slots c = lf_total_slots c0 + length ?S"
        "lf_occupied_frames c
           = lf_occupied_frames c0 + sum_list (map (\<lambda>s. slot_occupancy ?fd (slot_id s)) ?S)"
    by blast
  from lot_occupancy_of_zero [OF c0(1)] c0(2,3)
  have f: "lf_total_slots c = length ?S"
    "lf_occupied_frames c = sum_list (map (\<lambda>s. slot_occupancy ?fd (slot_id s)) ?S)"
    by simp_all
  show 1: "lo_total_slots l = length ?S" using c(3) f(1) by simp
  show "0 < lo_total_slots l" using c(2,3) by simp
  show "lo_occupancy_rate l
          = rnd (if ?n > 0
                 then real (sum_list (map (\<lambda>s. slot_occupancy ?fd (slot_id s)) ?S))
                        / real (lo_total_slots l) / real ?n
                 else 0)"
    unfolding c(4) c(3) f(2) ..
  have "sum_list (map (\<lambda>s. slot_occupancy ?fd (slot_id s)) ?S) \<le> length ?S * ?n"
    by (rule sum_list_le_times) (simp add: slot_occupancy_le)
  then have "sum_list (map (\<lambda>s. slot_occupancy ?fd (slot_id s)) ?S) \<le> lo_total_slots l * ?n"
    unfolding 1 .
  from lot_fraction_unit [OF this]
  show "0 \<le> (if ?n > 0
                 then real (sum_list (map (\<lambda>s. slot_occupancy ?fd (slot_id s)) ?S))
                        / real (lo_total_slots l) / real ?n
                 else 0)"
    and "(if ?n > 0
                 then real (sum_list (map (\<lambda>s. slot_occupancy ?fd (slot_id s)) ?S))
                        / real (lo_total_slots l) / real ?n
                 else 0) \<le> 1"
    by simp_all
qed


lemma timeline_nonempty:
  assumes "ds \<noteq> []"
  shows "os_timeline (get_occupancy_stats g thr ds slots) \<noteq> []"
proof
  assume "os_timeline (get_occupancy_stats g thr ds slots) = []"
  then have "set (map tl_frame_number (os_timeline (get_occupancy_stats g thr ds slots))) = {}"
    by simp
  then have "frame_number ` set ds = {}"
    unfolding os_timeline_eq using timeline_frames [of "length slots" g thr "slot_polygons_of g slots" ds]
    by simp
  with assms show False by simp
qed

lemma video_analytics_summary_rates:
  assumes "video_analytics_summary rnd g thr video slots ds = Inr su"
  shows "ds = [] \<longrightarrow> su_average_occupancy_rate su = 0 \<and> su_peak_occupancy_rate su = 0"
    and "ds \<noteq> [] \<longrightarrow>
           su_average_occupancy_rate su
             = rnd (os_average_occupancy_rate (get_occupancy_stats g thr ds slots))
         \<and> su_peak_occupancy_rate su
             = rnd (Max (tl_occupancy_rate ` set (os_timeline (get_occupancy_stats g thr ds slots))))
         \<and> 0 \<le> Max (tl_occupancy_rate ` set (os_timeline (get_occupancy_stats g thr ds slots)))
         \<and> Max (tl_occupancy_rate ` set (os_timeline (get_occupancy_stats g thr ds slots))) \<le> 1"
proof -
  show "ds = [] \<longrightarrow> su_average_occupancy_rate su = 0 \<and> su_peak_occupancy_rate su = 0"
    using assms by (auto simp: video_analytics_summary_def split: option.splits)
  let ?T = "os_timeline (get_occupancy_stats g thr ds slots)"
  let ?rates = "map tl_occupancy_rate ?T"
  show "ds \<noteq> [] \<longrightarrow>
           su_average_occupancy_rate su
             = rnd (os_average_occupancy_rate (get_occupancy_stats g thr ds slots))
         \<and> su_peak_occupancy_rate su = rnd (Max (tl_occupancy_rate ` set ?T))
         \<and> 0 \<le> Max (tl_occupancy_rate ` set ?T)
         \<and> Max (tl_occupancy_rate ` set ?T) \<le> 1"
  proof
    assume ne: "ds \<noteq> []"
    have rates: "?rates
        = map (\<lambda>data. let occupied = card (fe_occupied_slots data) in
                      if length slots > 0 then real occupied / real (length slots) else 0)
            (sort_key fe_frame_number
               (map snd (group_by_frame g thr (slot_polygons_of g slots) ds [])))"
      unfolding os_timeline_eq by (simp add: occupancy_timeline_def Let_def comp_def)
    from timeline_nonempty [OF ne] have tne: "?T \<noteq> []" .
    then have rne: "?rates \<noteq> []" by simp
    then obtain r rs where rs: "?rates = r # rs" by (cases ?rates) auto
    have su: "su = \<lparr> su_average_occupancy_rate =
                      rnd (if ?rates \<noteq> [] then sum_list ?rates / real (length ?rates) else 0),
                    su_peak_occupancy_rate =
                      rnd (case ?rates of [] \<Rightarrow> 0 | r # rs \<Rightarrow> fold max rs r) \<rparr>"
      using assms ne unfolding rates
      by (auto simp: video_analytics_summary_def Let_def split: option.splits)
    have avg: "su_average_occupancy_rate su
             = rnd (os_average_occupancy_rate (get_occupancy_stats g thr ds slots))"
      by (subst su) (simp add: get_occupancy_stats_def Let_def)
    have "su_peak_occupancy_rate su = rnd (fold max rs r)"
      by (subst su) (simp add: rs)
    also have "fold max rs r = Max (set (r # rs))" by (rule Max.set_eq_fold [symmetric])
    also have "set (r # rs) = tl_occupancy_rate ` set ?T" unfolding rs [symmetric] by simp
    finally have peak: "su_peak_occupancy_rate su = rnd (Max (tl_occupancy_rate ` set ?T))" .
    have fin: "finite (tl_occupancy_rate ` set ?T)" "tl_occupancy_rate ` set ?T \<noteq> {}"
      using tne by simp_all
    from Max_in [OF fin] obtain t where t: "t \<in> set ?T"
      "Max (tl_occupancy_rate ` set ?T) = tl_occupancy_rate t" by auto
    from timeline_entry_rate(5,6) [OF t(1)] t(2)
    have "0 \<le> Max (tl_occupancy_rate ` set ?T)" "Max (tl_occupancy_rate ` set ?T) \<le> 1"
      by simp_all
    with avg peak show "su_average_occupancy_rate su
             = rnd (os_average_occupancy_rate (get_occupancy_stats g thr ds slots))
         \<and> su_peak_occupancy_rate su = rnd (Max (tl_occupancy_rate ` set ?T))
         \<and> 0 \<le> Max (tl_occupancy_rate ` set ?T)
         \<and> Max (tl_occupancy_rate ` set ?T) \<le> 1"
      by simp
  qed
qed

lemma build_lots_status_rate:
  assumes "e \<in> set (build_lots_status rnd ld)"
  shows "\<exists>c. (lt_id e, c) \<in> set ld \<and> lt_capacity e = lc_capacity c \<and> lt_occupied e = lc_occupied c
           \<and> lt_occupancy_rate e
               = rnd (if lt_capacity e > 0 then real (lt_occupied e) / real (lt_capacity e)
                      else 0)"
  using assms by (auto simp: build_lots_status_def Let_def)

lemma sum_list_mono_pairs:
  fixes h k :: "'a \<Rightarrow> nat"
  assumes "\<forall>x \<in> set xs. h x \<le> k x"
  shows "sum_list (map h xs) \<le> sum_list (map k xs)"
  using assms by (induction xs) (auto intro: add_mono)

lemma length_filter_conj_le:
  "length (filter (\<lambda>x. P x \<and> Q x) xs) \<le> length (filter P xs)"
  by (induction xs) auto

lemma lots_status_rates:
  assumes "lr_status (get_lots_parking_status rnd g thr video lots slots ds) = ''ok''"
  shows "\<forall>e \<in> set (lr_lots (get_lots_parking_status rnd g thr video lots slots ds)).
           lt_occupancy_rate e
             = rnd (if lt_capacity e > 0 then real (lt_occupied e) / real (lt_capacity e) else 0)
           \<and> lt_occupied e \<le> lt_capacity e"
    and "ls_avg_occupancy_rate (lr_summary (get_lots_parking_status rnd g thr video lots slots ds))
           = rnd (if ls_total_capacity
                       (lr_summary (get_lots_parking_status rnd g thr video lots slots ds)) > 0
                  then real (ls_total_occupied
                       (lr_summary (get_lots_parking_status rnd g thr video lots slots ds)))
                     / real (ls_total_capacity
                       (lr_summary (get_lots_parking_status rnd g thr video lots slots ds)))
                  else 0)"
    and "ls_total_occupied (lr_summary (get_lots_parking_status rnd g thr video lots slots ds))
           \<le> ls_total_capacity
                (lr_summary (get_lots_parking_status rnd g thr video lots slots ds))"
proof -
  let ?R = "get_lots_parking_status rnd g thr video lots slots ds"
  let ?M = "map_slots_to_lots g (lot_polygons_of g lots) slots Map.empty"
  from lots_status_ok [OF assms] obtain v latest where
    v: "video = Some v" "lots \<noteq> []" "max_frame_number ds = Some latest"
    and lots: "set (lr_lots ?R)
         = set (build_lots_status rnd
             (aggregate_by_lots ?M
                (check_occupancy g thr (slot_polygons_of g slots)
                   (filter (\<lambda>d. frame_number d = latest) ds))
                slots (lot_data_of lots)))"
    by blast
  let ?occ = "check_occupancy g thr (slot_polygons_of g slots)
                (filter (\<lambda>d. frame_number d = latest) ds)"
  let ?ld = "aggregate_by_lots ?M ?occ slots (lot_data_of lots)"
  have le: "\<forall>x \<in> set ?ld. (\<lambda>(lid, data). lc_occupied data) x \<le> (\<lambda>(lid, data). lc_capacity data) x"
  proof
    fix x assume x: "x \<in> set ?ld"
    obtain lid c where xe: "x = (lid, c)" by (cases x) auto
    from aggregate_by_lots_entry [OF x [unfolded xe]]
    have "lc_occupied c \<le> lc_capacity c"
      by (simp add: length_filter_conj_le)
    then show "(\<lambda>(lid, data). lc_occupied data) x \<le> (\<lambda>(lid, data). lc_capacity data) x"
      unfolding xe by simp
  qed
  show "\<forall>e \<in> set (lr_lots ?R).
           lt_occupancy_rate e
             = rnd (if lt_capacity e > 0 then real (lt_occupied e) / real (lt_capacity e) else 0)
           \<and> lt_occupied e \<le> lt_capacity e"
  proof
    fix e assume "e \<in> set (lr_lots ?R)"
    then have "e \<in> set (build_lots_status rnd ?ld)" unfolding lots .
    from build_lots_status_rate [OF this] obtain c where
      c: "(lt_id e, c) \<in> set ?ld" "lt_capacity e = lc_capacity c" "lt_occupied e = lc_occupied c"
         "lt_occupancy_rate e
               = rnd (if lt_capacity e > 0 then real (lt_occupied e) / real (lt_capacity e)
                      else 0)"
      by blast
    from le c(1) have "lc_occupied c \<le> lc_capacity c" by auto
    with c show "lt_occupancy_rate e
             = rnd (if lt_capacity e > 0 then real (lt_occupied e) / real (lt_capacity e) else 0)
           \<and> lt_occupied e \<le> lt_capacity e"
      by simp
  qed
  have s: "lr_summary ?R
     = \<lparr> ls_total_lots = length lots,
         ls_total_capacity = sum_list (map (\<lambda>(lid, data). lc_capacity data) ?ld),
         ls_total_occupied = sum_list (map (\<lambda>(lid, data). lc_occupied data) ?ld),
         ls_avg_occupancy_rate =
           rnd (if sum_list (map (\<lambda>(lid, data). lc_capacity data) ?ld) > 0
                then real (sum_list (map (\<lambda>(lid, data). lc_occupied data) ?ld))
                       / real (sum_list (map (\<lambda>(lid, data). lc_capacity data) ?ld))
                else 0) \<rparr>"
    using v by (simp add: get_lots_parking_status_def Let_def del: sum_list_eq_0_iff)
  show "ls_avg_occupancy_rate (lr_summary ?R)
           = rnd (if ls_total_capacity (lr_summary ?R) > 0
                  then real (ls_total_occupied (lr_summary ?R))
                     / real (ls_total_capacity (lr_summary ?R))
                  else 0)"
    unfolding s lots_summary.select_convs ..
  show "ls_total_occupied (lr_summary ?R) \<le> ls_total_capacity (lr_summary ?R)"
    unfolding s lots_summary.select_convs by (rule sum_list_mono_pairs [OF le])
qed

lemma lots_status_not_ok:
  assumes "lr_status (get_lots_parking_status rnd g thr video lots slots ds) \<noteq> ''ok''"
  shows "(\<forall>e \<in> set (lr_lots (get_lots_parking_status rnd g thr video lots slots ds)).
            lt_occupancy_rate e = 0)
       \<and> ls_avg_occupancy_rate
           (lr_summary (get_lots_parking_status rnd g thr video lots slots ds)) = 0"
  using assms
  by (auto simp: get_lots_parking_status_def Let_def split: option.splits if_splits)

lemma current_occupancy_percentage:
  assumes "slots \<noteq> []"
  shows "oc_occupancy_rate (get_current_occupancy_stats le slots)
           = real (oc_occupied_slots (get_current_occupancy_stats le slots))
               / real (oc_total_slots (get_current_occupancy_stats le slots)) * 100"
    and "oc_total_slots (get_current_occupancy_stats le slots) = length slots"
    and "0 \<le> oc_occupancy_rate (get_current_occupancy_stats le slots)"
    and "oc_occupancy_rate (get_current_occupancy_stats le slots) \<le> 100"
proof -
  note s = current_occupancy_stats_nonempty [OF assms, of le]
  let ?S = "get_current_occupancy_stats le slots"
  show r: "oc_occupancy_rate ?S = real (oc_occupied_slots ?S) / real (oc_total_slots ?S) * 100"
    using s by simp
  show "oc_total_slots ?S = length slots" using s by simp
  have "oc_occupied_slots ?S \<le> oc_total_slots ?S" using s by linarith
  from fraction_unit [OF this]
  have f: "0 \<le> real (oc_occupied_slots ?S) / real (oc_total_slots ?S)"
    "real (oc_occupied_slots ?S) / real (oc_total_slots ?S) \<le> 1" by simp_all
  show "0 \<le> oc_occupancy_rate ?S" unfolding r using f(1) by simp
  have "real (oc_occupied_slots ?S) / real (oc_total_slots ?S) * 100 \<le> 1 * 100"
    using f(2) by (rule mult_right_mono) simp
  then show "oc_occupancy_rate ?S \<le> 100" unfolding r by simp
qed

lemma current_occupancy_no_slots:
  assumes "slots = []"
  shows "oc_occupancy_rate (get_current_occupancy_stats le slots) = 0"
    and "oc_total_slots (get_current_occupancy_stats le slots) = 0"
  using assms by (simp_all add: get_current_occupancy_stats_def)

lemma current_status_fraction:
  assumes "cs_status (get_current_parking_status rnd g thr video pslots ds) = ''ok''"
  shows "sm_occupancy_rate (cs_summary (get_current_parking_status rnd g thr video pslots ds))
         = rnd (real (sm_occupied (cs_summary (get_current_parking_status rnd g thr video pslots ds)))
                / real (sm_total_slots
                          (cs_summary (get_current_parking_status rnd g thr video pslots ds))))"
    and "0 \<le> real (sm_occupied (cs_summary (get_current_parking_status rnd g thr video pslots ds)))
                / real (sm_total_slots
                          (cs_summary (get_current_parking_status rnd g thr video pslots ds)))"
    and "real (sm_occupied (cs_summary (get_current_parking_status rnd g thr video pslots ds)))
                / real (sm_total_slots
                          (cs_summary (get_current_parking_status rnd g thr video pslots ds)))
           \<le> 1"
proof -
  let ?R = "get_current_parking_status rnd g thr video pslots ds"
  note c = current_status_rate [OF assms]
  show "sm_occupancy_rate (cs_summary ?R)
         = rnd (real (sm_occupied (cs_summary ?R)) / real (sm_total_slots (cs_summary ?R)))"
    using c by simp
  have "sm_occupied (cs_summary ?R) \<le> sm_total_slots (cs_summary ?R)" using c by simp
  from fraction_unit [OF this]
  show "0 \<le> real (sm_occupied (cs_summary ?R)) / real (sm_total_slots (cs_summary ?R))"
    and "real (sm_occupied (cs_summary ?R)) / real (sm_total_slots (cs_summary ?R)) \<le> 1"
    by simp_all
qed

text \<open>
  Claim C10.  \<open>get_current_occupancy_stats\<close> returns \<open>occupied_slots / total_slots * 100\<close>, a
  value in \<open>[0, 100]\<close>, when there is a slot, and \<open>0.0\<close> when there is none.  The frame-level
  and video-level endpoints return a fraction of two counts, the first at most the second,
  so a value in \<open>[0, 1]\<close>, rounded to two decimals where the code rounds:
  \<^item> \<open>get_current_parking_status\<close>: the rounding of \<open>occupied / total_slots\<close> (\<open>0\<close> in its other
    variants);
  \<^item> every frame entry of \<open>get_occupancy_stats\<close>: \<open>occupied_slots / total_slots\<close> (\<open>0\<close> without
    slots), where \<open>total_slots\<close> is the number of slots and \<open>occupied_slots\<close> the number of
    slots that a detection of that frame occupies; \<open>average_occupancy_rate\<close> is the mean of
    these rates;
  \<^item> \<open>get_frame_detections\<close>: \<open>occupied_count / len(parking_slots)\<close> (\<open>0\<close> without slots);
  \<^item> \<open>get_video_analytics\<close>: in the timeline the rounding of \<open>occupied_slots / total_slots\<close>;
    in \<open>slot_statistics\<close> the rounding of \<open>occupied_frames / total_frames\<close>, the share of the
    frames with detections in which the slot is occupied; in \<open>lot_statistics\<close> the rounding
    of the mean of that share over the slots of the lot; in the summary the roundings of
    the mean and of the maximum of the unrounded frame rates (both \<open>0\<close> without detections);
  \<^item> \<open>get_lots_parking_status\<close>: for every lot the rounding of \<open>occupied / capacity\<close>, in the
    summary the rounding of \<open>total_occupied / total_capacity\<close> (\<open>0\<close> in its other variants).
\<close>

theorem occupancy_rate_scales:
  "(slots \<noteq> [] \<longrightarrow>
       oc_occupancy_rate (get_current_occupancy_stats le slots)
         = real (oc_occupied_slots (get_current_occupancy_stats le slots))
             / real (oc_total_slots (get_current_occupancy_stats le slots)) * 100
     \<and> oc_total_slots (get_current_occupancy_stats le slots) = length slots
     \<and> 0 \<le> oc_occupancy_rate (get_current_occupancy_stats le slots)
     \<and> oc_occupancy_rate (get_current_occupancy_stats le slots) \<le> 100)
   \<and> (slots = [] \<longrightarrow>
       oc_occupancy_rate (get_current_occupancy_stats le slots) = 0
     \<and> oc_total_slots (get_current_occupancy_stats le slots) = 0)
   \<and> (cs_status (get_current_parking_status rnd g thr video pslots ds) = ''ok'' \<longrightarrow>
       sm_occupancy_rate (cs_summary (get_current_parking_status rnd g thr video pslots ds))
         = rnd (real (sm_occupied (cs_summary (get_current_parking_status rnd g thr video pslots ds)))
                / real (sm_total_slots
                          (cs_summary (get_current_parking_status rnd g thr video pslots ds))))
     \<and> 0 \<le> real (sm_occupied (cs_summary (get_current_parking_status rnd g thr video pslots ds)))
                / real (sm_total_slots
                          (cs_summary (get_current_parking_status rnd g thr video pslots ds)))
     \<and> real (sm_occupied (cs_summary (get_current_parking_status rnd g thr video pslots ds)))
                / real (sm_total_slots
                          (cs_summary (get_current_parking_status rnd g thr video pslots ds)))
           \<le> 1)
   \<and> (cs_status (get_current_parking_status rnd g thr video pslots ds) \<noteq> ''ok'' \<longrightarrow>
       sm_occupancy_rate (cs_summary (get_current_parking_status rnd g thr video pslots ds)) = 0)
   \<and> (\<forall>t \<in> set (os_timeline (get_occupancy_stats g thr ds pslots)).
         tl_occupancy_rate t
           = (if tl_total_slots t > 0 then real (tl_occupied_slots t) / real (tl_total_slots t)
              else 0)
       \<and> tl_total_slots t = length pslots
       \<and> tl_occupied_slots t
           = card (check_occupancy g thr (slot_polygons_of g pslots)
                     (filter (\<lambda>d. frame_number d = tl_frame_number t) ds))
       \<and> tl_occupied_slots t \<le> tl_total_slots t
       \<and> 0 \<le> tl_occupancy_rate t \<and> tl_occupancy_rate t \<le> 1)
   \<and> os_average_occupancy_rate (get_occupancy_stats g thr ds pslots)
       = (if os_timeline (get_occupancy_stats g thr ds pslots) \<noteq> []
          then sum_list (map tl_occupancy_rate (os_timeline (get_occupancy_stats g thr ds pslots)))
                 / real (length (os_timeline (get_occupancy_stats g thr ds pslots)))
          else 0)
   \<and> 0 \<le> os_average_occupancy_rate (get_occupancy_stats g thr ds pslots)
   \<and> os_average_occupancy_rate (get_occupancy_stats g thr ds pslots) \<le> 1
   \<and> (get_frame_detections_occupancy g thr pslots ds = Some oc \<longrightarrow>
         fo_occupancy_rate oc
           = (if pslots \<noteq> [] then real (fo_occupied_count oc) / real (length pslots) else 0)
       \<and> fo_occupied_count oc \<le> length pslots
       \<and> 0 \<le> fo_occupancy_rate oc \<and> fo_occupancy_rate oc \<le> 1)
   \<and> (get_video_analytics rnd g thr video lots pslots ds = Inr a \<longrightarrow>
         (\<forall>f \<in> set (va_occupancy_timeline a).
            af_occupancy_rate f
              = rnd (if length pslots > 0 then real (af_occupied_slots f) / real (length pslots)
                     else 0)
          \<and> af_occupied_slots f
              = card (check_occupancy g thr (slot_polygons_of g pslots)
                        (filter (\<lambda>d. frame_number d = af_frame_number f) ds))
          \<and> af_occupied_slots f \<le> length pslots)
       \<and> (\<forall>s \<in> set (va_slot_statistics a).
            st_occupancy_rate s
              = rnd (if st_total_frames s > 0
                     then real (st_occupied_frames s) / real (st_total_frames s) else 0)
          \<and> st_total_frames s = card (frame_number ` set ds)
          \<and> st_occupied_frames s
              = card {f \<in> frame_number ` set ds.
                        st_slot_id s \<in> check_occupancy g thr (slot_polygons_of g pslots)
                                          (filter (\<lambda>d. frame_number d = f) ds)}
          \<and> st_occupied_frames s \<le> st_total_frames s)
       \<and> (\<forall>l \<in> set (va_lot_statistics a).
            lo_total_slots l
              = length (filter (\<lambda>s. map_slots_to_lots g (lot_polygons_of g lots) pslots Map.empty
                                    (slot_id s) = Some (lo_lot_id l)) pslots)
          \<and> 0 < lo_total_slots l
          \<and> lo_occupancy_rate l
              = rnd (if card (frame_number ` set ds) > 0
                  then real (sum_list (map
                         (\<lambda>s. slot_occupancy
                                 (group_by_frame g thr (slot_polygons_of g pslots) ds [])
                                 (slot_id s))
                         (filter (\<lambda>s. map_slots_to_lots g (lot_polygons_of g lots) pslots Map.empty
                                    (slot_id s) = Some (lo_lot_id l)) pslots)))
                         / real (lo_total_slots l) / real (card (frame_number ` set ds))
                  else 0)
          \<and> 0 \<le> (if card (frame_number ` set ds) > 0
                  then real (sum_list (map
                         (\<lambda>s. slot_occupancy
                                 (group_by_frame g thr (slot_polygons_of g pslots) ds [])
                                 (slot_id s))
                         (filter (\<lambda>s. map_slots_to_lots g (lot_polygons_of g lots) pslots Map.empty
                                    (slot_id s) = Some (lo_lot_id l)) pslots)))
                         / real (lo_total_slots l) / real (card (frame_number ` set ds))
                  else 0)
          \<and> (if card (frame_number ` set ds) > 0
                  then real (sum_list (map
                         (\<lambda>s. slot_occupancy
                                 (group_by_frame g thr (slot_polygons_of g pslots) ds [])
                                 (slot_id s))
                         (filter (\<lambda>s. map_slots_to_lots g (lot_polygons_of g lots) pslots Map.empty
                                    (slot_id s) = Some (lo_lot_id l)) pslots)))
                         / real (lo_total_slots l) / real (card (frame_number ` set ds))
                  else 0) \<le> 1))
   \<and> slot_occupancy (group_by_frame g thr sp ds []) sid
       = card {f \<in> frame_number ` set ds.
                 sid \<in> check_occupancy g thr sp (filter (\<lambda>d. frame_number d = f) ds)}
   \<and> (video_analytics_summary rnd g thr video pslots ds = Inr su \<longrightarrow>
         (ds = [] \<longrightarrow> su_average_occupancy_rate su = 0 \<and> su_peak_occupancy_rate su = 0)
       \<and> (ds \<noteq> [] \<longrightarrow>
            su_average_occupancy_rate su
              = rnd (os_average_occupancy_rate (get_occupancy_stats g thr ds pslots))
          \<and> su_peak_occupancy_rate su
              = rnd (Max (tl_occupancy_rate ` set (os_timeline (get_occupancy_stats g thr ds pslots))))
          \<and> 0 \<le> Max (tl_occupancy_rate ` set (os_timeline (get_occupancy_stats g thr ds pslots)))
          \<and> Max (tl_occupancy_rate ` set (os_timeline (get_occupancy_stats g thr ds pslots))) \<le> 1))
   \<and> (lr_status (get_lots_parking_status rnd g thr video lots pslots ds) = ''ok'' \<longrightarrow>
         (\<forall>e \<in> set (lr_lots (get_lots_parking_status rnd g thr video lots pslots ds)).
            lt_occupancy_rate e
              = rnd (if lt_capacity e > 0 then real (lt_occupied e) / real (lt_capacity e) else 0)
          \<and> lt_occupied e \<le> lt_capacity e)
       \<and> ls_avg_occupancy_rate (lr_summary (get_lots_parking_status rnd g thr video lots pslots ds))
           = rnd (if ls_total_capacity
                       (lr_summary (get_lots_parking_status rnd g thr video lots pslots ds)) > 0
                  then real (ls_total_occupied
                       (lr_summary (get_lots_parking_status rnd g thr video lots pslots ds)))
                     / real (ls_total_capacity
                       (lr_summary (get_lots_parking_status rnd g thr video lots pslots ds)))
                  else 0)
       \<and> ls_total_occupied (lr_summary (get_lots_parking_status rnd g thr video lots pslots ds))
           \<le> ls_total_capacity
                (lr_summary (get_lots_parking_status rnd g thr video lots pslots ds)))
   \<and> (lr_status (get_lots_parking_status rnd g thr video lots pslots ds) \<noteq> ''ok'' \<longrightarrow>
         (\<forall>e \<in> set (lr_lots (get_lots_parking_status rnd g thr video lots pslots ds)).
            lt_occupancy_rate e = 0)
       \<and> ls_avg_occupancy_rate
           (lr_summary (get_lots_parking_status rnd g thr video lots pslots ds)) = 0)"
  apply (intro conjI impI ballI)
  subgoal by (erule current_occupancy_percentage(1))
  subgoal by (erule current_occupancy_percentage(2))
  subgoal by (erule current_occupancy_percentage(3))
  subgoal by (erule current_occupancy_percentage(4))
  subgoal by (erule current_occupancy_no_slots(1))
  subgoal by (erule current_occupancy_no_slots(2))
  subgoal by (erule current_status_fraction(1))
  subgoal by (erule current_status_fraction(2))
  subgoal by (erule current_status_fraction(3))
  subgoal by (erule current_status_not_ok)
  subgoal by (erule timeline_entry_rate(1))
  subgoal by (erule timeline_entry_rate(2))
  subgoal by (erule timeline_entry_rate(3))
  subgoal by (erule timeline_entry_rate(4))
  subgoal by (erule timeline_entry_rate(5))
  subgoal by (erule timeline_entry_rate(6))
  subgoal by (rule average_occupancy_rate(1))
  subgoal by (rule average_occupancy_rate(2))
  subgoal by (rule average_occupancy_rate(3))
  subgoal by (erule frame_detections_rate(1))
  subgoal by (erule frame_detections_rate(2))
  subgoal by (erule frame_detections_rate(3))
  subgoal by (erule frame_detections_rate(4))
  subgoal by (erule (1) analytics_timeline_entry(1))
  subgoal by (erule (1) analytics_timeline_entry(2))
  subgoal by (erule (1) analytics_timeline_entry(3))
  subgoal by (erule (1) analytics_slot_entry(1))
  subgoal by (erule (1) analytics_slot_entry(2))
  subgoal by (erule (1) analytics_slot_entry(3))
  subgoal by (erule (1) analytics_slot_entry(4))
  subgoal by (erule (1) analytics_lot_entry(1))
  subgoal by (erule (1) analytics_lot_entry(2))
  subgoal by (erule (1) analytics_lot_entry(3))
  subgoal by (erule (1) analytics_lot_entry(4))
  subgoal by (erule (1) analytics_lot_entry(5))
  subgoal by (rule slot_occupancy_card)
  subgoal using video_analytics_summary_rates(1) by blast
  subgoal using video_analytics_summary_rates(1) by blast
  subgoal using video_analytics_summary_rates(2) by blast
  subgoal using video_analytics_summary_rates(2) by blast
  subgoal using video_analytics_summary_rates(2) by blast
  subgoal using video_analytics_summary_rates(2) by blast
  subgoal using lots_status_rates(1) by blast
  subgoal using lots_status_rates(1) by blast
  subgoal by (erule lots_status_rates(2))
  subgoal by (erule lots_status_rates(3))
  subgoal using lots_status_not_ok by blast
  subgoal using lots_status_not_ok by blast
  done

lemma timeline_two_slots_example:
  "os_timeline (get_occupancy_stats rect_geometry (3 / 10) [car_detection 0 (0, 0, 2, 1)]
          [slot_row 2 ''A'' (0, 0, 2, 1), slot_row 3 ''B'' (20, 20, 21, 21)])
     = [\<lparr> tl_frame_number = 0, tl_frame_time = 0, tl_total_slots = 2, tl_occupied_slots = 1,
          tl_free_slots = 1, tl_occupancy_rate = 1 / 2, tl_total_detections = 1 \<rparr>]"
  by (simp add: get_occupancy_stats_def occupancy_timeline_def slot_polygons_of_def
      add_to_frame_def car_detection_def slot_row_def rect_eval)

lemma average_two_slots_example:
  "os_average_occupancy_rate (get_occupancy_stats rect_geometry (3 / 10)
          [car_detection 0 (0, 0, 2, 1)]
          [slot_row 2 ''A'' (0, 0, 2, 1), slot_row 3 ''B'' (20, 20, 21, 21)]) = 1 / 2"
  by (simp add: get_occupancy_stats_def occupancy_timeline_def slot_polygons_of_def
      add_to_frame_def car_detection_def slot_row_def rect_eval)

lemma frame_detections_example:
  "get_frame_detections_occupancy rect_geometry (3 / 10)
          [slot_row 2 ''A'' (0, 0, 2, 1), slot_row 3 ''B'' (20, 20, 21, 21)]
          [car_detection 0 (0, 0, 2, 1)]
     = Some \<lparr> fo_occupied_count = 1, fo_free_count = 1, fo_occupancy_rate = 1 / 2 \<rparr>"
  by (simp add: get_frame_detections_occupancy_def find_best_matching_slot_def
      slot_polygons_of_def car_detection_def slot_row_def rect_eval)

lemma analytics_two_slots_example:
  "get_video_analytics round2 rect_geometry (3 / 10) (Some (processed_video 9))
       [lot_row 5 ''L'' (0, 0, 30, 30)]
       [slot_row 2 ''A'' (0, 0, 2, 1), slot_row 3 ''B'' (20, 20, 21, 21)]
       [car_detection 0 (0, 0, 2, 1)]
     = Inr \<lparr> va_total_detections = 1, va_frames_analyzed = 1,
             va_occupancy_timeline =
               [\<lparr> af_frame_number = 0, af_occupied_slots = 1, af_free_slots = 1,
                  af_occupancy_rate = 1 / 2, af_total_vehicles = 1 \<rparr>],
             va_slot_statistics =
               [\<lparr> st_slot_id = 2, st_occupied_frames = 1, st_total_frames = 1,
                  st_occupancy_rate = 1, st_status = ''busy'' \<rparr>,
                \<lparr> st_slot_id = 3, st_occupied_frames = 0, st_total_frames = 1,
                  st_occupancy_rate = 0, st_status = ''free'' \<rparr>],
             va_lot_statistics =
               [\<lparr> lo_lot_id = 5, lo_lot_name = ''L'', lo_total_slots = 2,
                  lo_occupancy_rate = 1 / 2, lo_status = ''moderate'' \<rparr>] \<rparr>"
  by (simp add: get_video_analytics_def analytics_timeline_def slot_occupancy_def
      lot_occupancy_of_def lot_polygons_of_def slot_polygons_of_def add_to_frame_def
      analytics_status_label_def check_containment_def check_containment_try_def
      car_detection_def slot_row_def lot_row_def processed_video_def round2_simps
      calculate_iou_rect rect_union_area_def rect_intersection_area_def rect_area_def
      rect_geometry_simps bbox_to_polygon_def)

lemma summary_two_slots_example:
  "video_analytics_summary round2 rect_geometry (3 / 10) (Some (processed_video 9))
       [slot_row 2 ''A'' (0, 0, 2, 1), slot_row 3 ''B'' (20, 20, 21, 21)]
       [car_detection 0 (0, 0, 2, 1)]
     = Inr \<lparr> su_average_occupancy_rate = 1 / 2, su_peak_occupancy_rate = 1 / 2 \<rparr>"
  by (simp add: video_analytics_summary_def slot_polygons_of_def add_to_frame_def
      car_detection_def slot_row_def processed_video_def round2_simps rect_eval)

lemma summary_no_detections_example:
  "video_analytics_summary round2 rect_geometry (3 / 10) (Some (processed_video 9))
       [slot_row 2 ''A'' (0, 0, 2, 1), slot_row 3 ''B'' (20, 20, 21, 21)] []
     = Inr \<lparr> su_average_occupancy_rate = 0, su_peak_occupancy_rate = 0 \<rparr>"
  by (simp add: video_analytics_summary_def)

lemma lots_status_two_slots_example:
  "get_lots_parking_status round2 rect_geometry (3 / 10) (Some (processed_video 9))
       [lot_row 5 ''L'' (0, 0, 30, 30)]
       [slot_row 2 ''A'' (0, 0, 2, 1), slot_row 3 ''B'' (20, 20, 21, 21)]
       [car_detection 0 (0, 0, 2, 1)]
     = \<lparr> lr_status = ''ok'', lr_video_id = Some 9, lr_frame_number = Some 0,
         lr_lots = [\<lparr> lt_id = 5, lt_name = ''L'', lt_capacity = 2, lt_occupied = 1,
                      lt_free = Some 1, lt_occupancy_rate = 1 / 2,
                      lt_status = Some ''moderate'' \<rparr>],
         lr_summary = \<lparr> ls_total_lots = 1, ls_total_capacity = 2, ls_total_occupied = 1,
                        ls_avg_occupancy_rate = 1 / 2 \<rparr> \<rparr>"
  by (simp add: get_lots_parking_status_def build_lots_status_def lot_data_of_def
      lot_polygons_of_def slot_polygons_of_def check_occupancy_def lot_status_label_def
      check_containment_def check_containment_try_def
      car_detection_def slot_row_def lot_row_def processed_video_def round2_simps
      calculate_iou_rect rect_union_area_def rect_intersection_area_def rect_area_def
      rect_geometry_simps bbox_to_polygon_def)

lemma lots_status_no_detections_example:
  "get_lots_parking_status round2 rect_geometry (3 / 10) (Some (processed_video 9))
       [lot_row 5 ''L'' (0, 0, 30, 30)]
       [slot_row 2 ''A'' (0, 0, 2, 1), slot_row 3 ''B'' (20, 20, 21, 21)] []
     = \<lparr> lr_status = ''no_detections'', lr_video_id = Some 9, lr_frame_number = None,
         lr_lots = [\<lparr> lt_id = 5, lt_name = ''L'', lt_capacity = 0, lt_occupied = 0,
                      lt_free = None, lt_occupancy_rate = 0, lt_status = None \<rparr>],
         lr_summary = \<lparr> ls_total_lots = 1, ls_total_capacity = 0, ls_total_occupied = 0,
                        ls_avg_occupancy_rate = 0 \<rparr> \<rparr>"
  by (simp add: get_lots_parking_status_def lot_row_def processed_video_def)

lemma current_stats_example:
  "get_current_occupancy_stats (\<lambda>sid. if sid = 2 then Some ''occupied'' else None)
       [slot_row 2 ''A'' (0, 0, 2, 1), slot_row 3 ''B'' (20, 20, 21, 21)]
     = \<lparr> oc_total_slots = 2, oc_occupied_slots = 1, oc_free_slots = 0, oc_unknown_slots = 1,
         oc_occupancy_rate = 50 \<rparr>"
  by (simp add: get_current_occupancy_stats_def slot_row_def)

lemma current_status_example:
  "get_current_parking_status round2 rect_geometry (3 / 10) (Some (processed_video 9))
          [slot_row 2 ''A'' (0, 0, 2, 1)] [car_detection 0 (0, 0, 2, 1)]
     = \<lparr> cs_status = ''ok'', cs_video_id = Some 9, cs_frame_number = Some 0,
         cs_slots = [\<lparr> ss_id = 2, ss_name = ''A'', ss_status = ''occupied'' \<rparr>],
         cs_summary = \<lparr> sm_total_slots = 1, sm_occupied = 1, sm_free = 0,
                        sm_occupancy_rate = 1 \<rparr> \<rparr>"
  by (simp add: get_current_parking_status_def check_occupancy_def slot_polygons_of_def
      car_detection_def slot_row_def processed_video_def round2_simps rect_eval)

lemma current_status_no_data_example:
  "get_current_parking_status round2 rect_geometry (3 / 10) None
          [slot_row 2 ''A'' (0, 0, 2, 1)] [car_detection 0 (0, 0, 2, 1)]
     = \<lparr> cs_status = ''no_data'', cs_video_id = None, cs_frame_number = None, cs_slots = [],
         cs_summary = \<lparr> sm_total_slots = 0, sm_occupied = 0, sm_free = 0,
                        sm_occupancy_rate = 0 \<rparr> \<rparr>"
  by (simp add: get_current_parking_status_def)

text \<open>
  Two slots of which one has a latest event \<open>occupied\<close> give the rate \<open>50\<close>; the same two
  slots, of which the only detection covers one, give the fraction \<open>1/2\<close> in every other
  endpoint.
\<close>

theorem occupancy_rate_scales_witness:
  "[slot_row 2 ''A'' (0, 0, 2, 1), slot_row 3 ''B'' (20, 20, 21, 21)] \<noteq> []
   \<and> oc_occupancy_rate (get_current_occupancy_stats (\<lambda>sid. if sid = 2 then Some ''occupied'' else None)
        [slot_row 2 ''A'' (0, 0, 2, 1), slot_row 3 ''B'' (20, 20, 21, 21)]) = 50
   \<and> oc_occupancy_rate (get_current_occupancy_stats (\<lambda>sid. if sid = 2 then Some ''occupied'' else None)
        ([] :: rect ParkingSlot list)) = 0
   \<and> cs_status (get_current_parking_status round2 rect_geometry (3 / 10) (Some (processed_video 9))
          [slot_row 2 ''A'' (0, 0, 2, 1)] [car_detection 0 (0, 0, 2, 1)]) = ''ok''
   \<and> sm_occupancy_rate (cs_summary (get_current_parking_status round2 rect_geometry (3 / 10) (Some (processed_video 9))
          [slot_row 2 ''A'' (0, 0, 2, 1)] [car_detection 0 (0, 0, 2, 1)])) = 1
   \<and> cs_status (get_current_parking_status round2 rect_geometry (3 / 10) None
          [slot_row 2 ''A'' (0, 0, 2, 1)] [car_detection 0 (0, 0, 2, 1)]) \<noteq> ''ok''
   \<and> sm_occupancy_rate (cs_summary (get_current_parking_status round2 rect_geometry (3 / 10) None
          [slot_row 2 ''A'' (0, 0, 2, 1)] [car_detection 0 (0, 0, 2, 1)])) = 0
   \<and> tl_occupancy_rate (hd (os_timeline (get_occupancy_stats rect_geometry (3 / 10) [car_detection 0 (0, 0, 2, 1)]
          [slot_row 2 ''A'' (0, 0, 2, 1), slot_row 3 ''B'' (20, 20, 21, 21)]))) = 1 / 2
   \<and> tl_occupied_slots (hd (os_timeline (get_occupancy_stats rect_geometry (3 / 10) [car_detection 0 (0, 0, 2, 1)]
          [slot_row 2 ''A'' (0, 0, 2, 1), slot_row 3 ''B'' (20, 20, 21, 21)]))) = 1
   \<and> tl_total_slots (hd (os_timeline (get_occupancy_stats rect_geometry (3 / 10) [car_detection 0 (0, 0, 2, 1)]
          [slot_row 2 ''A'' (0, 0, 2, 1), slot_row 3 ''B'' (20, 20, 21, 21)]))) = 2
   \<and> os_average_occupancy_rate (get_occupancy_stats rect_geometry (3 / 10) [car_detection 0 (0, 0, 2, 1)]
          [slot_row 2 ''A'' (0, 0, 2, 1), slot_row 3 ''B'' (20, 20, 21, 21)]) = 1 / 2
   \<and> fo_occupancy_rate (the (get_frame_detections_occupancy rect_geometry (3 / 10)
          [slot_row 2 ''A'' (0, 0, 2, 1), slot_row 3 ''B'' (20, 20, 21, 21)]
          [car_detection 0 (0, 0, 2, 1)])) = 1 / 2
   \<and> af_occupancy_rate (hd (va_occupancy_timeline (projr (get_video_analytics round2 rect_geometry (3 / 10) (Some (processed_video 9))
          [lot_row 5 ''L'' (0, 0, 30, 30)]
          [slot_row 2 ''A'' (0, 0, 2, 1), slot_row 3 ''B'' (20, 20, 21, 21)]
          [car_detection 0 (0, 0, 2, 1)])))) = 1 / 2
   \<and> st_occupancy_rate (hd (va_slot_statistics (projr (get_video_analytics round2 rect_geometry (3 / 10) (Some (processed_video 9))
          [lot_row 5 ''L'' (0, 0, 30, 30)]
          [slot_row 2 ''A'' (0, 0, 2, 1), slot_row 3 ''B'' (20, 20, 21, 21)]
          [car_detection 0 (0, 0, 2, 1)])))) = 1
   \<and> lo_occupancy_rate (hd (va_lot_statistics (projr (get_video_analytics round2 rect_geometry (3 / 10) (Some (processed_video 9))
          [lot_row 5 ''L'' (0, 0, 30, 30)]
          [slot_row 2 ''A'' (0, 0, 2, 1), slot_row 3 ''B'' (20, 20, 21, 21)]
          [car_detection 0 (0, 0, 2, 1)])))) = 1 / 2
   \<and> su_average_occupancy_rate (projr (video_analytics_summary round2 rect_geometry (3 / 10) (Some (processed_video 9))
          [slot_row 2 ''A'' (0, 0, 2, 1), slot_row 3 ''B'' (20, 20, 21, 21)]
          [car_detection 0 (0, 0, 2, 1)])) = 1 / 2
   \<and> su_peak_occupancy_rate (projr (video_analytics_summary round2 rect_geometry (3 / 10) (Some (processed_video 9))
          [slot_row 2 ''A'' (0, 0, 2, 1), slot_row 3 ''B'' (20, 20, 21, 21)]
          [car_detection 0 (0, 0, 2, 1)])) = 1 / 2
   \<and> su_average_occupancy_rate (projr (video_analytics_summary round2 rect_geometry (3 / 10) (Some (processed_video 9))
          [slot_row 2 ''A'' (0, 0, 2, 1), slot_row 3 ''B'' (20, 20, 21, 21)]
          [])) = 0
   \<and> lr_status (get_lots_parking_status round2 rect_geometry (3 / 10) (Some (processed_video 9))
          [lot_row 5 ''L'' (0, 0, 30, 30)]
          [slot_row 2 ''A'' (0, 0, 2, 1), slot_row 3 ''B'' (20, 20, 21, 21)]
          [car_detection 0 (0, 0, 2, 1)]) = ''ok''
   \<and> lt_occupancy_rate (hd (lr_lots (get_lots_parking_status round2 rect_geometry (3 / 10) (Some (processed_video 9))
          [lot_row 5 ''L'' (0, 0, 30, 30)]
          [slot_row 2 ''A'' (0, 0, 2, 1), slot_row 3 ''B'' (20, 20, 21, 21)]
          [car_detection 0 (0, 0, 2, 1)]))) = 1 / 2
   \<and> ls_avg_occupancy_rate (lr_summary (get_lots_parking_status round2 rect_geometry (3 / 10) (Some (processed_video 9))
          [lot_row 5 ''L'' (0, 0, 30, 30)]
          [slot_row 2 ''A'' (0, 0, 2, 1), slot_row 3 ''B'' (20, 20, 21, 21)]
          [car_detection 0 (0, 0, 2, 1)])) = 1 / 2
   \<and> lr_status (get_lots_parking_status round2 rect_geometry (3 / 10) (Some (processed_video 9))
          [lot_row 5 ''L'' (0, 0, 30, 30)]
          [slot_row 2 ''A'' (0, 0, 2, 1), slot_row 3 ''B'' (20, 20, 21, 21)]
          []) \<noteq> ''ok''
   \<and> ls_avg_occupancy_rate (lr_summary (get_lots_parking_status round2 rect_geometry (3 / 10) (Some (processed_video 9))
          [lot_row 5 ''L'' (0, 0, 30, 30)]
          [slot_row 2 ''A'' (0, 0, 2, 1), slot_row 3 ''B'' (20, 20, 21, 21)]
          [])) = 0"
proof -
  note t1 = occupancy_rate_scales
    [where slots = "[slot_row 2 ''A'' (0, 0, 2, 1), slot_row 3 ''B'' (20, 20, 21, 21)]"
       and le = "(\<lambda>sid. if sid = 2 then Some ''occupied'' else None)"
       and rnd = round2 and g = rect_geometry and thr = "3 / 10"
       and video = "Some (processed_video 9)"
       and pslots = "[slot_row 2 ''A'' (0, 0, 2, 1)]" and ds = "[car_detection 0 (0, 0, 2, 1)]"]
  note t2 = occupancy_rate_scales
    [where slots = "[] :: rect ParkingSlot list"
       and le = "(\<lambda>sid. if sid = 2 then Some ''occupied'' else None)"
       and rnd = round2 and g = rect_geometry and thr = "3 / 10"
       and video = "None"
       and pslots = "[slot_row 2 ''A'' (0, 0, 2, 1)]" and ds = "[car_detection 0 (0, 0, 2, 1)]"]
  note t3 = occupancy_rate_scales
    [where rnd = round2 and g = rect_geometry and thr = "3 / 10"
       and video = "Some (processed_video 9)"
       and pslots = "[slot_row 2 ''A'' (0, 0, 2, 1), slot_row 3 ''B'' (20, 20, 21, 21)]"
       and ds = "[car_detection 0 (0, 0, 2, 1)]"
       and lots = "[lot_row 5 ''L'' (0, 0, 30, 30)]"
       and oc = "\<lparr> fo_occupied_count = 1, fo_free_count = 1, fo_occupancy_rate = 1 / 2 \<rparr>"
       and a = "\<lparr> va_total_detections = 1, va_frames_analyzed = 1,
             va_occupancy_timeline =
               [\<lparr> af_frame_number = 0, af_occupied_slots = 1, af_free_slots = 1,
                  af_occupancy_rate = 1 / 2, af_total_vehicles = 1 \<rparr>],
             va_slot_statistics =
               [\<lparr> st_slot_id = 2, st_occupied_frames = 1, st_total_frames = 1,
                  st_occupancy_rate = 1, st_status = ''busy'' \<rparr>,
                \<lparr> st_slot_id = 3, st_occupied_frames = 0, st_total_frames = 1,
                  st_occupancy_rate = 0, st_status = ''free'' \<rparr>],
             va_lot_statistics =
               [\<lparr> lo_lot_id = 5, lo_lot_name = ''L'', lo_total_slots = 2,
                  lo_occupancy_rate = 1 / 2, lo_status = ''moderate'' \<rparr>] \<rparr>"
       and su = "\<lparr> su_average_occupancy_rate = 1 / 2, su_peak_occupancy_rate = 1 / 2 \<rparr>"]
  note t4 = occupancy_rate_scales
    [where rnd = round2 and g = rect_geometry and thr = "3 / 10"
       and video = "Some (processed_video 9)"
       and pslots = "[slot_row 2 ''A'' (0, 0, 2, 1), slot_row 3 ''B'' (20, 20, 21, 21)]"
       and ds = "[]"
       and lots = "[lot_row 5 ''L'' (0, 0, 30, 30)]"
       and su = "\<lparr> su_average_occupancy_rate = 0, su_peak_occupancy_rate = 0 \<rparr>"]
  have ne: "[slot_row 2 ''A'' (0, 0, 2, 1), slot_row 3 ''B'' (20, 20, 21, 21)] \<noteq> []"
    by simp
  have ok: "cs_status (get_current_parking_status round2 rect_geometry (3 / 10) (Some (processed_video 9))
          [slot_row 2 ''A'' (0, 0, 2, 1)] [car_detection 0 (0, 0, 2, 1)]) = ''ok''"
    by (subst current_status_example) simp
  have nok: "cs_status (get_current_parking_status round2 rect_geometry (3 / 10) None
          [slot_row 2 ''A'' (0, 0, 2, 1)] [car_detection 0 (0, 0, 2, 1)]) \<noteq> ''ok''"
    by (subst current_status_no_data_example) simp
  have a1: "oc_occupancy_rate (get_current_occupancy_stats (\<lambda>sid. if sid = 2 then Some ''occupied'' else None)
        [slot_row 2 ''A'' (0, 0, 2, 1), slot_row 3 ''B'' (20, 20, 21, 21)]) = 50"
    using mp [OF t1 [THEN conjunct1] ne] by (simp add: current_stats_example)
  have a2: "oc_occupancy_rate (get_current_occupancy_stats (\<lambda>sid. if sid = 2 then Some ''occupied'' else None)
        ([] :: rect ParkingSlot list)) = 0"
    using mp [OF t2 [THEN conjunct2, THEN conjunct1] refl] by simp
  have a3: "sm_occupancy_rate (cs_summary (get_current_parking_status round2 rect_geometry (3 / 10) (Some (processed_video 9))
          [slot_row 2 ''A'' (0, 0, 2, 1)] [car_detection 0 (0, 0, 2, 1)])) = 1"
    using mp [OF t1 [THEN conjunct2, THEN conjunct2, THEN conjunct1] ok]
    by (simp add: current_status_example round2_simps)
  have a4: "sm_occupancy_rate (cs_summary (get_current_parking_status round2 rect_geometry (3 / 10) None
          [slot_row 2 ''A'' (0, 0, 2, 1)] [car_detection 0 (0, 0, 2, 1)])) = 0"
    using t2 [THEN conjunct2, THEN conjunct2, THEN conjunct2, THEN conjunct1] nok by (rule mp)
  have mem: "hd (os_timeline (get_occupancy_stats rect_geometry (3 / 10) [car_detection 0 (0, 0, 2, 1)]
          [slot_row 2 ''A'' (0, 0, 2, 1), slot_row 3 ''B'' (20, 20, 21, 21)]))
               \<in> set (os_timeline (get_occupancy_stats rect_geometry (3 / 10) [car_detection 0 (0, 0, 2, 1)]
          [slot_row 2 ''A'' (0, 0, 2, 1), slot_row 3 ''B'' (20, 20, 21, 21)]))"
    by (subst (1 2) timeline_two_slots_example) simp
  note tl = bspec [OF t3 [THEN conjunct2, THEN conjunct2, THEN conjunct2, THEN conjunct2, THEN conjunct1] mem]
  have b1: "tl_occupancy_rate (hd (os_timeline (get_occupancy_stats rect_geometry (3 / 10) [car_detection 0 (0, 0, 2, 1)]
          [slot_row 2 ''A'' (0, 0, 2, 1), slot_row 3 ''B'' (20, 20, 21, 21)]))) = 1 / 2"
    using tl [THEN conjunct1] by (simp add: timeline_two_slots_example)
  have b3: "tl_total_slots (hd (os_timeline (get_occupancy_stats rect_geometry (3 / 10) [car_detection 0 (0, 0, 2, 1)]
          [slot_row 2 ''A'' (0, 0, 2, 1), slot_row 3 ''B'' (20, 20, 21, 21)]))) = 2"
    using tl [THEN conjunct2, THEN conjunct1] by (simp add: slot_row_def)
  have b2: "tl_occupied_slots (hd (os_timeline (get_occupancy_stats rect_geometry (3 / 10) [car_detection 0 (0, 0, 2, 1)]
          [slot_row 2 ''A'' (0, 0, 2, 1), slot_row 3 ''B'' (20, 20, 21, 21)]))) = 1"
    using tl [THEN conjunct2, THEN conjunct2, THEN conjunct1]
    by (simp add: timeline_two_slots_example)
  have b4: "os_average_occupancy_rate (get_occupancy_stats rect_geometry (3 / 10) [car_detection 0 (0, 0, 2, 1)]
          [slot_row 2 ''A'' (0, 0, 2, 1), slot_row 3 ''B'' (20, 20, 21, 21)]) = 1 / 2"
    using t3 [THEN conjunct2, THEN conjunct2, THEN conjunct2, THEN conjunct2, THEN conjunct2, THEN conjunct1] by (simp add: timeline_two_slots_example)
  have c1: "fo_occupancy_rate (the (get_frame_detections_occupancy rect_geometry (3 / 10)
          [slot_row 2 ''A'' (0, 0, 2, 1), slot_row 3 ''B'' (20, 20, 21, 21)]
          [car_detection 0 (0, 0, 2, 1)])) = 1 / 2"
    using mp [OF t3 [THEN conjunct2, THEN conjunct2, THEN conjunct2, THEN conjunct2, THEN conjunct2, THEN conjunct2, THEN conjunct2, THEN conjunct2, THEN conjunct1] frame_detections_example, THEN conjunct1]
    by (simp add: frame_detections_example)
  note va = mp [OF t3 [THEN conjunct2, THEN conjunct2, THEN conjunct2, THEN conjunct2, THEN conjunct2, THEN conjunct2, THEN conjunct2, THEN conjunct2, THEN conjunct2, THEN conjunct1] analytics_two_slots_example]
  have d1: "af_occupancy_rate (hd (va_occupancy_timeline (projr (get_video_analytics round2 rect_geometry (3 / 10) (Some (processed_video 9))
          [lot_row 5 ''L'' (0, 0, 30, 30)]
          [slot_row 2 ''A'' (0, 0, 2, 1), slot_row 3 ''B'' (20, 20, 21, 21)]
          [car_detection 0 (0, 0, 2, 1)])))) = 1 / 2"
    using bspec [OF va [THEN conjunct1], of "\<lparr> af_frame_number = 0, af_occupied_slots = 1,
                  af_free_slots = 1, af_occupancy_rate = 1 / 2, af_total_vehicles = 1 \<rparr>"]
    by (simp add: analytics_two_slots_example)
  have d2: "st_occupancy_rate (hd (va_slot_statistics (projr (get_video_analytics round2 rect_geometry (3 / 10) (Some (processed_video 9))
          [lot_row 5 ''L'' (0, 0, 30, 30)]
          [slot_row 2 ''A'' (0, 0, 2, 1), slot_row 3 ''B'' (20, 20, 21, 21)]
          [car_detection 0 (0, 0, 2, 1)])))) = 1"
    using bspec [OF va [THEN conjunct2, THEN conjunct1],
                 of "\<lparr> st_slot_id = 2, st_occupied_frames = 1, st_total_frames = 1,
                      st_occupancy_rate = 1, st_status = ''busy'' \<rparr>"]
    by (simp add: analytics_two_slots_example)
  have d3: "lo_occupancy_rate (hd (va_lot_statistics (projr (get_video_analytics round2 rect_geometry (3 / 10) (Some (processed_video 9))
          [lot_row 5 ''L'' (0, 0, 30, 30)]
          [slot_row 2 ''A'' (0, 0, 2, 1), slot_row 3 ''B'' (20, 20, 21, 21)]
          [car_detection 0 (0, 0, 2, 1)])))) = 1 / 2"
    using bspec [OF va [THEN conjunct2, THEN conjunct2],
                 of "\<lparr> lo_lot_id = 5, lo_lot_name = ''L'', lo_total_slots = 2,
                      lo_occupancy_rate = 1 / 2, lo_status = ''moderate'' \<rparr>"]
    by (simp add: analytics_two_slots_example)
  note su = mp [OF t3 [THEN conjunct2, THEN conjunct2, THEN conjunct2, THEN conjunct2, THEN conjunct2, THEN conjunct2, THEN conjunct2, THEN conjunct2, THEN conjunct2, THEN conjunct2, THEN conjunct2, THEN conjunct1] summary_two_slots_example, THEN conjunct2]
  have dne: "[car_detection 0 (0, 0, 2, 1)] \<noteq> []" by simp
  have e1: "su_average_occupancy_rate (projr (video_analytics_summary round2 rect_geometry (3 / 10) (Some (processed_video 9))
          [slot_row 2 ''A'' (0, 0, 2, 1), slot_row 3 ''B'' (20, 20, 21, 21)]
          [car_detection 0 (0, 0, 2, 1)])) = 1 / 2"
    using mp [OF su dne, THEN conjunct1] by (simp add: summary_two_slots_example)
  have e2: "su_peak_occupancy_rate (projr (video_analytics_summary round2 rect_geometry (3 / 10) (Some (processed_video 9))
          [slot_row 2 ''A'' (0, 0, 2, 1), slot_row 3 ''B'' (20, 20, 21, 21)]
          [car_detection 0 (0, 0, 2, 1)])) = 1 / 2"
    using mp [OF su dne, THEN conjunct2, THEN conjunct1]
    by (simp add: summary_two_slots_example)
  have e3: "su_average_occupancy_rate (projr (video_analytics_summary round2 rect_geometry (3 / 10) (Some (processed_video 9))
          [slot_row 2 ''A'' (0, 0, 2, 1), slot_row 3 ''B'' (20, 20, 21, 21)]
          [])) = 0"
    using mp [OF mp [OF t4 [THEN conjunct2, THEN conjunct2, THEN conjunct2, THEN conjunct2, THEN conjunct2, THEN conjunct2, THEN conjunct2, THEN conjunct2, THEN conjunct2, THEN conjunct2, THEN conjunct2, THEN conjunct1] summary_no_detections_example, THEN conjunct1] refl]
    by (simp add: summary_no_detections_example)
  have f1: "lr_status (get_lots_parking_status round2 rect_geometry (3 / 10) (Some (processed_video 9))
          [lot_row 5 ''L'' (0, 0, 30, 30)]
          [slot_row 2 ''A'' (0, 0, 2, 1), slot_row 3 ''B'' (20, 20, 21, 21)]
          [car_detection 0 (0, 0, 2, 1)]) = ''ok''"
    by (subst lots_status_two_slots_example) simp
  note lo = mp [OF t3 [THEN conjunct2, THEN conjunct2, THEN conjunct2, THEN conjunct2, THEN conjunct2, THEN conjunct2, THEN conjunct2, THEN conjunct2, THEN conjunct2, THEN conjunct2, THEN conjunct2, THEN conjunct2, THEN conjunct1] f1]
  have f2: "lt_occupancy_rate (hd (lr_lots (get_lots_parking_status round2 rect_geometry (3 / 10) (Some (processed_video 9))
          [lot_row 5 ''L'' (0, 0, 30, 30)]
          [slot_row 2 ''A'' (0, 0, 2, 1), slot_row 3 ''B'' (20, 20, 21, 21)]
          [car_detection 0 (0, 0, 2, 1)]))) = 1 / 2"
    using bspec [OF lo [THEN conjunct1],
                 of "\<lparr> lt_id = 5, lt_name = ''L'', lt_capacity = 2, lt_occupied = 1,
                      lt_free = Some 1, lt_occupancy_rate = 1 / 2,
                      lt_status = Some ''moderate'' \<rparr>"]
    by (simp add: lots_status_two_slots_example)
  have f3: "ls_avg_occupancy_rate (lr_summary (get_lots_parking_status round2 rect_geometry (3 / 10) (Some (processed_video 9))
          [lot_row 5 ''L'' (0, 0, 30, 30)]
          [slot_row 2 ''A'' (0, 0, 2, 1), slot_row 3 ''B'' (20, 20, 21, 21)]
          [car_detection 0 (0, 0, 2, 1)])) = 1 / 2"
    using lo [THEN conjunct2, THEN conjunct1]
    by (simp add: lots_status_two_slots_example round2_simps)
  have g1: "lr_status (get_lots_parking_status round2 rect_geometry (3 / 10) (Some (processed_video 9))
          [lot_row 5 ''L'' (0, 0, 30, 30)]
          [slot_row 2 ''A'' (0, 0, 2, 1), slot_row 3 ''B'' (20, 20, 21, 21)]
          []) \<noteq> ''ok''"
    by (subst lots_status_no_detections_example) simp
  have g2: "ls_avg_occupancy_rate (lr_summary (get_lots_parking_status round2 rect_geometry (3 / 10) (Some (processed_video 9))
          [lot_row 5 ''L'' (0, 0, 30, 30)]
          [slot_row 2 ''A'' (0, 0, 2, 1), slot_row 3 ''B'' (20, 20, 21, 21)]
          [])) = 0"
    using mp [OF t4 [THEN conjunct2, THEN conjunct2, THEN conjunct2, THEN conjunct2, THEN conjunct2, THEN conjunct2, THEN conjunct2, THEN conjunct2, THEN conjunct2, THEN conjunct2, THEN conjunct2, THEN conjunct2, THEN conjunct2] g1, THEN conjunct2] .
  show ?thesis
    by (intro conjI ne a1 a2 ok a3 nok a4 b1 b2 b3 b4 c1 d1 d2 d3 e1 e2 e3 f1 f2 f3 g1 g2)
qed

section \<open>Properties of the endpoints when no slot is defined\<close>

lemma sum_list_all_zero:
  fixes f :: "'a \<Rightarrow> real"
  shows "(\<forall>x \<in> set xs. f x = 0) \<Longrightarrow> sum_list (map f xs) = 0"
  by (induction xs) simp_all

text \<open>
  Claim C4 as stated fails for the processing task: with no slot row it raises
  \<open>ValueError\<close>, after recording the message on the video row.
\<close>

theorem process_video_task_raises_without_slots:
  "process_video_task default_settings rect_geometry (Some (processed_video 9)) []
       (Some two_frame_video) None None
     = (Some \<lparr> video_id = 9, video_start_time = None, upload_time = 0, processed = False,
               processing_error = Some ''No parking slots defined for this camera'' \<rparr>,
        [], Inl (ValueError ''No parking slots defined for this camera''))"
  by (simp add: process_video_task_def processed_video_def)

text \<open>
  Claim C4 as amended.  With no slot row \<open>get_current_parking_status\<close> returns an explicit
  variant with an empty slot list and a zero summary: \<open>no_data\<close> when the camera has no
  processed video and \<open>no_slots\<close> otherwise; \<open>get_occupancy_stats\<close> returns an ordinary
  result with \<open>total_slots = 0\<close> and the rate \<open>0\<close> in every frame; and \<open>process_video_task\<close>
  raises \<open>ValueError\<close> in every case, for an existing video after leaving it unprocessed
  with the message as its \<open>processing_error\<close>.
\<close>

theorem no_slots_outcomes:
  "get_current_parking_status rnd g thr video [] ds
     = \<lparr> cs_status = (case video of None \<Rightarrow> ''no_data'' | Some v \<Rightarrow> ''no_slots''),
         cs_video_id = map_option video_id video, cs_frame_number = None,
         cs_slots = [],
         cs_summary = \<lparr> sm_total_slots = 0, sm_occupied = 0, sm_free = 0,
                        sm_occupancy_rate = 0 \<rparr> \<rparr>
   \<and> os_total_slots (get_occupancy_stats g thr ds []) = 0
   \<and> os_average_occupancy_rate (get_occupancy_stats g thr ds []) = 0
   \<and> (\<forall>t \<in> set (os_timeline (get_occupancy_stats g thr ds [])).
         tl_total_slots t = 0 \<and> tl_occupied_slots t = 0 \<and> tl_occupancy_rate t = 0)
   \<and> (\<exists>m. snd (snd (process_video_task cfg g video [] vfile frame_stride_arg
                         confidence_threshold_arg)) = Inl (ValueError m))
   \<and> process_video_task cfg g (Some v) [] vfile frame_stride_arg confidence_threshold_arg
       = (Some (v\<lparr> processed := False,
                    processing_error := Some ''No parking slots defined for this camera'' \<rparr>),
          [], Inl (ValueError ''No parking slots defined for this camera''))"
proof (intro conjI ballI)
  show "get_current_parking_status rnd g thr video [] ds
     = \<lparr> cs_status = (case video of None \<Rightarrow> ''no_data'' | Some v \<Rightarrow> ''no_slots''),
         cs_video_id = map_option video_id video, cs_frame_number = None,
         cs_slots = [],
         cs_summary = \<lparr> sm_total_slots = 0, sm_occupied = 0, sm_free = 0,
                        sm_occupancy_rate = 0 \<rparr> \<rparr>"
    by (cases video) (simp_all add: get_current_parking_status_def)
  show "os_total_slots (get_occupancy_stats g thr ds []) = 0"
    by (simp add: get_occupancy_stats_def Let_def)
  have rates: "\<And>t. t \<in> set (os_timeline (get_occupancy_stats g thr ds [])) \<Longrightarrow>
          tl_total_slots t = 0 \<and> tl_occupied_slots t = 0 \<and> tl_occupancy_rate t = 0"
  proof -
    fix t assume t: "t \<in> set (os_timeline (get_occupancy_stats g thr ds []))"
    from timeline_rate_unit [OF t] have r: "tl_occupancy_rate t
           = (if tl_total_slots t > 0 then real (tl_occupied_slots t) / real (tl_total_slots t) else 0)"
      by simp
    from t obtain x where x: "x \<in> set (group_by_frame g thr (slot_polygons_of g []) ds [])"
      and f: "tl_total_slots t = 0" "tl_occupied_slots t = card (fe_occupied_slots (snd x))"
      unfolding os_timeline_eq by (auto simp: occupancy_timeline_def Let_def)
    obtain k e where xe: "x = (k, e)" by (cases x) auto
    have "distinct (map fst (group_by_frame g thr (slot_polygons_of g []) ds []))"
      by (rule distinct_group_by_frame) simp
    with x xe have m: "map_of (group_by_frame g thr (slot_polygons_of g []) ds []) k = Some e"
      by simp
    have "fe_occupied_slots e = {}"
      using group_by_frame_occupied [OF m] by (auto simp: slot_polygons_of_def)
    with f xe r show "tl_total_slots t = 0 \<and> tl_occupied_slots t = 0 \<and> tl_occupancy_rate t = 0"
      by simp
  qed
  show "os_average_occupancy_rate (get_occupancy_stats g thr ds []) = 0"
  proof -
    have "\<forall>t \<in> set (os_timeline (get_occupancy_stats g thr ds [])). tl_occupancy_rate t = 0"
      using rates by blast
    then have "sum_list (map tl_occupancy_rate (os_timeline (get_occupancy_stats g thr ds []))) = 0"
      by (rule sum_list_all_zero)
    then show ?thesis
      by (simp add: get_occupancy_stats_def Let_def)
  qed
  fix t assume "t \<in> set (os_timeline (get_occupancy_stats g thr ds []))"
  from rates [OF this]
  show "tl_total_slots t = 0" and "tl_occupied_slots t = 0" and "tl_occupancy_rate t = 0"
    by simp_all
next
  show "\<exists>m. snd (snd (process_video_task cfg g video [] vfile frame_stride_arg
                         confidence_threshold_arg)) = Inl (ValueError m)"
    by (cases video) (simp_all add: process_video_task_def Let_def)
  show "process_video_task cfg g (Some v) [] vfile frame_stride_arg confidence_threshold_arg
       = (Some (v\<lparr> processed := False,
                    processing_error := Some ''No parking slots defined for this camera'' \<rparr>),
          [], Inl (ValueError ''No parking slots defined for this camera''))"
    by (simp add: process_video_task_def Let_def)
qed

lemma timeline_no_slots_example:
  "os_timeline (get_occupancy_stats rect_geometry (3 / 10) [car_detection 0 (0, 0, 2, 1)] [])
     = [\<lparr> tl_frame_number = 0, tl_frame_time = 0, tl_total_slots = 0, tl_occupied_slots = 0,
          tl_free_slots = 0, tl_occupancy_rate = 0, tl_total_detections = 1 \<rparr>]"
  by (simp add: get_occupancy_stats_def occupancy_timeline_def slot_polygons_of_def
      add_to_frame_def car_detection_def)

text \<open>One detection in frame \<open>0\<close> and no slot.\<close>

theorem no_slots_outcomes_witness:
  "os_timeline (get_occupancy_stats rect_geometry (3 / 10) [car_detection 0 (0, 0, 2, 1)] [])
     = [\<lparr> tl_frame_number = 0, tl_frame_time = 0, tl_total_slots = 0, tl_occupied_slots = 0,
          tl_free_slots = 0, tl_occupancy_rate = 0, tl_total_detections = 1 \<rparr>]
   \<and> tl_total_slots (hd (os_timeline (get_occupancy_stats rect_geometry (3 / 10)
                      [car_detection 0 (0, 0, 2, 1)] []))) = 0
   \<and> tl_occupied_slots (hd (os_timeline (get_occupancy_stats rect_geometry (3 / 10)
                      [car_detection 0 (0, 0, 2, 1)] []))) = 0
   \<and> tl_occupancy_rate (hd (os_timeline (get_occupancy_stats rect_geometry (3 / 10)
                      [car_detection 0 (0, 0, 2, 1)] []))) = 0
   \<and> cs_status (get_current_parking_status round2 rect_geometry (3 / 10)
         (Some (processed_video 9)) [] [car_detection 0 (0, 0, 2, 1)]) = ''no_slots''
   \<and> cs_status (get_current_parking_status round2 rect_geometry (3 / 10)
         None [] [car_detection 0 (0, 0, 2, 1)]) = ''no_data''"
proof -
  note t = no_slots_outcomes
    [where rnd = round2 and g = rect_geometry and thr = "3 / 10"
       and video = "Some (processed_video 9)" and ds = "[car_detection 0 (0, 0, 2, 1)]"
       and cfg = default_settings and vfile = "Some two_frame_video"
       and frame_stride_arg = None and confidence_threshold_arg = None
       and v = "processed_video 9"]
  note t' = no_slots_outcomes
    [where rnd = round2 and g = rect_geometry and thr = "3 / 10"
       and video = "None" and ds = "[car_detection 0 (0, 0, 2, 1)]"
       and cfg = default_settings and vfile = "Some two_frame_video"
       and frame_stride_arg = None and confidence_threshold_arg = None
       and v = "processed_video 9"]
  note c4 = t [THEN conjunct2, THEN conjunct2, THEN conjunct2, THEN conjunct1]
  have s: "cs_status (get_current_parking_status round2 rect_geometry (3 / 10)
         (Some (processed_video 9)) [] [car_detection 0 (0, 0, 2, 1)]) = ''no_slots''"
    by (subst t [THEN conjunct1]) simp
  have s': "cs_status (get_current_parking_status round2 rect_geometry (3 / 10)
         None [] [car_detection 0 (0, 0, 2, 1)]) = ''no_data''"
    by (subst t' [THEN conjunct1]) simp
  have mem: "hd (os_timeline (get_occupancy_stats rect_geometry (3 / 10)
                      [car_detection 0 (0, 0, 2, 1)] []))
               \<in> set (os_timeline (get_occupancy_stats rect_geometry (3 / 10)
                      [car_detection 0 (0, 0, 2, 1)] []))"
    by (subst (1 2) timeline_no_slots_example) simp
  note c4a = bspec [OF c4 mem, THEN conjunct1]
  note c4b = bspec [OF c4 mem, THEN conjunct2, THEN conjunct1]
  note c4c = bspec [OF c4 mem, THEN conjunct2, THEN conjunct2]
  show ?thesis
    by (intro conjI timeline_no_slots_example c4a c4b c4c s s')
qed

end
